(* ===== verification/Prelude.thy ===== *)
theory Prelude
  imports Main "HOL-Library.Word"
begin

text \<open>
  Shared vocabulary of the development: the types that name the model's
  quantities (timestamps in milliseconds, bytes), the collections of facts
  that the component theories extend, and generic lemmas on lists and
  options that every component's proofs use.  Nothing here models code of
  the repository.
\<close>

named_theorems model_simps "equations of the model's operations, for simp add:"
named_theorems inv_rules "invariant-preservation lemmas of single operations"

type_synonym timestamp = nat \<comment> \<open>JavaScript \<open>Date.now()\<close>: milliseconds since the epoch\<close>
type_synonym byte = "8 word"

text \<open>\<open>map_where P f xs\<close> rewrites the rows that satisfy \<open>P\<close> (an SQL \<open>UPDATE ... WHERE\<close>).\<close>

definition map_where :: "('a \<Rightarrow> bool) \<Rightarrow> ('a \<Rightarrow> 'a) \<Rightarrow> 'a list \<Rightarrow> 'a list" where
  "map_where P f xs = map (\<lambda>x. if P x then f x else x) xs"


subsection \<open>First match in a list\<close>

text \<open>
  \<open>List.find\<close> is the model of a query that returns the first row of a table
  that satisfies a condition (\<open>findOne\<close>).
\<close>

lemma find_SomeD [dest]: "List.find P xs = Some x \<Longrightarrow> x \<in> set xs \<and> P x"
  by (auto simp: find_Some_iff)

lemma find_None_ball: "List.find P xs = None \<longleftrightarrow> (\<forall>x\<in>set xs. \<not> P x)"
  by (auto simp: find_None_iff)

lemma find_append_None:
  "List.find P xs = None \<Longrightarrow> List.find P (xs @ ys) = List.find P ys"
  by (induction xs) auto

lemma find_unique:
  assumes "x \<in> set xs" "P x" "\<forall>y\<in>set xs. P y \<longrightarrow> y = x"
  shows "List.find P xs = Some x"
  using assms
proof (induction xs)
  case Nil
  then show ?case by simp
next
  case (Cons a xs)
  show ?case
  proof (cases "P a")
    case True
    with Cons.prems(3) have "a = x" by simp
    with True show ?thesis by simp
  next
    case False
    with Cons.prems(1,2) have "x \<in> set xs" by auto
    moreover from Cons.prems(3) have "\<forall>y\<in>set xs. P y \<longrightarrow> y = x" by simp
    ultimately have "List.find P xs = Some x" using Cons.IH Cons.prems(2) by blast
    with False show ?thesis by simp
  qed
qed

lemma find_map_eq:
  "List.find P (map f xs) = map_option f (List.find (P \<circ> f) xs)"
  by (induction xs) auto

subsection \<open>Updating the rows that satisfy a condition\<close>

lemma set_map_where_sub:
  "y \<in> set (map_where P f xs) \<Longrightarrow> (y \<in> set xs \<and> \<not> P y) \<or> (\<exists>x\<in>set xs. P x \<and> y = f x)"
  by (auto simp: map_where_def split: if_splits)

lemma length_map_where [simp]: "length (map_where P f xs) = length xs"
  by (simp add: map_where_def)

lemma map_where_append [simp]:
  "map_where P f (xs @ ys) = map_where P f xs @ map_where P f ys"
  by (simp add: map_where_def)

lemma map_where_Nil [simp]: "map_where P f [] = []"
  by (simp add: map_where_def)

lemma map_where_Cons [simp]:
  "map_where P f (x # xs) = (if P x then f x else x) # map_where P f xs"
  by (simp add: map_where_def)

lemma map_where_map: "map g (map_where P f xs) = map (\<lambda>x. if P x then g (f x) else g x) xs"
  by (simp add: map_where_def)

lemma map_where_cong_id: "\<forall>x\<in>set xs. P x \<longrightarrow> f x = x \<Longrightarrow> map_where P f xs = xs"
  by (induction xs) auto

lemma distinct_map_where_const:
  assumes "distinct (map k xs)"
    and "\<forall>x\<in>set xs. \<not> P x \<longrightarrow> k x \<noteq> k y"
    and "\<forall>x\<in>set xs. \<forall>z\<in>set xs. P x \<longrightarrow> P z \<longrightarrow> x = z"
  shows "distinct (map k (map_where P (\<lambda>_. y) xs))"
  using assms
proof (induction xs)
  case Nil
  then show ?case by simp
next
  case (Cons a xs)
  show ?case
  proof (cases "P a")
    case True
    from Cons.prems(1) have "a \<notin> set xs" by auto
    with True Cons.prems(3) have "\<forall>x\<in>set xs. \<not> P x" by auto
    then have "map_where P (\<lambda>_. y) xs = xs" by (simp add: map_where_cong_id)
    with True Cons.prems show ?thesis by auto
  next
    case False
    have "distinct (map k (map_where P (\<lambda>_. y) xs))"
      using Cons.prems by (intro Cons.IH) auto
    moreover have "k a \<notin> k ` set (map_where P (\<lambda>_. y) xs)"
      using Cons.prems False by (auto dest: set_map_where_sub)
    ultimately show ?thesis using False by simp
  qed
qed
lemma distinct_map_eqD:
  "distinct (map k xs) \<Longrightarrow> x \<in> set xs \<Longrightarrow> y \<in> set xs \<Longrightarrow> k x = k y \<Longrightarrow> x = y"
  by (auto simp: distinct_map inj_on_def)

lemma find_map_where_const:
  "Q y \<Longrightarrow> \<exists>x\<in>set xs. Q x \<Longrightarrow> List.find Q (map_where Q (\<lambda>_. y) xs) = Some y"
  by (induction xs) auto

lemma list_all_map_where_const:
  "list_all P xs \<Longrightarrow> P y \<Longrightarrow> list_all P (map_where Q (\<lambda>_. y) xs)"
  by (induction xs) auto

lemma filter_length_le1_unique:
  assumes "length (filter P xs) \<le> 1" "x \<in> set xs" "y \<in> set xs" "P x" "P y"
  shows "x = y"
proof (rule ccontr)
  assume "x \<noteq> y"
  with assms(2-5) have "{x, y} \<subseteq> set (filter P xs)" by auto
  then have "card {x, y} \<le> card (set (filter P xs))" by (simp add: card_mono)
  also have "\<dots> \<le> length (filter P xs)" by (rule card_length)
  finally show False using \<open>x \<noteq> y\<close> assms(1) by simp
qed

lemma map_where_mem: "x \<in> set xs \<Longrightarrow> P x \<Longrightarrow> f x \<in> set (map_where P f xs)"
  by (induction xs) auto

lemma find_Some_exists: "\<exists>x\<in>set xs. P x \<Longrightarrow> \<exists>y. List.find P xs = Some y \<and> y \<in> set xs \<and> P y"
  by (induction xs) auto

lemma map_where_const_twice:
  "P b \<Longrightarrow> map_where P (\<lambda>_. a) (map_where P (\<lambda>_. b) xs) = map_where P (\<lambda>_. a) xs"
  by (induction xs) (auto simp: map_where_def)

subsection \<open>Options\<close>

lemma option_case_eq_Some_iff:
  "(case x of None \<Rightarrow> None | Some y \<Rightarrow> f y) = Some z \<longleftrightarrow> (\<exists>y. x = Some y \<and> f y = Some z)"
  by (cases x) auto

end
