(* ===== verification/Js.thy ===== *)
theory Js
  imports Prelude
begin

text \<open>
  The JavaScript built-ins that the handlers of \<open>src/\<close> call on request data:
  truthiness of a body field that may be \<open>undefined\<close>, \<open>String.prototype.trim\<close>,
  \<open>startsWith\<close>, \<open>split\<close> on a one-character separator and array indexing that
  yields \<open>undefined\<close> out of range, and the reading of an environment
  variable with a default.  They are modelled from the ECMAScript
  specification (they are not code of the repository).  A JSON body field is
  \<open>string option\<close>: \<open>None\<close> is \<open>undefined\<close>.  Strings are byte strings, so
  \<open>length\<close> counts bytes where JavaScript counts UTF-16 units; they agree on
  ASCII text.
\<close>

type_synonym field = "string option"

definition field_str :: "field \<Rightarrow> string" where
  "field_str v = (case v of None \<Rightarrow> [] | Some s \<Rightarrow> s)"

definition js_falsy :: "field \<Rightarrow> bool" where
  "js_falsy v = (case v of None \<Rightarrow> True | Some s \<Rightarrow> s = [])"

definition is_ws :: "char \<Rightarrow> bool" where
  "is_ws c = (c = CHR '' '' \<or> ((9::nat) \<le> of_char c \<and> of_char c \<le> (13::nat)))"

definition js_trim :: "string \<Rightarrow> string" where
  "js_trim s = rev (dropWhile is_ws (rev (dropWhile is_ws s)))"

definition starts_with :: "string \<Rightarrow> string \<Rightarrow> bool" where
  "starts_with s p = (take (length p) s = p)"

text \<open>\<open>s.split(c)\<close>: the pieces between occurrences of \<open>c\<close>, empty pieces kept.\<close>

fun js_split :: "char \<Rightarrow> string \<Rightarrow> string list" where
  "js_split c [] = [[]]"
| "js_split c (x # xs) =
     (if x = c then [] # js_split c xs
      else (case js_split c xs of [] \<Rightarrow> [[x]] | p # ps \<Rightarrow> (x # p) # ps))"

fun join_with :: "char \<Rightarrow> string list \<Rightarrow> string" where
  "join_with c [] = []"
| "join_with c [p] = p"
| "join_with c (p # ps) = p @ c # join_with c ps"

definition js_index :: "'a list \<Rightarrow> nat \<Rightarrow> 'a option" where
  "js_index xs i = (if i < length xs then Some (xs ! i) else None)"

subsection \<open>\<open>validator.isEmail\<close>\<close>

text \<open>
  The \<open>isEmail\<close> check of the \<open>validator\<close> package, used by \<open>validators.js\<close> and
  by the model's \<open>isEmail\<close> constraint, with its default options, restricted to
  ASCII: the text after the last \<open>@\<close> is a domain of at least two labels
  (letters, digits, inner hyphens; at most 63 bytes each; an alphabetic
  top-level label of two or more letters; at most 254 bytes), the text before
  it a non-empty local part of at most 64 bytes whose dot-separated pieces
  are non-empty runs of letters, digits and \<open>!#$%&*+-/=?^_{|}~\<close>.
\<close>

definition is_alnum :: "char \<Rightarrow> bool" where
  "is_alnum c = (let k = of_char c :: nat in
     (48 \<le> k \<and> k \<le> 57) \<or> (65 \<le> k \<and> k \<le> 90) \<or> (97 \<le> k \<and> k \<le> 122))"

definition is_alpha :: "char \<Rightarrow> bool" where
  "is_alpha c = (let k = of_char c :: nat in (65 \<le> k \<and> k \<le> 90) \<or> (97 \<le> k \<and> k \<le> 122))"

definition domain_label_ok :: "string \<Rightarrow> bool" where
  "domain_label_ok l = (l \<noteq> [] \<and> length l \<le> 63 \<and> list_all (\<lambda>c. is_alnum c \<or> c = CHR ''-'') l
     \<and> hd l \<noteq> CHR ''-'' \<and> last l \<noteq> CHR ''-'')"

definition is_fqdn :: "string \<Rightarrow> bool" where
  "is_fqdn d = (let ls = js_split (CHR ''.'') d in
     length d \<le> 254 \<and> 2 \<le> length ls \<and> list_all domain_label_ok ls
     \<and> 2 \<le> length (last ls) \<and> list_all is_alpha (last ls))"

definition local_part_ok :: "string \<Rightarrow> bool" where
  "local_part_ok u = (u \<noteq> [] \<and> length u \<le> 64 \<and>
     list_all (\<lambda>p. p \<noteq> [] \<and> list_all (\<lambda>c. is_alnum c \<or> c \<in> set ''!#$%&*+-/=?^_{|}~'') p)
       (js_split (CHR ''.'') u))"

definition is_email :: "string \<Rightarrow> bool" where
  "is_email s = (let ps = js_split (CHR ''@'') s in
     2 \<le> length ps \<and> is_fqdn (last ps) \<and> local_part_ok (join_with (CHR ''@'') (butlast ps)))"

subsection \<open>Environment variables\<close>

text \<open>
  \<open>process.env\<close>: the variables set for the process.  \<open>process.env.K || d\<close>
  gives \<open>d\<close> when \<open>K\<close> is unset or empty, the empty string being falsy.
\<close>

type_synonym env_vars = "string \<Rightarrow> string option"

definition env_or :: "env_vars \<Rightarrow> string \<Rightarrow> string \<Rightarrow> string" where
  "env_or vars k d = (case vars k of Some v \<Rightarrow> if v = [] then d else v | None \<Rightarrow> d)"

subsection \<open>Lemmas\<close>

lemma js_falsy_simps [simp]:
  "js_falsy None" "js_falsy (Some s) \<longleftrightarrow> s = []"
  by (simp_all add: js_falsy_def)

lemma js_split_not_Nil [simp]: "js_split c s \<noteq> []"
  by (induction s) (auto split: list.splits)

lemma js_split_pieces: "p \<in> set (js_split c s) \<Longrightarrow> c \<notin> set p"
proof (induction s arbitrary: p)
  case Nil
  then show ?case by simp
next
  case (Cons x xs)
  then show ?case by (auto split: if_splits list.splits)
qed

lemma join_with_Cons_Cons:
  "join_with c (p # q # ps) = p @ c # join_with c (q # ps)"
  by simp

lemma join_with_split: "join_with c (js_split c s) = s"
proof (induction s)
  case Nil
  then show ?case by simp
next
  case (Cons x xs)
  obtain p ps where sp: "js_split c xs = p # ps"
    by (cases "js_split c xs") auto
  show ?case
  proof (cases "x = c")
    case True
    with Cons.IH sp show ?thesis by simp
  next
    case False
    with Cons.IH sp show ?thesis by (cases ps) auto
  qed
qed

lemma js_split_append_sep:
  "c \<notin> set p \<Longrightarrow> js_split c (p @ c # s) = p # js_split c s"
  by (induction p) auto

lemma js_split_no_sep: "c \<notin> set p \<Longrightarrow> js_split c p = [p]"
  by (induction p) auto

lemma split_join_with:
  "ps \<noteq> [] \<Longrightarrow> \<forall>p\<in>set ps. c \<notin> set p \<Longrightarrow> js_split c (join_with c ps) = ps"
proof (induction c ps rule: join_with.induct)
  case (3 c p q ps)
  then show ?case by (simp add: js_split_append_sep)
qed (auto simp: js_split_no_sep)

lemma js_index_simps [simp]:
  "js_index [] i = None" "js_index (x # xs) 0 = Some x"
  "js_index (x # xs) (Suc i) = js_index xs i"
  by (simp_all add: js_index_def)

lemma starts_with_append [simp]: "starts_with (p @ s) p"
  by (simp add: starts_with_def)

lemma js_trim_Nil_iff: "js_trim s = [] \<longleftrightarrow> (\<forall>c\<in>set s. is_ws c)"
proof
  assume "js_trim s = []"
  then have "\<forall>c\<in>set (dropWhile is_ws s). is_ws c"
    by (simp add: js_trim_def dropWhile_eq_Nil_conv)
  then have "dropWhile is_ws s = []"
    using hd_dropWhile [of is_ws s] by (cases "dropWhile is_ws s") auto
  then show "\<forall>c\<in>set s. is_ws c"
    by (simp add: dropWhile_eq_Nil_conv)
next
  assume "\<forall>c\<in>set s. is_ws c"
  then show "js_trim s = []"
    by (auto simp: js_trim_def dropWhile_eq_Nil_conv dest: set_dropWhileD)
qed

end
