(* ===== verification/Crypto.thy ===== *)
theory Crypto
  imports Prelude
begin

text \<open>
  The cryptographic library calls of the backend, modelled from their
  documented contracts (none of them is code of the repository):
  \<^item> \<open>bcrypt.genSalt(10)\<close> / \<open>bcrypt.hash\<close> / \<open>bcrypt.compare\<close> (bcryptjs): a stored
    password value is either a plaintext just assigned by a handler or the
    bcrypt string of some value under a salt.  The hash is symbolic: the
    datatype \<open>pw_value\<close> records what was hashed, so that a hash of a hash
    (double hashing) is a different value from a hash of the plaintext.
    The random salt is an input chosen by the environment.  \<open>compare\<close>
    looks only at \<open>bcrypt_key\<close>, the 72 bytes the key schedule reads, so
    the bytes of a password after its 72nd are ignored.
  \<^item> \<open>crypto.randomBytes(20).toString('hex')\<close>: the random bytes are an input;
    the hex rendering is modelled exactly (two lowercase digits per byte).
  \<^item> \<open>crypto.createHash('sha256').update(s).digest('hex')\<close>: a parameter
    \<open>digest :: string \<Rightarrow> string\<close> of the configuration; theorems that need the
    hash to separate two secrets say so by a hypothesis.
\<close>

type_synonym salt = nat

datatype pw_value = Plain string | Bcrypt salt pw_value

definition bcrypt_hash :: "salt \<Rightarrow> pw_value \<Rightarrow> pw_value" where
  "bcrypt_hash s v = Bcrypt s v"

text \<open>
  The key bcrypt actually hashes: bcryptjs appends a NUL byte to the
  password (minor version \<open>b\<close>) and the Eksblowfish key schedule reads the
  first 72 bytes of that string repeated cyclically.  Two passwords with the
  same first 72 bytes therefore have the same key, whatever follows.
\<close>

definition bcrypt_max_bytes :: nat where
  "bcrypt_max_bytes = 72"

definition bcrypt_key :: "string \<Rightarrow> string" where
  "bcrypt_key p = take bcrypt_max_bytes (concat (replicate bcrypt_max_bytes (p @ [CHR 0x00])))"

text \<open>
  \<open>bcrypt.compare(entered, stored)\<close>: true iff \<open>stored\<close> is the bcrypt string
  of a plaintext with the same key as the entered one; a value that is not
  a bcrypt string never matches, and neither does the hash of a hash (the
  entered value would have to be the inner 60-character bcrypt string).
\<close>

fun bcrypt_compare :: "string \<Rightarrow> pw_value \<Rightarrow> bool" where
  "bcrypt_compare e (Plain h) = False"
| "bcrypt_compare e (Bcrypt s (Plain p)) = (bcrypt_key p = bcrypt_key e)"
| "bcrypt_compare e (Bcrypt s (Bcrypt s' v)) = False"

fun is_bcrypt_of_plain :: "pw_value \<Rightarrow> bool" where
  "is_bcrypt_of_plain (Bcrypt s (Plain p)) = True"
| "is_bcrypt_of_plain _ = False"

subsection \<open>Hex rendering of random bytes\<close>

definition hex_digit :: "nat \<Rightarrow> char" where
  "hex_digit n = (if n < 10 then char_of (48 + n) else char_of (87 + n))"

definition byte_hex :: "byte \<Rightarrow> string" where
  "byte_hex b = [hex_digit (unat b div 16), hex_digit (unat b mod 16)]"

definition hex_string :: "byte list \<Rightarrow> string" where
  "hex_string bs = concat (map byte_hex bs)"

definition hex_val :: "char \<Rightarrow> nat option" where
  "hex_val c = (let k = of_char c :: nat in
     if 48 \<le> k \<and> k \<le> 57 then Some (k - 48)
     else if 97 \<le> k \<and> k \<le> 102 then Some (k - 87) else None)"

fun hex_decode :: "string \<Rightarrow> byte list option" where
  "hex_decode [] = Some []"
| "hex_decode [c] = None"
| "hex_decode (c # d # cs) =
     (case (hex_val c, hex_val d, hex_decode cs) of
        (Some h, Some l, Some bs) \<Rightarrow> Some (of_nat (16 * h + l) # bs)
      | _ \<Rightarrow> None)"

definition is_hex_char :: "char \<Rightarrow> bool" where
  "is_hex_char c = (hex_val c \<noteq> None)"

text \<open>The characters \<open>toString('hex')\<close> writes.\<close>

definition hex_alphabet :: string where
  "hex_alphabet = ''0123456789abcdef''"

subsection \<open>Lemmas\<close>

lemma bcrypt_compare_hash [simp]:
  "bcrypt_compare e (bcrypt_hash s (Plain p)) \<longleftrightarrow> bcrypt_key e = bcrypt_key p"
  by (auto simp: bcrypt_hash_def)

lemma bcrypt_max_bytes_pos: "0 < bcrypt_max_bytes"
  by (simp add: bcrypt_max_bytes_def)

lemma bcrypt_key_unfold:
  "bcrypt_key p = take bcrypt_max_bytes (p @ CHR 0x00 # concat (replicate (bcrypt_max_bytes - 1) (p @ [CHR 0x00])))"
proof -
  obtain k where k: "bcrypt_max_bytes = Suc k" using bcrypt_max_bytes_pos by (cases bcrypt_max_bytes) auto
  show ?thesis unfolding bcrypt_key_def k by simp
qed

lemma bcrypt_key_long: "bcrypt_max_bytes \<le> length p \<Longrightarrow> bcrypt_key p = take bcrypt_max_bytes p"
  by (simp add: bcrypt_key_unfold)

lemma bcrypt_key_short:
  "length p < bcrypt_max_bytes \<Longrightarrow> \<exists>r. bcrypt_key p = p @ CHR 0x00 # r"
  by (simp add: bcrypt_key_unfold take_Cons')

lemma bcrypt_key_nul_free:
  "CHR 0x00 \<notin> set p \<Longrightarrow> takeWhile (\<lambda>c. c \<noteq> CHR 0x00) (bcrypt_key p) = take bcrypt_max_bytes p"
proof (cases "bcrypt_max_bytes \<le> length p")
  case True
  assume "CHR 0x00 \<notin> set p"
  then have "\<forall>c\<in>set (take bcrypt_max_bytes p). c \<noteq> CHR 0x00" by (auto dest: in_set_takeD)
  with True show ?thesis by (simp add: bcrypt_key_long)
next
  case False
  assume n: "CHR 0x00 \<notin> set p"
  obtain r where "bcrypt_key p = p @ CHR 0x00 # r" using False bcrypt_key_short by fastforce
  moreover have "\<And>x. x \<in> set p \<Longrightarrow> x \<noteq> CHR 0x00" using n by auto
  ultimately show ?thesis using False by (simp add: takeWhile_append2)
qed

lemma bcrypt_key_eq_iff:
  assumes p: "CHR 0x00 \<notin> set p" and q: "CHR 0x00 \<notin> set q"
  shows "bcrypt_key p = bcrypt_key q \<longleftrightarrow> take bcrypt_max_bytes p = take bcrypt_max_bytes q"
proof
  assume "bcrypt_key p = bcrypt_key q"
  then show "take bcrypt_max_bytes p = take bcrypt_max_bytes q"
    using bcrypt_key_nul_free [OF p] bcrypt_key_nul_free [OF q] by simp
next
  assume t: "take bcrypt_max_bytes p = take bcrypt_max_bytes q"
  then have m: "min (length p) bcrypt_max_bytes = min (length q) bcrypt_max_bytes"
    by (metis length_take)
  show "bcrypt_key p = bcrypt_key q"
  proof (cases "bcrypt_max_bytes \<le> length p")
    case True
    with m have "bcrypt_max_bytes \<le> length q" by (simp add: min_def split: if_splits)
    with True t show ?thesis by (simp add: bcrypt_key_long)
  next
    case False
    with m have "length q < bcrypt_max_bytes" by (simp add: min_def split: if_splits)
    with False t have "p = q" by simp
    then show ?thesis by simp
  qed
qed

lemma bcrypt_key_inj_short:
  "CHR 0x00 \<notin> set p \<Longrightarrow> CHR 0x00 \<notin> set q \<Longrightarrow> length p \<le> bcrypt_max_bytes \<Longrightarrow>
   length q \<le> bcrypt_max_bytes \<Longrightarrow> bcrypt_key p = bcrypt_key q \<longleftrightarrow> p = q"
  by (simp add: bcrypt_key_eq_iff)

lemma bcrypt_hash_not_plain [simp]: "bcrypt_hash s v \<noteq> Plain p"
  by (simp add: bcrypt_hash_def)

lemma is_bcrypt_of_plain_hash [simp]: "is_bcrypt_of_plain (bcrypt_hash s (Plain p))"
  by (simp add: bcrypt_hash_def)

lemma hex_val_digit [simp]: "n < 16 \<Longrightarrow> hex_val (hex_digit n) = Some n"
  by (auto simp: hex_val_def hex_digit_def Let_def)

lemma unat_byte_div_less: "unat (b::byte) div 16 < 16"
proof -
  have "unat b < 256" using unsigned_less [of b] by simp
  then show ?thesis by simp
qed

lemma hex_decode_byte_hex:
  "hex_decode (byte_hex b @ cs) = map_option ((#) b) (hex_decode cs)"
proof -
  have n: "16 * (unat b div 16) + unat b mod 16 = unat b" by simp
  show ?thesis
    by (auto simp: byte_hex_def unat_byte_div_less n split: option.splits)
qed

theorem hex_decode_hex_string: "hex_decode (hex_string bs) = Some bs"
  by (induction bs) (simp_all add: hex_string_def hex_decode_byte_hex)

lemma length_hex_string [simp]: "length (hex_string bs) = 2 * length bs"
  by (induction bs) (simp_all add: hex_string_def byte_hex_def)

lemma hex_string_inj: "hex_string as = hex_string bs \<longleftrightarrow> as = bs"
  by (metis hex_decode_hex_string option.inject)

lemma hex_digit_is_hex: "n < 16 \<Longrightarrow> is_hex_char (hex_digit n)"
  by (simp add: is_hex_char_def)

lemma hex_string_chars: "c \<in> set (hex_string bs) \<Longrightarrow> is_hex_char c"
  by (auto simp: hex_string_def byte_hex_def unat_byte_div_less hex_digit_is_hex)


lemma hex_digit_lower: "n < 16 \<Longrightarrow> hex_digit n \<in> set hex_alphabet"
proof -
  have "\<forall>k\<in>set [0..<16]. hex_digit k \<in> set hex_alphabet"
    by code_simp
  then show "n < 16 \<Longrightarrow> ?thesis" by simp
qed

lemma hex_string_lower: "set (hex_string bs) \<subseteq> set hex_alphabet"
  by (auto simp: hex_string_def byte_hex_def unat_byte_div_less hex_digit_lower)

text \<open>
  Twenty random bytes give \<open>2^160\<close> secrets; under a digest injective on
  them, fewer stored digests than that leave a secret whose digest is new.
\<close>

lemma fresh_bytes_exist:
  assumes inj: "inj_on f (hex_string ` {bs :: byte list. length bs = 20})"
    and fin: "finite T" and few: "card T < 2 ^ 160"
  shows "\<exists>bs :: byte list. length bs = 20 \<and> f (hex_string bs) \<notin> T"
proof (rule ccontr)
  let ?S = "{bs :: byte list. set bs \<subseteq> UNIV \<and> length bs = 20}"
  assume "\<not> ?thesis"
  then have sub: "(\<lambda>bs. f (hex_string bs)) ` ?S \<subseteq> T" by auto
  have "inj_on (\<lambda>bs. f (hex_string bs)) ?S"
    using inj by (auto simp: inj_on_def hex_string_inj)
  then have "card ?S \<le> card T" using sub fin by (rule card_inj_on_le)
  moreover have "card ?S = 2 ^ 160"
    using card_lists_length_eq [of "UNIV :: byte set" 20] by (simp add: card_word)
  ultimately show False using few by simp
qed

end
