(* ===== verification/Jwt.thy ===== *)
theory Jwt
  imports Js Crypto
begin

text \<open>
  The \<open>jsonwebtoken\<close> calls of the backend, \<open>jwt.sign(payload, secret,
  {expiresIn})\<close> and \<open>jwt.verify(token, secret)\<close>, modelled from the library's
  contract (not code of the repository).  A token is the string
  \<open>header.payload.signature\<close> of three dot-separated parts; the model renders
  each part in lowercase hex where the library uses base64url, and renders
  the claims \<open>{id, username, iat, exp}\<close> as the comma-separated decimal numbers
  and the hex-rendered name where the library writes JSON.  The HMAC-SHA256
  of the signing input under the secret is the parameter \<open>hmac\<close>.
  \<open>verify\<close> fails (the library throws) on a token that does not have three
  parts, whose parts do not decode, whose signature is not the HMAC of
  \<open>header.payload\<close> under the secret, or whose \<open>exp\<close> is not after the
  current time in seconds; the three failures are not distinguished.
\<close>

record jwt_claims =
  claim_id :: nat
  claim_username :: string
  claim_iat :: nat
  claim_exp :: nat

type_synonym hmac_fn = "string \<Rightarrow> string \<Rightarrow> byte list"

subsection \<open>Decimal numbers and text as bytes\<close>

fun dec :: "nat \<Rightarrow> string" where
  "dec n = (if n < 10 then [char_of (48 + n)] else dec (n div 10) @ [char_of (48 + n mod 10)])"

definition digit_val :: "char \<Rightarrow> nat option" where
  "digit_val c = (let k = of_char c :: nat in if 48 \<le> k \<and> k \<le> 57 then Some (k - 48) else None)"

fun parse_dec_acc :: "nat \<Rightarrow> string \<Rightarrow> nat option" where
  "parse_dec_acc acc [] = Some acc"
| "parse_dec_acc acc (c # cs) =
     (case digit_val c of None \<Rightarrow> None | Some d \<Rightarrow> parse_dec_acc (10 * acc + d) cs)"

definition parse_dec :: "string \<Rightarrow> nat option" where
  "parse_dec s = (if s = [] then None else parse_dec_acc 0 s)"

definition text_bytes :: "string \<Rightarrow> byte list" where
  "text_bytes s = map (\<lambda>c. of_nat (of_char c)) s"

definition bytes_text :: "byte list \<Rightarrow> string" where
  "bytes_text bs = map (\<lambda>b. char_of (unat b)) bs"

definition hex_text :: "string \<Rightarrow> string" where
  "hex_text s = hex_string (text_bytes s)"

definition unhex_text :: "string \<Rightarrow> string option" where
  "unhex_text s = map_option bytes_text (hex_decode s)"

subsection \<open>Encoding, signing, verifying\<close>

definition jwt_header :: string where
  "jwt_header = hex_text ''HS256''"

definition encode_claims :: "jwt_claims \<Rightarrow> string" where
  "encode_claims c = hex_text (join_with (CHR '','')
     [dec (claim_id c), hex_text (claim_username c), dec (claim_iat c), dec (claim_exp c)])"

definition decode_claims :: "string \<Rightarrow> jwt_claims option" where
  "decode_claims p =
     (case unhex_text p of
        None \<Rightarrow> None
      | Some t \<Rightarrow>
          (case js_split (CHR '','') t of
             [a, u, b, e] \<Rightarrow>
               (case (parse_dec a, unhex_text u, parse_dec b, parse_dec e) of
                  (Some i, Some n, Some ia, Some ex) \<Rightarrow>
                    Some \<lparr>claim_id = i, claim_username = n, claim_iat = ia, claim_exp = ex\<rparr>
                | _ \<Rightarrow> None)
           | _ \<Rightarrow> None))"

definition jwt_sign :: "hmac_fn \<Rightarrow> string \<Rightarrow> nat \<Rightarrow> timestamp \<Rightarrow> nat \<Rightarrow> string \<Rightarrow> string" where
  "jwt_sign hmac secret expires_in now i name =
     (let iat = now div 1000;
          c = \<lparr>claim_id = i, claim_username = name, claim_iat = iat, claim_exp = iat + expires_in\<rparr>;
          input = jwt_header @ CHR ''.'' # encode_claims c
      in input @ CHR ''.'' # hex_string (hmac secret input))"

definition jwt_verify :: "hmac_fn \<Rightarrow> string \<Rightarrow> timestamp \<Rightarrow> string \<Rightarrow> jwt_claims option" where
  "jwt_verify hmac secret now tok =
     (case js_split (CHR ''.'') tok of
        [h, p, s] \<Rightarrow>
          (if h \<noteq> jwt_header then None
           else case decode_claims p of
             None \<Rightarrow> None
           | Some c \<Rightarrow>
               if hex_decode s \<noteq> Some (hmac secret (h @ CHR ''.'' # p)) then None
               else if claim_exp c \<le> now div 1000 then None
               else Some c)
      | _ \<Rightarrow> None)"

subsection \<open>Lemmas\<close>

lemma digit_val_dec_char: "d < 10 \<Longrightarrow> digit_val (char_of (48 + d)) = Some d"
  by (simp add: digit_val_def Let_def)

lemma parse_dec_acc_append:
  "parse_dec_acc acc (xs @ ys) = (case parse_dec_acc acc xs of None \<Rightarrow> None | Some a \<Rightarrow> parse_dec_acc a ys)"
  by (induction acc xs rule: parse_dec_acc.induct) (auto split: option.splits)

lemma dec_not_Nil [simp]: "dec n \<noteq> []"
  by (subst dec.simps) simp

declare dec.simps [simp del]

lemma parse_dec_acc_dec: "parse_dec_acc acc (dec n) = Some (acc * 10 ^ length (dec n) + n)"
proof (induction n arbitrary: acc rule: dec.induct)
  case (1 n)
  show ?case
  proof (cases "n < 10")
    case True
    then show ?thesis by (simp add: dec.simps [of n] digit_val_dec_char)
  next
    case False
    then have "parse_dec_acc acc (dec n) = parse_dec_acc acc (dec (n div 10) @ [char_of (48 + n mod 10)])"
      by (simp add: dec.simps [of n])
    also have "\<dots> = Some (10 * (acc * 10 ^ length (dec (n div 10)) + n div 10) + n mod 10)"
      using "1" False by (simp add: parse_dec_acc_append digit_val_dec_char)
    also have "\<dots> = Some (acc * 10 ^ length (dec n) + n)"
      using False by (simp add: dec.simps [of n] algebra_simps)
    finally show ?thesis .
  qed
qed

lemma parse_dec_dec [simp]: "parse_dec (dec n) = Some n"
  by (simp add: parse_dec_def parse_dec_acc_dec)

lemma dec_chars: "c \<in> set (dec n) \<Longrightarrow> (48::nat) \<le> of_char c \<and> of_char c \<le> (57::nat)"
proof (induction n rule: dec.induct)
  case (1 n)
  then show ?case by (cases "n < 10") (auto simp: dec.simps [of n])
qed

lemma bytes_text_text_bytes [simp]: "bytes_text (text_bytes s) = s"
proof -
  have "char_of (unat (of_nat (of_char c) :: byte)) = c" for c
    by (simp add: unat_of_nat)
  then show ?thesis by (simp add: bytes_text_def text_bytes_def map_idI)
qed

lemma unhex_hex_text [simp]: "unhex_text (hex_text s) = Some s"
  by (simp add: unhex_text_def hex_text_def hex_decode_hex_string)

lemma hex_char_not_sep: "is_hex_char c \<Longrightarrow> c \<noteq> CHR ''.'' \<and> c \<noteq> CHR '',''"
  by (auto simp: is_hex_char_def hex_val_def Let_def)

lemma hex_text_no_sep: "c \<in> set (hex_text s) \<Longrightarrow> c \<noteq> CHR ''.'' \<and> c \<noteq> CHR '',''"
  by (auto simp: hex_text_def dest: hex_string_chars hex_char_not_sep)

lemma dec_no_comma: "CHR '','' \<notin> set (dec n)"
  using dec_chars [of "CHR '',''" n] by auto

lemma decode_encode_claims [simp]: "decode_claims (encode_claims c) = Some c"
proof -
  let ?ps = "[dec (claim_id c), hex_text (claim_username c), dec (claim_iat c), dec (claim_exp c)]"
  have "\<forall>p\<in>set ?ps. CHR '','' \<notin> set p"
    using dec_no_comma hex_text_no_sep by fastforce
  then have "js_split (CHR '','') (join_with (CHR '','') ?ps) = ?ps"
    by (intro split_join_with) simp_all
  then show ?thesis by (simp add: decode_claims_def encode_claims_def)
qed

lemma hex_string_no_dot: "CHR ''.'' \<notin> set (hex_string bs)"
  using hex_string_chars hex_char_not_sep by blast

lemma hex_text_no_dot: "CHR ''.'' \<notin> set (hex_text s)"
  using hex_text_no_sep by blast

lemma split_three:
  "c \<notin> set a \<Longrightarrow> c \<notin> set b \<Longrightarrow> c \<notin> set d \<Longrightarrow> js_split c (a @ c # b @ c # d) = [a, b, d]"
  by (simp add: js_split_append_sep js_split_no_sep)

lemma jwt_parts_no_dot:
  "CHR ''.'' \<notin> set jwt_header" "CHR ''.'' \<notin> set (encode_claims c)"
  by (simp_all add: jwt_header_def encode_claims_def hex_text_no_dot)

theorem jwt_verify_sign:
  "jwt_verify hmac secret now' (jwt_sign hmac secret e now i n) =
   (if now div 1000 + e \<le> now' div 1000 then None
    else Some \<lparr>claim_id = i, claim_username = n, claim_iat = now div 1000, claim_exp = now div 1000 + e\<rparr>)"
  by (simp add: jwt_sign_def jwt_verify_def Let_def split_three jwt_parts_no_dot
      hex_string_no_dot hex_decode_hex_string)


lemma hex_char_not_space: "is_hex_char c \<Longrightarrow> c \<noteq> CHR '' ''"
  by (auto simp: is_hex_char_def hex_val_def Let_def)

lemma jwt_sign_no_space: "CHR '' '' \<notin> set (jwt_sign hmac secret e now i n)"
proof -
  have "CHR '' '' \<notin> set (hex_text s)" for s
    using hex_char_not_space hex_string_chars by (fastforce simp: hex_text_def)
  moreover have "CHR '' '' \<notin> set (hex_string bs)" for bs
    using hex_char_not_space hex_string_chars by blast
  ultimately show ?thesis
    by (simp add: jwt_sign_def Let_def jwt_header_def encode_claims_def)
qed

lemma jwt_sign_not_Nil [simp]: "jwt_sign hmac secret e now i n \<noteq> []"
  by (simp add: jwt_sign_def Let_def)

lemma jwt_verify_SomeD:
  assumes "jwt_verify hmac secret now tok = Some c"
  shows "\<exists>p s. tok = jwt_header @ CHR ''.'' # p @ CHR ''.'' # s \<and> decode_claims p = Some c \<and>
           hex_decode s = Some (hmac secret (jwt_header @ CHR ''.'' # p)) \<and> now div 1000 < claim_exp c"
proof -
  obtain h p s where sp: "js_split (CHR ''.'') tok = [h, p, s]"
    using assms by (auto simp: jwt_verify_def split: list.splits)
  then have "tok = h @ CHR ''.'' # p @ CHR ''.'' # s"
    using join_with_split [of "CHR ''.''" tok] by simp
  with sp assms show ?thesis
    by (auto simp: jwt_verify_def split: if_splits option.splits)
qed

lemma jwt_verify_other_secret:
  assumes "hmac secret' (jwt_header @ CHR ''.'' # encode_claims c) \<noteq> hmac secret (jwt_header @ CHR ''.'' # encode_claims c)"
    and "c = \<lparr>claim_id = i, claim_username = n, claim_iat = now div 1000, claim_exp = now div 1000 + e\<rparr>"
  shows "jwt_verify hmac secret' now' (jwt_sign hmac secret e now i n) = None"
  using assms
  by (simp add: jwt_sign_def jwt_verify_def Let_def split_three jwt_parts_no_dot
      hex_string_no_dot hex_decode_hex_string)

end
