(* ===== verification/User.thy ===== *)
theory User
  imports Jwt
begin

text \<open>
  The Sequelize model \<open>User\<close> of \<open>src/Backend/models/User.js\<close>: the row
  (\<open>user\<close>), the field constraints of its definition, the \<open>beforeCreate\<close> and
  \<open>beforeUpdate\<close> hooks and the three instance methods.  The process
  configuration that the methods read (\<open>JWT_SECRET\<close>, \<open>JWT_EXPIRE\<close>) and the
  two hash primitives are the record \<open>config\<close>; the current time, the salt
  drawn by \<open>bcrypt.genSalt\<close> and the bytes drawn by \<open>crypto.randomBytes\<close> are
  arguments.  The \<open>id\<close> column is \<open>user_id\<close> (\<open>id\<close> is HOL's identity).
\<close>

record config =
  jwt_secret :: string
  jwt_expire :: nat \<comment> \<open>\<open>JWT_EXPIRE\<close> after parsing, in seconds\<close>
  hmac :: hmac_fn
  sha256 :: "string \<Rightarrow> string"

record user =
  user_id :: nat
  username :: string
  email :: string
  password :: pw_value
  resetPasswordToken :: "string option"
  resetPasswordExpire :: "timestamp option"
  createdAt :: timestamp
  updatedAt :: timestamp

text \<open>The attributes that validation and change tracking range over, in declaration order.\<close>

datatype attr = AUsername | AEmail | APassword | AResetPasswordToken | AResetPasswordExpire

definition all_attrs :: "attr list" where
  "all_attrs = [AUsername, AEmail, APassword, AResetPasswordToken, AResetPasswordExpire]"

datatype vmsg = UsernameLength | EmailInvalid | PasswordLength | PasswordNull

subsection \<open>Field constraints\<close>

text \<open>
  \<open>len: [3, 30]\<close> on \<open>username\<close>, \<open>isEmail\<close> on \<open>email\<close>, \<open>len: [6, 100]\<close> on
  \<open>password\<close>.  Sequelize validates before the hooks run, so the password
  constraint applies to the plaintext; a bcrypt string (60 characters)
  always satisfies it.
\<close>

fun attr_errors :: "user \<Rightarrow> attr \<Rightarrow> vmsg list" where
  "attr_errors u AUsername =
     (if 3 \<le> length (username u) \<and> length (username u) \<le> 30 then [] else [UsernameLength])"
| "attr_errors u AEmail = (if is_email (email u) then [] else [EmailInvalid])"
| "attr_errors u APassword =
     (case password u of
        Plain p \<Rightarrow> if 6 \<le> length p \<and> length p \<le> 100 then [] else [PasswordLength]
      | Bcrypt _ _ \<Rightarrow> [])"
| "attr_errors u AResetPasswordToken = []"
| "attr_errors u AResetPasswordExpire = []"

definition validate :: "attr list \<Rightarrow> user \<Rightarrow> vmsg list" where
  "validate as u = concat (map (attr_errors u) (filter (\<lambda>a. a \<in> set as) all_attrs))"

text \<open>\<open>instance.changed()\<close>: the attributes whose value differs from the stored row.\<close>

definition changed_attrs :: "user \<Rightarrow> user \<Rightarrow> attr list" where
  "changed_attrs old u =
     (if username u \<noteq> username old then [AUsername] else []) @
     (if email u \<noteq> email old then [AEmail] else []) @
     (if password u \<noteq> password old then [APassword] else []) @
     (if resetPasswordToken u \<noteq> resetPasswordToken old then [AResetPasswordToken] else []) @
     (if resetPasswordExpire u \<noteq> resetPasswordExpire old then [AResetPasswordExpire] else [])"

subsection \<open>Hooks\<close>

definition beforeCreate :: "salt \<Rightarrow> user \<Rightarrow> user" where
  "beforeCreate s u = u\<lparr>password := bcrypt_hash s (password u)\<rparr>"

definition beforeUpdate :: "salt \<Rightarrow> attr list \<Rightarrow> user \<Rightarrow> user" where
  "beforeUpdate s changed u =
     (if APassword \<in> set changed then u\<lparr>password := bcrypt_hash s (password u)\<rparr> else u)"

subsection \<open>Instance methods\<close>

definition getSignedJwtToken :: "config \<Rightarrow> timestamp \<Rightarrow> user \<Rightarrow> string" where
  "getSignedJwtToken cfg t u =
     jwt_sign (hmac cfg) (jwt_secret cfg) (jwt_expire cfg) t (user_id u) (username u)"

definition matchPassword :: "user \<Rightarrow> string \<Rightarrow> bool" where
  "matchPassword u entered = bcrypt_compare entered (password u)"

definition reset_expire_ms :: nat where
  "reset_expire_ms = 10 * 60 * 1000"

definition getResetPasswordToken :: "config \<Rightarrow> timestamp \<Rightarrow> byte list \<Rightarrow> user \<Rightarrow> string \<times> user" where
  "getResetPasswordToken cfg t rnd u =
     (let resetToken = hex_string rnd
      in (resetToken,
          u\<lparr>resetPasswordToken := Some (sha256 cfg resetToken),
            resetPasswordExpire := Some (t + reset_expire_ms)\<rparr>))"

subsection \<open>Lemmas\<close>

lemma validate_Nil [simp]: "validate [] u = []"
  by (simp add: validate_def all_attrs_def)

lemma validate_password_only:
  "validate [APassword] u = attr_errors u APassword"
  by (simp add: validate_def all_attrs_def)

lemma changed_attrs_same [simp]: "changed_attrs u u = []"
  by (simp add: changed_attrs_def)

lemma beforeCreate_fields [simp]:
  "user_id (beforeCreate s u) = user_id u" "username (beforeCreate s u) = username u"
  "email (beforeCreate s u) = email u"
  "password (beforeCreate s u) = bcrypt_hash s (password u)"
  "resetPasswordToken (beforeCreate s u) = resetPasswordToken u"
  "resetPasswordExpire (beforeCreate s u) = resetPasswordExpire u"
  by (simp_all add: beforeCreate_def)

lemma beforeUpdate_frame [simp]:
  "user_id (beforeUpdate s ch u) = user_id u" "username (beforeUpdate s ch u) = username u"
  "email (beforeUpdate s ch u) = email u"
  "resetPasswordToken (beforeUpdate s ch u) = resetPasswordToken u"
  "resetPasswordExpire (beforeUpdate s ch u) = resetPasswordExpire u"
  by (simp_all add: beforeUpdate_def)

lemma getResetPasswordToken_fields:
  "getResetPasswordToken cfg t rnd u = (tok, u') \<Longrightarrow>
     tok = hex_string rnd \<and> resetPasswordToken u' = Some (sha256 cfg tok) \<and>
     resetPasswordExpire u' = Some (t + reset_expire_ms) \<and>
     u' = u\<lparr>resetPasswordToken := Some (sha256 cfg tok), resetPasswordExpire := Some (t + reset_expire_ms)\<rparr>"
  by (auto simp: getResetPasswordToken_def Let_def)

end
