(* ===== verification/Store.thy ===== *)
theory Store
  imports User
begin

text \<open>
  The table \<open>users\<close> and the Sequelize operations the controller calls on it
  (\<open>findOne\<close>, \<open>findByPk\<close>, \<open>create\<close>, \<open>instance.save\<close>).  The table is the list
  of its rows in primary-key order with the \<open>AUTO_INCREMENT\<close> counter; a query
  returns the first row that matches.  \<open>create\<close> validates every attribute,
  runs \<open>beforeCreate\<close>, then inserts unless the unique keys \<open>username\<close> or
  \<open>email\<close> are taken.  \<open>save\<close> compares the instance with its stored row,
  validates the changed attributes only, runs \<open>beforeUpdate\<close>, sets
  \<open>updatedAt\<close> and writes the row back; with nothing changed it writes nothing.
  The two errors are Sequelize's \<open>SequelizeValidationError\<close> and
  \<open>SequelizeUniqueConstraintError\<close>.
\<close>

record store =
  users :: "user list"
  next_id :: nat

datatype db_error = ValidationError "vmsg list" | UniqueConstraintError

definition empty_store :: store where
  "empty_store = \<lparr>users = [], next_id = 1\<rparr>"

definition find_one :: "(user \<Rightarrow> bool) \<Rightarrow> store \<Rightarrow> user option" where
  "find_one P st = List.find P (users st)"

definition find_by_pk :: "nat \<Rightarrow> store \<Rightarrow> user option" where
  "find_by_pk i st = find_one (\<lambda>u. user_id u = i) st"

definition new_user :: "nat \<Rightarrow> timestamp \<Rightarrow> string \<Rightarrow> string \<Rightarrow> string \<Rightarrow> user" where
  "new_user i t un em pw =
     \<lparr>user_id = i, username = un, email = em, password = Plain pw,
      resetPasswordToken = None, resetPasswordExpire = None, createdAt = t, updatedAt = t\<rparr>"

text \<open>
  A password that is \<open>undefined\<close> violates \<open>allowNull: false\<close>; Sequelize then
  reports \<open>notNull\<close> for it after the errors of the attributes before it.
\<close>

definition create_errors :: "user \<Rightarrow> string option \<Rightarrow> vmsg list" where
  "create_errors u pw =
     (case pw of None \<Rightarrow> validate [AUsername, AEmail] u @ [PasswordNull] | Some _ \<Rightarrow> validate all_attrs u)"

definition create :: "salt \<Rightarrow> timestamp \<Rightarrow> string \<Rightarrow> string \<Rightarrow> string option \<Rightarrow> store \<Rightarrow> db_error + user \<times> store" where
  "create s t un em pw st =
     (let u = new_user (next_id st) t un em (case pw of None \<Rightarrow> [] | Some p \<Rightarrow> p);
          errs = create_errors u pw
      in if errs \<noteq> [] then Inl (ValidationError errs)
         else
           let u' = beforeCreate s u
           in if list_ex (\<lambda>r. username r = un \<or> email r = em) (users st) then Inl UniqueConstraintError
              else Inr (u', st\<lparr>users := users st @ [u'], next_id := Suc (next_id st)\<rparr>))"

definition save :: "salt \<Rightarrow> timestamp \<Rightarrow> user \<Rightarrow> store \<Rightarrow> db_error + user \<times> store" where
  "save s t u st =
     (case find_by_pk (user_id u) st of
        None \<Rightarrow> Inr (u, st)
      | Some old \<Rightarrow>
          let ch = changed_attrs old u
          in if ch = [] then Inr (u, st)
             else
               let errs = validate ch u
               in if errs \<noteq> [] then Inl (ValidationError errs)
                  else
                    let u' = (beforeUpdate s ch u)\<lparr>updatedAt := t\<rparr>
                    in if list_ex (\<lambda>r. user_id r \<noteq> user_id u \<and> (username r = username u' \<or> email r = email u'))
                            (users st)
                       then Inl UniqueConstraintError
                       else Inr (u', st\<lparr>users := map_where (\<lambda>r. user_id r = user_id u) (\<lambda>_. u') (users st)\<rparr>))"

subsection \<open>Well-formedness: what the table's keys guarantee\<close>

definition store_wf :: "store \<Rightarrow> bool" where
  "store_wf st \<longleftrightarrow>
     distinct (map user_id (users st)) \<and> distinct (map username (users st)) \<and>
     distinct (map email (users st)) \<and> list_all (\<lambda>u. user_id u < next_id st) (users st)"

lemma store_wf_empty: "store_wf empty_store"
  by (simp add: store_wf_def empty_store_def)

subsection \<open>Lemmas on queries\<close>

lemma find_by_pk_SomeD: "find_by_pk i st = Some u \<Longrightarrow> u \<in> set (users st) \<and> user_id u = i"
  by (auto simp: find_by_pk_def find_one_def)

lemma find_by_pk_in:
  "store_wf st \<Longrightarrow> u \<in> set (users st) \<Longrightarrow> find_by_pk (user_id u) st = Some u"
  by (auto simp: find_by_pk_def find_one_def store_wf_def intro!: find_unique dest: distinct_map_eqD)

lemma find_one_unique_key:
  assumes "distinct (map k (users st))" "u \<in> set (users st)" "k u = x"
  shows "find_one (\<lambda>r. k r = x) st = Some u"
  using assms by (auto simp: find_one_def intro!: find_unique dest: distinct_map_eqD)

subsection \<open>\<open>create\<close>\<close>

lemma create_Inr_iff:
  "create s t un em pw st = Inr (u, st') \<longleftrightarrow>
     (\<exists>p. pw = Some p \<and> validate all_attrs (new_user (next_id st) t un em p) = [] \<and>
     \<not> list_ex (\<lambda>r. username r = un \<or> email r = em) (users st) \<and>
     u = beforeCreate s (new_user (next_id st) t un em p)) \<and>
     st' = st\<lparr>users := users st @ [u], next_id := Suc (next_id st)\<rparr>"
  by (auto simp: create_def create_errors_def Let_def split: option.splits)

lemma create_Inl_cases:
  "create s t un em pw st = Inl e \<Longrightarrow>
     (\<exists>ms. e = ValidationError ms \<and> ms \<noteq> []) \<or>
     (e = UniqueConstraintError \<and> list_ex (\<lambda>r. username r = un \<or> email r = em) (users st))"
  by (auto simp: create_def Let_def split: if_splits)

lemma create_wf:
  assumes "store_wf st" "create s t un em pw st = Inr (u, st')"
  shows "store_wf st'"
proof -
  from assms(2) obtain p where u: "u = beforeCreate s (new_user (next_id st) t un em p)"
    and st': "st' = st\<lparr>users := users st @ [u], next_id := Suc (next_id st)\<rparr>"
    and fresh: "\<not> list_ex (\<lambda>r. username r = un \<or> email r = em) (users st)"
    by (auto simp: create_Inr_iff)
  from assms(1) have "user_id u \<notin> set (map user_id (users st))"
    by (auto simp: store_wf_def list_all_iff u new_user_def)
  with assms(1) fresh show ?thesis
    by (auto simp: store_wf_def st' u new_user_def list_ex_iff list_all_iff)
qed

subsection \<open>\<open>save\<close>\<close>

lemma save_Inr_cases:
  assumes "save s t u st = Inr (u', st')"
  shows "st' = st \<or>
    (\<exists>old. find_by_pk (user_id u) st = Some old \<and> changed_attrs old u \<noteq> [] \<and>
       validate (changed_attrs old u) u = [] \<and>
       u' = (beforeUpdate s (changed_attrs old u) u)\<lparr>updatedAt := t\<rparr> \<and>
       \<not> list_ex (\<lambda>r. user_id r \<noteq> user_id u \<and> (username r = username u' \<or> email r = email u')) (users st) \<and>
       st' = st\<lparr>users := map_where (\<lambda>r. user_id r = user_id u) (\<lambda>_. u') (users st)\<rparr>)"
  using assms by (auto simp: save_def Let_def split: option.splits if_splits)

lemma save_wf:
  assumes "store_wf st" "save s t u st = Inr (u', st')"
  shows "store_wf st'"
  using save_Inr_cases [OF assms(2)]
proof
  assume "st' = st"
  with assms(1) show ?thesis by simp
next
  assume "\<exists>old. find_by_pk (user_id u) st = Some old \<and> changed_attrs old u \<noteq> [] \<and>
       validate (changed_attrs old u) u = [] \<and>
       u' = (beforeUpdate s (changed_attrs old u) u)\<lparr>updatedAt := t\<rparr> \<and>
       \<not> list_ex (\<lambda>r. user_id r \<noteq> user_id u \<and> (username r = username u' \<or> email r = email u')) (users st) \<and>
       st' = st\<lparr>users := map_where (\<lambda>r. user_id r = user_id u) (\<lambda>_. u') (users st)\<rparr>"
  then obtain old where old: "find_by_pk (user_id u) st = Some old"
    and u': "u' = (beforeUpdate s (changed_attrs old u) u)\<lparr>updatedAt := t\<rparr>"
    and nex: "\<not> list_ex (\<lambda>r. user_id r \<noteq> user_id u \<and> (username r = username u' \<or> email r = email u')) (users st)"
    and st': "st' = st\<lparr>users := map_where (\<lambda>r. user_id r = user_id u) (\<lambda>_. u') (users st)\<rparr>"
    by blast
  have id': "user_id u' = user_id u" by (simp add: u')
  from nex have free: "\<forall>r\<in>set (users st). user_id r \<noteq> user_id u \<longrightarrow> username r \<noteq> username u' \<and> email r \<noteq> email u'"
    by (auto simp: list_ex_iff)
  from old have "old \<in> set (users st)" "user_id old = user_id u"
    by (auto dest: find_by_pk_SomeD)
  have ids: "map user_id (users st') = map user_id (users st)"
    by (auto simp: st' map_where_def id')
  have one: "\<forall>x\<in>set (users st). \<forall>z\<in>set (users st). user_id x = user_id u \<longrightarrow> user_id z = user_id u \<longrightarrow> x = z"
    using assms(1) by (auto simp: store_wf_def distinct_map inj_on_def)
  have "distinct (map username (users st'))"
    unfolding st' using assms(1) free one
    by (auto simp: store_wf_def intro!: distinct_map_where_const)
  moreover have "distinct (map email (users st'))"
    unfolding st' using assms(1) free one
    by (auto simp: store_wf_def intro!: distinct_map_where_const)
  moreover have "\<forall>r\<in>set (users st'). user_id r < next_id st'"
  proof
    fix r
    assume "r \<in> set (users st')"
    then have "user_id r \<in> set (map user_id (users st))"
      using ids by (metis image_eqI set_map)
    then show "user_id r < next_id st'"
      using assms(1) by (auto simp: store_wf_def list_all_iff st')
  qed
  ultimately show ?thesis
    using assms(1) ids by (simp add: store_wf_def list_all_iff)
qed

lemma save_stored_password:
  assumes "save s t u st = Inr (u', st')" "find_by_pk (user_id u) st = Some old"
  shows "\<exists>r. find_by_pk (user_id u') st' = Some r \<and> password r = password u' \<and>
    username r = username u' \<and> email r = email u'"
  using save_Inr_cases [OF assms(1)]
proof
  assume st: "st' = st"
  show ?thesis
  proof (cases "changed_attrs old u = []")
    case True
    with assms have "u' = u" by (simp add: save_def)
    moreover from True have "password u = password old" "username u = username old" "email u = email old"
      by (simp_all add: changed_attrs_def split: if_splits)
    ultimately show ?thesis using assms(2) st by simp
  next
    case False
    with assms have u': "u' = (beforeUpdate s (changed_attrs old u) u)\<lparr>updatedAt := t\<rparr>"
      and st': "st' = st\<lparr>users := map_where (\<lambda>r. user_id r = user_id u) (\<lambda>_. u') (users st)\<rparr>"
      by (auto simp: save_def Let_def split: if_splits)
    from assms(2) have "\<exists>x\<in>set (users st). user_id x = user_id u"
      by (auto dest: find_by_pk_SomeD)
    then have "find_by_pk (user_id u') st' = Some u'"
      by (simp add: find_by_pk_def find_one_def st' u' find_map_where_const)
    then show ?thesis by simp
  qed
next
  assume "\<exists>old. find_by_pk (user_id u) st = Some old \<and> changed_attrs old u \<noteq> [] \<and>
       validate (changed_attrs old u) u = [] \<and>
       u' = (beforeUpdate s (changed_attrs old u) u)\<lparr>updatedAt := t\<rparr> \<and>
       \<not> list_ex (\<lambda>r. user_id r \<noteq> user_id u \<and> (username r = username u' \<or> email r = email u')) (users st) \<and>
       st' = st\<lparr>users := map_where (\<lambda>r. user_id r = user_id u) (\<lambda>_. u') (users st)\<rparr>"
  then obtain old' where old': "find_by_pk (user_id u) st = Some old'"
    and u': "u' = (beforeUpdate s (changed_attrs old' u) u)\<lparr>updatedAt := t\<rparr>"
    and st': "st' = st\<lparr>users := map_where (\<lambda>r. user_id r = user_id u) (\<lambda>_. u') (users st)\<rparr>"
    by blast
  from old' have "\<exists>x\<in>set (users st). user_id x = user_id u"
    by (auto dest: find_by_pk_SomeD)
  then have "find_by_pk (user_id u') st' = Some u'"
    by (simp add: find_by_pk_def find_one_def st' u' find_map_where_const)
  then show ?thesis by simp
qed

subsection \<open>Saving a row with changed fields\<close>

lemma save_changed:
  assumes "find_by_pk (user_id u) st = Some old" "changed_attrs old u \<noteq> []"
    and "validate (changed_attrs old u) u = []"
    and "\<forall>r\<in>set (users st). user_id r \<noteq> user_id u \<longrightarrow> username r \<noteq> username u \<and> email r \<noteq> email u"
  shows "save s t u st =
    Inr ((beforeUpdate s (changed_attrs old u) u)\<lparr>updatedAt := t\<rparr>,
         st\<lparr>users := map_where (\<lambda>r. user_id r = user_id u)
                       (\<lambda>_. (beforeUpdate s (changed_attrs old u) u)\<lparr>updatedAt := t\<rparr>) (users st)\<rparr>)"
  using assms by (auto simp: save_def Let_def list_ex_iff)

lemma keys_free:
  assumes "store_wf st" "u \<in> set (users st)"
  shows "\<forall>r\<in>set (users st). user_id r \<noteq> user_id u \<longrightarrow> username r \<noteq> username u \<and> email r \<noteq> email u"
  using assms by (auto simp: store_wf_def dest: distinct_map_eqD)

lemma save_reset_fields:
  assumes "store_wf st" "u \<in> set (users st)"
    and "(a, x) \<noteq> (resetPasswordToken u, resetPasswordExpire u)"
  shows "save s t (u\<lparr>resetPasswordToken := a, resetPasswordExpire := x\<rparr>) st =
    Inr (u\<lparr>resetPasswordToken := a, resetPasswordExpire := x, updatedAt := t\<rparr>,
         st\<lparr>users := map_where (\<lambda>r. user_id r = user_id u)
                       (\<lambda>_. u\<lparr>resetPasswordToken := a, resetPasswordExpire := x, updatedAt := t\<rparr>) (users st)\<rparr>)"
proof -
  let ?u1 = "u\<lparr>resetPasswordToken := a, resetPasswordExpire := x\<rparr>"
  have pk: "find_by_pk (user_id ?u1) st = Some u" using assms(1,2) by (simp add: find_by_pk_in)
  have ch: "set (changed_attrs u ?u1) \<subseteq> {AResetPasswordToken, AResetPasswordExpire}" "changed_attrs u ?u1 \<noteq> []"
    using assms(3) by (auto simp: changed_attrs_def)
  then have "validate (changed_attrs u ?u1) ?u1 = []"
    by (auto simp: validate_def all_attrs_def)
  moreover have "beforeUpdate s (changed_attrs u ?u1) ?u1 = ?u1"
    using ch(1) by (auto simp: beforeUpdate_def)
  ultimately show ?thesis
    using save_changed [OF pk ch(2)] keys_free [OF assms(1,2)] by simp
qed


lemma create_errors_new_user_id:
  "create_errors (new_user i t un em p) pw = create_errors (new_user j t un em p) pw"
proof -
  have eq: "attr_errors (new_user i t un em p) = attr_errors (new_user j t un em p)"
  proof
    fix a show "attr_errors (new_user i t un em p) a = attr_errors (new_user j t un em p) a"
      by (cases a) (simp_all add: new_user_def)
  qed
  show ?thesis unfolding create_errors_def validate_def eq ..
qed

lemma create_taken:
  assumes "create s t un em pw st = Inr (u, st')"
    and "list_ex (\<lambda>r. username r = un \<or> email r = em) (users st2)"
  shows "create s t un em pw st2 = Inl UniqueConstraintError"
proof -
  from assms(1) have "create_errors (new_user (next_id st) t un em (case pw of None \<Rightarrow> [] | Some p \<Rightarrow> p)) pw = []"
    by (auto simp: create_def Let_def split: if_splits)
  then have "create_errors (new_user (next_id st2) t un em (case pw of None \<Rightarrow> [] | Some p \<Rightarrow> p)) pw = []"
    by (simp add: create_errors_new_user_id [of "next_id st2" _ _ _ _ _ "next_id st"])
  with assms(2) show ?thesis by (simp add: create_def Let_def)
qed

end
