(* ===== verification/Http.thy ===== *)
theory Http
  imports Store
begin

text \<open>
  The request and response vocabulary shared by the backend handlers, the
  validation middleware, the authentication middleware and the Next.js
  proxies: the JSON request body (each field \<open>undefined\<close> or a string), the
  per-request inputs that the environment chooses (clock, random salt and
  bytes, whether mail delivery succeeds), and the JSON bodies that
  \<open>res.status(code).json(...)\<close> sends.  Every message string of the sources is
  one constructor of \<open>msg\<close>, named after its meaning (the Spanish text is in
  the comment).
\<close>

record req_body =
  body_username :: field
  body_email :: field
  body_password :: field
  body_confirmPassword :: field

definition empty_body :: req_body where
  "empty_body = \<lparr>body_username = None, body_email = None, body_password = None,
                 body_confirmPassword = None\<rparr>"

text \<open>The bodies the client sends: \<open>{username, password}\<close> and \<open>{username, email, password, confirmPassword}\<close>.\<close>

definition login_body :: "string \<Rightarrow> string \<Rightarrow> req_body" where
  "login_body un pw = empty_body\<lparr>body_username := Some un, body_password := Some pw\<rparr>"

definition reg_body :: "string \<Rightarrow> string \<Rightarrow> string \<Rightarrow> string \<Rightarrow> req_body" where
  "reg_body un em pw cpw = \<lparr>body_username = Some un, body_email = Some em, body_password = Some pw,
                              body_confirmPassword = Some cpw\<rparr>"

text \<open>The body of a forgot-password request: \<open>{email}\<close>.\<close>

definition forgot_body :: "string \<Rightarrow> req_body" where
  "forgot_body em = empty_body\<lparr>body_email := Some em\<rparr>"

record env =
  env_now :: timestamp
  env_salt :: salt
  env_rnd :: "byte list"
  env_mail_ok :: bool

datatype msg =
    MsgEmailTaken          \<comment> \<open>El email ya esta registrado\<close>
  | MsgUsernameTaken       \<comment> \<open>El nombre de usuario ya esta en uso\<close>
  | MsgValidation "vmsg list" \<comment> \<open>Sequelize messages joined by commas\<close>
  | MsgServerError         \<comment> \<open>Error en el servidor\<close>
  | MsgProvideCredentials  \<comment> \<open>Por favor, proporciona un nombre de usuario y contrasena\<close>
  | MsgInvalidCredentials  \<comment> \<open>Credenciales invalidas\<close>
  | MsgNoUserWithEmail     \<comment> \<open>No hay usuario con ese email\<close>
  | MsgEmailSent           \<comment> \<open>Email enviado\<close>
  | MsgEmailNotSent        \<comment> \<open>No se pudo enviar el email\<close>
  | MsgInvalidToken        \<comment> \<open>Token invalido o expirado\<close>
  | MsgLoggedOut           \<comment> \<open>Sesion cerrada correctamente\<close>
  | MsgNotAuthorized       \<comment> \<open>No estas autorizado para acceder a esta ruta\<close>
  | MsgUserNotFound        \<comment> \<open>Usuario no encontrado\<close>
  | MsgMethodNotAllowed    \<comment> \<open>Metodo no permitido (proxies)\<close>
  | MsgNoAuthHeader        \<comment> \<open>No se proporciono token de autorizacion (proxies)\<close>
  | MsgNotAuthenticated    \<comment> \<open>Usuario no autenticado (proxy of /me)\<close>
  | MsgNoResetToken        \<comment> \<open>No se proporciono token de restablecimiento (proxy)\<close>
  | MsgBadBackendResponse  \<comment> \<open>Respuesta invalida del servidor backend (proxies)\<close>
  | MsgBackendUnreachable  \<comment> \<open>Error al comunicarse con el servidor backend (proxies)\<close>
  | MsgSomethingWrong      \<comment> \<open>Algo salio mal! (error handler of server.js)\<close>
  | MsgServerOnline        \<comment> \<open>Servidor en linea (GET /test)\<close>

datatype vfield = FUsername | FEmail | FPassword | FConfirmPassword

datatype vfmsg =
    UsernameRequired | UsernameTooShort | EmailRequired | EmailNotValid
  | PasswordRequired | PasswordTooShort | PasswordsDontMatch

record pub_user =
  pub_id :: nat
  pub_username :: string
  pub_email :: string

record profile =
  prof_id :: nat
  prof_username :: string
  prof_email :: string
  prof_createdAt :: timestamp
  prof_updatedAt :: timestamp

datatype resp_body =
    Message bool msg                     \<comment> \<open>\<open>{success, message}\<close>\<close>
  | TokenResp string pub_user            \<comment> \<open>\<open>{success: true, token, user}\<close>\<close>
  | DataResp "profile option"            \<comment> \<open>\<open>{success: true, data}\<close>\<close>
  | ErrorsResp "(vfield \<times> vfmsg) list"  \<comment> \<open>\<open>{success: false, errors}\<close>\<close>

type_synonym response = "nat \<times> resp_body"

definition fail :: "nat \<Rightarrow> msg \<Rightarrow> response" where
  "fail code m = (code, Message False m)"

fun resp_success :: "resp_body \<Rightarrow> bool" where
  "resp_success (Message b _) = b"
| "resp_success (TokenResp _ _) = True"
| "resp_success (DataResp _) = True"
| "resp_success (ErrorsResp _) = False"

text \<open>The mail the backend hands to \<open>sendEmail\<close>: recipient and the secret in the reset link.\<close>

record mail =
  mail_to :: string
  mail_token :: string

record server =
  store :: store
  outbox :: "mail list"

definition init_server :: server where
  "init_server = \<lparr>store = empty_store, outbox = []\<rparr>"

definition pub_of :: "user \<Rightarrow> pub_user" where
  "pub_of u = \<lparr>pub_id = user_id u, pub_username = username u, pub_email = email u\<rparr>"

definition profile_of :: "user \<Rightarrow> profile" where
  "profile_of u = \<lparr>prof_id = user_id u, prof_username = username u, prof_email = email u,
                   prof_createdAt = createdAt u, prof_updatedAt = updatedAt u\<rparr>"

end
