(* ===== verification/Controller.thy ===== *)
theory Controller
  imports Http
begin

text \<open>
  The six handlers of \<open>src/Backend/controllers/authController.js\<close> and their
  helper \<open>sendTokenResponse\<close>, each a function from the configuration, the
  environment's inputs, the request and the server state to the response and
  the new state.  Every \<open>return res.status(..).json(..)\<close> of the source is a
  branch; an exception that the handler's \<open>catch\<close> turns into a 500 is the
  branch where a store operation returns \<open>Inl\<close> (or, for a field that is
  \<open>undefined\<close> in a \<open>WHERE\<close> clause, where Sequelize throws).  Nothing is
  persisted by a store operation that fails.
\<close>

definition sendTokenResponse :: "config \<Rightarrow> timestamp \<Rightarrow> user \<Rightarrow> nat \<Rightarrow> response" where
  "sendTokenResponse cfg t u code = (code, TokenResp (getSignedJwtToken cfg t u) (pub_of u))"

definition register :: "config \<Rightarrow> env \<Rightarrow> req_body \<Rightarrow> server \<Rightarrow> response \<times> server" where
  "register cfg e b srv =
     (case (body_username b, body_email b) of
        (Some un, Some em) \<Rightarrow>
          (case find_one (\<lambda>r. email r = em \<or> username r = un) (store srv) of
             Some ux \<Rightarrow>
               (if email ux = em then (fail 400 MsgEmailTaken, srv)
                else (fail 400 MsgUsernameTaken, srv))
           | None \<Rightarrow>
               (case create (env_salt e) (env_now e) un em (body_password b) (store srv) of
                  Inl (ValidationError ms) \<Rightarrow> (fail 400 (MsgValidation ms), srv)
                | Inl UniqueConstraintError \<Rightarrow> (fail 500 MsgServerError, srv)
                | Inr (u, st') \<Rightarrow> (sendTokenResponse cfg (env_now e) u 201, srv\<lparr>store := st'\<rparr>)))
      | _ \<Rightarrow> (fail 500 MsgServerError, srv))"

definition login :: "config \<Rightarrow> env \<Rightarrow> req_body \<Rightarrow> server \<Rightarrow> response \<times> server" where
  "login cfg e b srv =
     (case (body_username b, body_password b) of
        (Some un, Some pw) \<Rightarrow>
          if un = [] \<or> pw = [] then (fail 400 MsgProvideCredentials, srv)
          else
            (case find_one (\<lambda>r. username r = un) (store srv) of
               None \<Rightarrow> (fail 401 MsgInvalidCredentials, srv)
             | Some u \<Rightarrow>
                 if \<not> matchPassword u pw then (fail 401 MsgInvalidCredentials, srv)
                 else (sendTokenResponse cfg (env_now e) u 200, srv))
      | _ \<Rightarrow> (fail 400 MsgProvideCredentials, srv))"

text \<open>\<open>getMe\<close> runs after \<open>protect\<close>, which supplies the id of the verified user.\<close>

definition getMe :: "nat \<Rightarrow> server \<Rightarrow> response \<times> server" where
  "getMe i srv = ((200, DataResp (map_option profile_of (find_by_pk i (store srv)))), srv)"

definition forgotPassword :: "config \<Rightarrow> env \<Rightarrow> req_body \<Rightarrow> server \<Rightarrow> response \<times> server" where
  "forgotPassword cfg e b srv =
     (case body_email b of
        None \<Rightarrow> (fail 500 MsgServerError, srv)
      | Some em \<Rightarrow>
          (case find_one (\<lambda>r. email r = em) (store srv) of
             None \<Rightarrow> (fail 404 MsgNoUserWithEmail, srv)
           | Some u \<Rightarrow>
               (let (resetToken, u1) = getResetPasswordToken cfg (env_now e) (env_rnd e) u
                in case save (env_salt e) (env_now e) u1 (store srv) of
                     Inl _ \<Rightarrow> (fail 500 MsgServerError, srv)
                   | Inr (u2, st1) \<Rightarrow>
                       if env_mail_ok e then
                         ((200, Message True MsgEmailSent),
                          srv\<lparr>store := st1,
                              outbox := outbox srv @ [\<lparr>mail_to = email u2, mail_token = resetToken\<rparr>]\<rparr>)
                       else
                         (case save (env_salt e) (env_now e)
                                 (u2\<lparr>resetPasswordToken := None, resetPasswordExpire := None\<rparr>) st1 of
                            Inl _ \<Rightarrow> (fail 500 MsgServerError, srv\<lparr>store := st1\<rparr>)
                          | Inr (_, st2) \<Rightarrow> (fail 500 MsgEmailNotSent, srv\<lparr>store := st2\<rparr>)))))"

definition reset_match :: "string \<Rightarrow> timestamp \<Rightarrow> user \<Rightarrow> bool" where
  "reset_match d t r =
     (resetPasswordToken r = Some d \<and>
      (case resetPasswordExpire r of None \<Rightarrow> False | Some x \<Rightarrow> t < x))"

definition resetPassword :: "config \<Rightarrow> env \<Rightarrow> string \<Rightarrow> req_body \<Rightarrow> server \<Rightarrow> response \<times> server" where
  "resetPassword cfg e resettoken b srv =
     (let d = sha256 cfg resettoken
      in case find_one (reset_match d (env_now e)) (store srv) of
           None \<Rightarrow> (fail 400 MsgInvalidToken, srv)
         | Some u \<Rightarrow>
             (case body_password b of
                None \<Rightarrow> (fail 500 MsgServerError, srv)
              | Some pw \<Rightarrow>
                  (case save (env_salt e) (env_now e)
                          (u\<lparr>password := Plain pw, resetPasswordToken := None,
                             resetPasswordExpire := None\<rparr>) (store srv) of
                     Inl _ \<Rightarrow> (fail 500 MsgServerError, srv)
                   | Inr (u2, st') \<Rightarrow> (sendTokenResponse cfg (env_now e) u2 200, srv\<lparr>store := st'\<rparr>))))"

definition logout :: "server \<Rightarrow> response \<times> server" where
  "logout srv = ((200, Message True MsgLoggedOut), srv)"

end
