(* ===== verification/Middleware.thy ===== *)
theory Middleware
  imports Http
begin

text \<open>
  The Express middleware in front of the handlers: the four body validators
  of \<open>src/Backend/middleware/validators.js\<close>, which answer 400 with the list of
  field errors or pass the request on, and \<open>protect\<close> of
  \<open>src/Backend/middleware/auth.js\<close>, which reads a bearer token from the
  \<open>Authorization\<close> header, verifies it with \<open>JWT_SECRET\<close>, loads the user and
  either answers 401 or passes the user's id on (\<open>req.user\<close>).
\<close>

subsection \<open>Validators\<close>

definition blank :: "field \<Rightarrow> bool" where
  "blank v = (case v of None \<Rightarrow> True | Some s \<Rightarrow> s = [] \<or> js_trim s = [])"

definition username_errors :: "field \<Rightarrow> (vfield \<times> vfmsg) list" where
  "username_errors v =
     (if blank v then [(FUsername, UsernameRequired)]
      else if length (field_str v) < 3 then [(FUsername, UsernameTooShort)] else [])"

definition email_errors :: "field \<Rightarrow> (vfield \<times> vfmsg) list" where
  "email_errors v =
     (if blank v then [(FEmail, EmailRequired)]
      else if \<not> is_email (field_str v) then [(FEmail, EmailNotValid)] else [])"

definition password_errors :: "field \<Rightarrow> (vfield \<times> vfmsg) list" where
  "password_errors v =
     (if js_falsy v then [(FPassword, PasswordRequired)]
      else if length (field_str v) < 6 then [(FPassword, PasswordTooShort)] else [])"

definition confirm_errors :: "req_body \<Rightarrow> (vfield \<times> vfmsg) list" where
  "confirm_errors b =
     (if body_password b \<noteq> body_confirmPassword b then [(FConfirmPassword, PasswordsDontMatch)] else [])"

definition validateRegister :: "req_body \<Rightarrow> (vfield \<times> vfmsg) list" where
  "validateRegister b =
     username_errors (body_username b) @ email_errors (body_email b) @
     password_errors (body_password b) @ confirm_errors b"

definition validateLogin :: "req_body \<Rightarrow> (vfield \<times> vfmsg) list" where
  "validateLogin b =
     (if blank (body_username b) then [(FUsername, UsernameRequired)] else []) @
     (if js_falsy (body_password b) then [(FPassword, PasswordRequired)] else [])"

definition validateForgotPassword :: "req_body \<Rightarrow> (vfield \<times> vfmsg) list" where
  "validateForgotPassword b = email_errors (body_email b)"

definition validateResetPassword :: "req_body \<Rightarrow> (vfield \<times> vfmsg) list" where
  "validateResetPassword b = password_errors (body_password b) @ confirm_errors b"

subsection \<open>\<open>protect\<close>\<close>

text \<open>
  The token is the second piece of the header split at spaces, taken when the
  header starts with \<open>Bearer\<close>; an absent or empty token is refused.
\<close>

definition bearer_token :: "string option \<Rightarrow> string option" where
  "bearer_token h =
     (case h of
        None \<Rightarrow> None
      | Some s \<Rightarrow> if s \<noteq> [] \<and> starts_with s ''Bearer'' then js_index (js_split (CHR '' '') s) 1 else None)"

definition protect :: "config \<Rightarrow> timestamp \<Rightarrow> string option \<Rightarrow> server \<Rightarrow> response + nat" where
  "protect cfg t h srv =
     (case bearer_token h of
        None \<Rightarrow> Inl (fail 401 MsgNotAuthorized)
      | Some tok \<Rightarrow>
          if tok = [] then Inl (fail 401 MsgNotAuthorized)
          else
            (case jwt_verify (hmac cfg) (jwt_secret cfg) t tok of
               None \<Rightarrow> Inl (fail 401 MsgNotAuthorized)
             | Some c \<Rightarrow>
                 (case find_by_pk (claim_id c) (store srv) of
                    None \<Rightarrow> Inl (fail 401 MsgUserNotFound)
                  | Some u \<Rightarrow> Inr (user_id u))))"

text \<open>The unfoldings that evaluate the register validator on a concrete body.\<close>

lemmas register_validation_simps = validateRegister_def username_errors_def email_errors_def
  password_errors_def confirm_errors_def blank_def js_trim_def is_ws_def field_str_def is_email_def
  is_fqdn_def local_part_ok_def domain_label_ok_def is_alnum_def is_alpha_def

end
