(* ===== verification/Routes.thy ===== *)
theory Routes
  imports Controller Middleware
begin

text \<open>
  The router of \<open>src/Backend/routes/authRoutes.js\<close>, mounted under
  \<open>/api/auth\<close> by \<open>server.js\<close>: each endpoint runs its middleware chain and then
  its handler.  A request is one of the six endpoints with what the chain
  reads from it: the parsed JSON body, the \<open>:resettoken\<close> path parameter, the
  \<open>Authorization\<close> header.  Middleware never changes the server state.
\<close>

datatype request =
    PostRegister req_body
  | PostLogin req_body
  | PostForgotPassword req_body
  | PutResetPassword string req_body
  | GetMe "string option"
  | GetLogout "string option"

definition with_validator :: "(vfield \<times> vfmsg) list \<Rightarrow> (server \<Rightarrow> response \<times> server) \<Rightarrow> server \<Rightarrow> response \<times> server" where
  "with_validator errs next srv = (if errs = [] then next srv else ((400, ErrorsResp errs), srv))"

definition with_protect :: "config \<Rightarrow> env \<Rightarrow> string option \<Rightarrow> (nat \<Rightarrow> server \<Rightarrow> response \<times> server) \<Rightarrow> server \<Rightarrow> response \<times> server" where
  "with_protect cfg e h next srv =
     (case protect cfg (env_now e) h srv of Inl r \<Rightarrow> (r, srv) | Inr i \<Rightarrow> next i srv)"

fun route :: "config \<Rightarrow> env \<Rightarrow> request \<Rightarrow> server \<Rightarrow> response \<times> server" where
  "route cfg e (PostRegister b) srv = with_validator (validateRegister b) (register cfg e b) srv"
| "route cfg e (PostLogin b) srv = with_validator (validateLogin b) (login cfg e b) srv"
| "route cfg e (PostForgotPassword b) srv =
     with_validator (validateForgotPassword b) (forgotPassword cfg e b) srv"
| "route cfg e (PutResetPassword tok b) srv =
     with_validator (validateResetPassword b) (resetPassword cfg e tok b) srv"
| "route cfg e (GetMe h) srv = with_protect cfg e h (\<lambda>i. getMe i) srv"
| "route cfg e (GetLogout h) srv = with_protect cfg e h (\<lambda>_. logout) srv"

text \<open>A run: requests served one after another, each with its own inputs.\<close>

fun run :: "config \<Rightarrow> (env \<times> request) list \<Rightarrow> server \<Rightarrow> response list \<times> server" where
  "run cfg [] srv = ([], srv)"
| "run cfg ((e, r) # rs) srv =
     (let (resp, srv') = route cfg e r srv; (resps, srv'') = run cfg rs srv' in (resp # resps, srv''))"

end
