(* ===== verification/Lifecycle.thy ===== *)
theory Lifecycle
  imports Routes
begin

text \<open>
  The credential and reset-token lifecycle as a state machine: the states
  are the server states reachable from the empty table by routed requests,
  with any environment inputs.  The invariant \<open>server_inv\<close> collects what the
  code keeps true of every row: the keys are unique (\<open>store_wf\<close>), the stored
  password is the bcrypt hash of a plaintext (never a plaintext, never a hash
  of a hash), and the reset digest and its expiry are present together.
  One lemma per handler shows that it keeps the invariant; the summary
  lemma is by cases on the request, and the reachable-state theorem by rule
  induction.
\<close>

definition reset_paired :: "user \<Rightarrow> bool" where
  "reset_paired u \<longleftrightarrow> (resetPasswordToken u = None \<longleftrightarrow> resetPasswordExpire u = None)"

text \<open>
  A stored user also passed the registration validator's checks on its
  username and email: only \<open>POST /register\<close> creates rows, and no handler
  changes these two columns.
\<close>

definition user_ok :: "user \<Rightarrow> bool" where
  "user_ok u \<longleftrightarrow> is_bcrypt_of_plain (password u) \<and> reset_paired u \<and>
     username_errors (Some (username u)) = [] \<and> email_errors (Some (email u)) = []"

definition store_inv :: "store \<Rightarrow> bool" where
  "store_inv st \<longleftrightarrow> store_wf st \<and> list_all user_ok (users st)"

definition server_inv :: "server \<Rightarrow> bool" where
  "server_inv srv \<longleftrightarrow> store_inv (store srv)"

inductive reachable :: "config \<Rightarrow> server \<Rightarrow> bool" for cfg :: config where
  init: "reachable cfg init_server"
| step: "reachable cfg srv \<Longrightarrow> route cfg e r srv = (resp, srv') \<Longrightarrow> reachable cfg srv'"

text \<open>
  An instance may be saved when its reset fields are paired and its password
  is either the stored one or a fresh plaintext (which \<open>beforeUpdate\<close> hashes).
\<close>

definition save_ready :: "store \<Rightarrow> user \<Rightarrow> bool" where
  "save_ready st u \<longleftrightarrow> reset_paired u \<and>
     (case find_by_pk (user_id u) st of
        None \<Rightarrow> True
      | Some old \<Rightarrow> username u = username old \<and> email u = email old \<and>
                    (password u = password old \<or> (\<exists>p. password u = Plain p)))"

subsection \<open>Store operations keep the rows well-formed\<close>

lemma create_user_ok:
  "create s t un em pw st = Inr (u, st') \<Longrightarrow> username_errors (Some un) = [] \<Longrightarrow>
     email_errors (Some em) = [] \<Longrightarrow> user_ok u"
  by (auto simp: create_Inr_iff user_ok_def reset_paired_def new_user_def)

lemma create_users_ok:
  "create s t un em pw st = Inr (u, st') \<Longrightarrow> username_errors (Some un) = [] \<Longrightarrow>
     email_errors (Some em) = [] \<Longrightarrow> list_all user_ok (users st) \<Longrightarrow> list_all user_ok (users st')"
  using create_user_ok [of s t un em pw st u st'] by (auto simp: create_Inr_iff)

lemma save_users_ok:
  assumes "save s t u st = Inr (u', st')" "list_all user_ok (users st)" "save_ready st u"
  shows "list_all user_ok (users st')"
  using save_Inr_cases [OF assms(1)]
proof
  assume "st' = st"
  with assms(2) show ?thesis by simp
next
  assume "\<exists>old. find_by_pk (user_id u) st = Some old \<and> changed_attrs old u \<noteq> [] \<and>
       validate (changed_attrs old u) u = [] \<and>
       u' = (beforeUpdate s (changed_attrs old u) u)\<lparr>updatedAt := t\<rparr> \<and>
       \<not> list_ex (\<lambda>r. user_id r \<noteq> user_id u \<and> (username r = username u' \<or> email r = email u')) (users st) \<and>
       st' = st\<lparr>users := map_where (\<lambda>r. user_id r = user_id u) (\<lambda>_. u') (users st)\<rparr>"
  then obtain old where old: "find_by_pk (user_id u) st = Some old"
    and u': "u' = (beforeUpdate s (changed_attrs old u) u)\<lparr>updatedAt := t\<rparr>"
    and st': "st' = st\<lparr>users := map_where (\<lambda>r. user_id r = user_id u) (\<lambda>_. u') (users st)\<rparr>"
    by blast
  from old assms(2) have old_ok: "user_ok old"
    by (auto simp: list_all_iff dest: find_by_pk_SomeD)
  from assms(3) old have pw: "password u = password old \<or> (\<exists>p. password u = Plain p)"
    and rp: "reset_paired u" and keys: "username u = username old" "email u = email old"
    by (simp_all add: save_ready_def)
  have "user_ok u'"
  proof (cases "password u = password old")
    case True
    then have "APassword \<notin> set (changed_attrs old u)" by (simp add: changed_attrs_def)
    with True old_ok rp keys show ?thesis
      by (simp add: u' beforeUpdate_def user_ok_def reset_paired_def)
  next
    case False
    with pw obtain p where "password u = Plain p" by blast
    moreover from False have "APassword \<in> set (changed_attrs old u)" by (simp add: changed_attrs_def)
    ultimately show ?thesis using rp keys old_ok
      by (simp add: u' beforeUpdate_def user_ok_def reset_paired_def)
  qed
  with assms(2) show ?thesis
    by (simp add: st' list_all_map_where_const)
qed

lemma save_inv [inv_rules]:
  "store_inv st \<Longrightarrow> save s t u st = Inr (u', st') \<Longrightarrow> save_ready st u \<Longrightarrow> store_inv st'"
  by (auto simp: store_inv_def intro: save_wf save_users_ok)

lemma create_inv [inv_rules]:
  "store_inv st \<Longrightarrow> create s t un em pw st = Inr (u, st') \<Longrightarrow> username_errors (Some un) = [] \<Longrightarrow>
     email_errors (Some em) = [] \<Longrightarrow> store_inv st'"
  by (auto simp: store_inv_def intro: create_wf create_users_ok)

lemma server_inv_update [simp]:
  "server_inv (srv\<lparr>store := st\<rparr>) \<longleftrightarrow> store_inv st"
  "server_inv (srv\<lparr>store := st, outbox := ob\<rparr>) \<longleftrightarrow> store_inv st"
  by (simp_all add: server_inv_def)

lemma stored_row_found:
  "store_inv st \<Longrightarrow> find_one P st = Some u \<Longrightarrow> find_by_pk (user_id u) st = Some u \<and> user_ok u"
  by (auto simp: store_inv_def find_one_def list_all_iff intro: find_by_pk_in)

subsection \<open>Each handler keeps the invariant\<close>

lemma register_inv [inv_rules]:
  assumes "server_inv srv" "register cfg e b srv = (resp, srv')" "validateRegister b = []"
  shows "server_inv srv'"
proof -
  from assms(3) have "username_errors (body_username b) = []" "email_errors (body_email b) = []"
    by (simp_all add: validateRegister_def)
  with assms(1,2) show ?thesis
    by (auto simp: register_def server_inv_def
        split: option.splits prod.splits sum.splits db_error.splits if_splits intro: create_inv)
qed

lemma login_state: "login cfg e b srv = (resp, srv') \<Longrightarrow> srv' = srv"
  by (auto simp: login_def split: option.splits prod.splits if_splits)

lemma getMe_state: "getMe i srv = (resp, srv') \<Longrightarrow> srv' = srv"
  by (simp add: getMe_def)

lemma logout_state: "logout srv = (resp, srv') \<Longrightarrow> srv' = srv"
  by (simp add: logout_def)

lemma resetPassword_inv [inv_rules]:
  assumes inv: "server_inv srv" and rp: "resetPassword cfg e tok b srv = (resp, srv')"
  shows "server_inv srv'"
proof (cases "find_one (reset_match (sha256 cfg tok) (env_now e)) (store srv)")
  case None
  with inv rp show ?thesis by (simp add: resetPassword_def Let_def)
next
  case (Some u)
  note found = this
  show ?thesis
  proof (cases "body_password b")
    case None
    with found inv rp show ?thesis by (simp add: resetPassword_def Let_def)
  next
    case (Some pw)
    let ?u1 = "u\<lparr>password := Plain pw, resetPasswordToken := None, resetPasswordExpire := None\<rparr>"
    show ?thesis
    proof (cases "save (env_salt e) (env_now e) ?u1 (store srv)")
      case (Inl err)
      with found Some inv rp show ?thesis by (simp add: resetPassword_def Let_def)
    next
      case (Inr r)
      obtain u2 st' where r: "r = (u2, st')" by (cases r)
      with found Some Inr rp have srv': "srv' = srv\<lparr>store := st'\<rparr>"
        by (simp add: resetPassword_def Let_def)
      from inv have "store_inv (store srv)" by (simp add: server_inv_def)
      from stored_row_found [OF this found] have "find_by_pk (user_id u) (store srv) = Some u" by simp
      then have "save_ready (store srv) ?u1"
        by (simp add: save_ready_def reset_paired_def)
      with inv Inr r srv' show ?thesis
        by (auto simp: server_inv_def intro: save_inv)
    qed
  qed
qed

lemma forgot_first_save_ready:
  assumes "store_inv st" "find_one P st = Some u" "getResetPasswordToken cfg t rnd u = (tok, u1)"
  shows "save_ready st u1"
proof -
  from assms(1,2) have "find_by_pk (user_id u) st = Some u" by (simp add: stored_row_found)
  with assms(3) show ?thesis
    by (auto simp: save_ready_def reset_paired_def dest!: getResetPasswordToken_fields)
qed

lemma forgot_rollback_ready:
  assumes "save s t u1 st = Inr (u2, st1)" "find_by_pk (user_id u1) st = Some old"
  shows "save_ready st1 (u2\<lparr>resetPasswordToken := None, resetPasswordExpire := None\<rparr>)"
proof -
  from save_stored_password [OF assms] obtain r where
    "find_by_pk (user_id u2) st1 = Some r" "password r = password u2"
    "username r = username u2" "email r = email u2" by blast
  then show ?thesis by (simp add: save_ready_def reset_paired_def)
qed

lemma forgotPassword_inv [inv_rules]:
  assumes inv: "server_inv srv" and fp: "forgotPassword cfg e b srv = (resp, srv')"
  shows "server_inv srv'"
proof (cases "body_email b")
  case None
  with inv fp show ?thesis by (simp add: forgotPassword_def)
next
  case (Some em)
  note em = this
  show ?thesis
  proof (cases "find_one (\<lambda>r. email r = em) (store srv)")
    case None
    with em inv fp show ?thesis by (simp add: forgotPassword_def)
  next
    case (Some u)
    note found = this
    obtain tok u1 where gr: "getResetPasswordToken cfg (env_now e) (env_rnd e) u = (tok, u1)"
      by (cases "getResetPasswordToken cfg (env_now e) (env_rnd e) u")
    from inv have sinv: "store_inv (store srv)" by (simp add: server_inv_def)
    have ready: "save_ready (store srv) u1"
      using forgot_first_save_ready [OF sinv found gr] .
    have pk: "find_by_pk (user_id u1) (store srv) = Some u"
      using stored_row_found [OF sinv found] gr by (auto dest: getResetPasswordToken_fields)
    show ?thesis
    proof (cases "save (env_salt e) (env_now e) u1 (store srv)")
      case (Inl err)
      with em found gr inv fp show ?thesis by (simp add: forgotPassword_def)
    next
      case (Inr r)
      obtain u2 st1 where r: "r = (u2, st1)" by (cases r)
      with Inr have sv: "save (env_salt e) (env_now e) u1 (store srv) = Inr (u2, st1)" by simp
      have inv1: "store_inv st1" using save_inv [OF sinv sv ready] .
      let ?u3 = "u2\<lparr>resetPasswordToken := None, resetPasswordExpire := None\<rparr>"
      have ready3: "save_ready st1 ?u3" using forgot_rollback_ready [OF sv pk] .
      show ?thesis
      proof (cases "env_mail_ok e")
        case True
        with em found gr sv fp inv1 show ?thesis by (auto simp: forgotPassword_def)
      next
        case False
        show ?thesis
        proof (cases "save (env_salt e) (env_now e) ?u3 st1")
          case (Inl err)
          with False em found gr sv fp inv1 show ?thesis by (auto simp: forgotPassword_def)
        next
          case (Inr r3)
          obtain u4 st2 where r3: "r3 = (u4, st2)" by (cases r3)
          with Inr have "save (env_salt e) (env_now e) ?u3 st1 = Inr (u4, st2)" by simp
          moreover from this False em found gr sv fp have "srv' = srv\<lparr>store := st2\<rparr>"
            by (auto simp: forgotPassword_def)
          ultimately show ?thesis using save_inv [OF inv1 _ ready3] by auto
        qed
      qed
    qed
  qed
qed

lemma route_inv [inv_rules]:
  assumes "server_inv srv" "route cfg e r srv = (resp, srv')"
  shows "server_inv srv'"
  using assms
proof (cases r)
  case (PostRegister b)
  with assms show ?thesis
    by (auto simp: with_validator_def split: if_splits intro: register_inv [of srv cfg e b])
next
  case (PostLogin b)
  with assms show ?thesis
    by (auto simp: with_validator_def split: if_splits dest: login_state)
next
  case (PostForgotPassword b)
  with assms show ?thesis
    by (auto simp: with_validator_def split: if_splits intro: forgotPassword_inv)
next
  case (PutResetPassword tok b)
  with assms show ?thesis
    by (auto simp: with_validator_def split: if_splits intro: resetPassword_inv)
next
  case (GetMe h)
  with assms show ?thesis
    by (auto simp: with_protect_def getMe_def split: sum.splits)
next
  case (GetLogout h)
  with assms show ?thesis
    by (auto simp: with_protect_def logout_def split: sum.splits)
qed

lemma init_server_inv: "server_inv init_server"
  by (simp add: server_inv_def store_inv_def init_server_def store_wf_empty) (simp add: empty_store_def)

lemma reachable_server_inv: "reachable cfg srv \<Longrightarrow> server_inv srv"
proof (induction rule: reachable.induct)
  case init
  show ?case by (rule init_server_inv)
next
  case (step srv e r resp srv')
  then show ?case by (blast intro: route_inv)
qed

end
