(* ===== verification/Flows.thy ===== *)
theory Flows
  imports Lifecycle
begin

text \<open>
  What a routed request does on each of its outcomes: the facts the
  end-to-end properties of the root theory are assembled from.  Each lemma
  reads one response code back to the branch of the handler that produced
  it, or runs one handler on a state that satisfies \<open>server_inv\<close>.
\<close>

text \<open>
  The row \<open>forgotPassword\<close> stores (reset token digest, expiry ten minutes
  ahead) and the row \<open>resetPassword\<close> stores (new hash, reset fields cleared).
\<close>

definition pending_row :: "config \<Rightarrow> env \<Rightarrow> user \<Rightarrow> user" where
  "pending_row cfg e u = u\<lparr>resetPasswordToken := Some (sha256 cfg (hex_string (env_rnd e))),
     resetPasswordExpire := Some (env_now e + reset_expire_ms), updatedAt := env_now e\<rparr>"

definition reset_row :: "salt \<Rightarrow> timestamp \<Rightarrow> string \<Rightarrow> user \<Rightarrow> user" where
  "reset_row s t pw u = u\<lparr>password := bcrypt_hash s (Plain pw), resetPasswordToken := None,
                           resetPasswordExpire := None, updatedAt := t\<rparr>"

text \<open>The credentials of the table: what a reset-state change must not touch.\<close>

definition credentials :: "store \<Rightarrow> (nat \<times> string \<times> string \<times> pw_value) list" where
  "credentials st = map (\<lambda>r. (user_id r, username r, email r, password r)) (users st)"

subsection \<open>Validation results\<close>

lemma validateRegister_Nil_fields:
  assumes "validateRegister b = []"
  shows "\<exists>un em pw. body_username b = Some un \<and> body_email b = Some em \<and> body_password b = Some pw \<and>
           \<not> blank (Some un) \<and> 6 \<le> length pw \<and> is_email em \<and> body_confirmPassword b = Some pw"
  using assms
  by (auto simp: validateRegister_def username_errors_def email_errors_def password_errors_def
      confirm_errors_def blank_def field_str_def split: if_splits option.splits)

lemma validateLogin_login_body:
  "validateLogin (login_body un pw) = [] \<longleftrightarrow> \<not> blank (Some un) \<and> pw \<noteq> []"
  by (simp add: validateLogin_def login_body_def empty_body_def)

subsection \<open>Register\<close>

lemma route_register_created:
  assumes "route cfg e (PostRegister b) srv = ((201, body), srv1)"
  shows "\<exists>un em pw u st'. body_username b = Some un \<and> body_email b = Some em \<and> body_password b = Some pw \<and>
           validateRegister b = [] \<and>
           create (env_salt e) (env_now e) un em (Some pw) (store srv) = Inr (u, st') \<and>
           srv1 = srv\<lparr>store := st'\<rparr> \<and> body = TokenResp (getSignedJwtToken cfg (env_now e) u) (pub_of u)"
proof -
  have v: "validateRegister b = []"
    using assms by (auto simp: with_validator_def split: if_splits)
  then obtain un em pw where f: "body_username b = Some un" "body_email b = Some em" "body_password b = Some pw"
    using validateRegister_Nil_fields by blast
  with v assms show ?thesis
    by (auto simp: with_validator_def register_def sendTokenResponse_def fail_def
        split: option.splits sum.splits db_error.splits if_splits)
qed

subsection \<open>Login\<close>

lemma login_finds_user:
  assumes "store_wf st" "u \<in> set (users st)"
  shows "find_one (\<lambda>r. username r = username u) st = Some u"
  using assms by (intro find_one_unique_key [where k = username]) (simp_all add: store_wf_def)

lemma route_login_success:
  assumes "server_inv srv" "u \<in> set (users (store srv))" "bcrypt_compare pw (password u)"
    and "validateLogin (login_body (username u) pw) = []"
  shows "route cfg e (PostLogin (login_body (username u) pw)) srv = (sendTokenResponse cfg (env_now e) u 200, srv)"
proof -
  from assms(1) have wf: "store_wf (store srv)" by (simp add: server_inv_def store_inv_def)
  from wf assms(2) have "find_one (\<lambda>r. username r = username u) (store srv) = Some u"
    by (rule login_finds_user)
  moreover from assms(4) have "username u \<noteq> [] \<and> pw \<noteq> []"
    by (simp add: validateLogin_login_body blank_def)
  ultimately show ?thesis using assms(3,4)
    by (simp add: with_validator_def login_def login_body_def empty_body_def matchPassword_def)
qed

subsection \<open>Forgot and reset password\<close>

lemma reset_row_no_match [simp]: "\<not> reset_match d t (reset_row s t' pw u)"
  by (simp add: reset_match_def reset_row_def)

lemma save_new_password:
  assumes "store_wf st" "u \<in> set (users st)" "password u \<noteq> Plain pw"
  shows "save s t (u\<lparr>password := Plain pw, resetPasswordToken := None, resetPasswordExpire := None\<rparr>) st =
    (if 6 \<le> length pw \<and> length pw \<le> 100
     then Inr (reset_row s t pw u,
               st\<lparr>users := map_where (\<lambda>r. user_id r = user_id u) (\<lambda>_. reset_row s t pw u) (users st)\<rparr>)
     else Inl (ValidationError [PasswordLength]))"
proof -
  let ?u1 = "u\<lparr>password := Plain pw, resetPasswordToken := None, resetPasswordExpire := None\<rparr>"
  have pk: "find_by_pk (user_id ?u1) st = Some u" using assms(1,2) by (simp add: find_by_pk_in)
  have ch: "APassword \<in> set (changed_attrs u ?u1)" "AUsername \<notin> set (changed_attrs u ?u1)"
    "AEmail \<notin> set (changed_attrs u ?u1)" "changed_attrs u ?u1 \<noteq> []"
    using assms(3) by (auto simp: changed_attrs_def)
  have val: "validate (changed_attrs u ?u1) ?u1 =
      (if 6 \<le> length pw \<and> length pw \<le> 100 then [] else [PasswordLength])"
    using ch(1,2,3) by (auto simp: validate_def all_attrs_def)
  show ?thesis
  proof (cases "6 \<le> length pw \<and> length pw \<le> 100")
    case True
    then have val': "validate (changed_attrs u ?u1) ?u1 = []" using val by simp
    have keys: "\<forall>r\<in>set (users st). user_id r \<noteq> user_id ?u1 \<longrightarrow> username r \<noteq> username ?u1 \<and> email r \<noteq> email ?u1"
      using keys_free [OF assms(1,2)] by simp
    have bu: "(beforeUpdate s (changed_attrs u ?u1) ?u1)\<lparr>updatedAt := t\<rparr> = reset_row s t pw u"
      using ch(1) by (simp add: beforeUpdate_def reset_row_def)
    show ?thesis
      using True by (subst save_changed [OF pk ch(4) val' keys]) (simp only: bu, simp)
  next
    case False
    with val pk ch(4) show ?thesis by (simp add: save_def)
  qed
qed

lemma validateResetPassword_Nil_fields:
  assumes "validateResetPassword b = []"
  shows "\<exists>pw. body_password b = Some pw \<and> 6 \<le> length pw \<and> body_confirmPassword b = Some pw"
  using assms
  by (auto simp: validateResetPassword_def password_errors_def confirm_errors_def field_str_def js_falsy_def
      split: if_splits option.splits)

lemma route_reset_cases:
  assumes inv: "server_inv srv" and vb: "validateResetPassword b = []" and pwb: "body_password b = Some pw"
  shows "route cfg e (PutResetPassword S b) srv =
    (case find_one (reset_match (sha256 cfg S) (env_now e)) (store srv) of
       None \<Rightarrow> (fail 400 MsgInvalidToken, srv)
     | Some u \<Rightarrow>
         if length pw \<le> 100
         then (sendTokenResponse cfg (env_now e) (reset_row (env_salt e) (env_now e) pw u) 200,
               srv\<lparr>store := (store srv)\<lparr>users := map_where (\<lambda>r. user_id r = user_id u)
                        (\<lambda>_. reset_row (env_salt e) (env_now e) pw u) (users (store srv))\<rparr>\<rparr>)
         else (fail 500 MsgServerError, srv))"
proof (cases "find_one (reset_match (sha256 cfg S) (env_now e)) (store srv)")
  case None
  with vb show ?thesis by (simp add: with_validator_def resetPassword_def Let_def)
next
  case (Some u)
  from inv have sinv: "store_inv (store srv)" by (simp add: server_inv_def)
  from stored_row_found [OF sinv Some] have ok: "user_ok u" by simp
  from Some have mem: "u \<in> set (users (store srv))" by (auto simp: find_one_def)
  from ok have "password u \<noteq> Plain pw"
    by (cases "password u" rule: is_bcrypt_of_plain.cases) (auto simp: user_ok_def)
  moreover from sinv have "store_wf (store srv)" by (simp add: store_inv_def)
  moreover from vb pwb have "6 \<le> length pw"
    using validateResetPassword_Nil_fields [OF vb] by auto
  ultimately show ?thesis
    using Some vb pwb mem
    by (simp add: with_validator_def resetPassword_def Let_def save_new_password)
qed

lemma route_forgot_sent:
  assumes inv: "server_inv srv" and mem: "u \<in> set (users (store srv))" and mail: "env_mail_ok e"
    and new: "resetPasswordToken u \<noteq> Some (sha256 cfg (hex_string (env_rnd e)))"
  shows "route cfg e (PostForgotPassword (forgot_body (email u))) srv =
    ((200, Message True MsgEmailSent),
     srv\<lparr>store := (store srv)\<lparr>users := map_where (\<lambda>r. user_id r = user_id u) (\<lambda>_. pending_row cfg e u)
                                  (users (store srv))\<rparr>,
         outbox := outbox srv @ [\<lparr>mail_to = email u, mail_token = hex_string (env_rnd e)\<rparr>]\<rparr>)"
proof -
  from inv have sinv: "store_inv (store srv)" by (simp add: server_inv_def)
  then have wf: "store_wf (store srv)" and ok: "user_ok u"
    using mem by (auto simp: store_inv_def list_all_iff)
  have v: "validateForgotPassword (forgot_body (email u)) = []"
    using ok by (simp add: validateForgotPassword_def forgot_body_def empty_body_def user_ok_def)
  have found: "find_one (\<lambda>r. email r = email u) (store srv) = Some u"
    using wf mem by (intro find_one_unique_key [where k = email]) (simp_all add: store_wf_def)
  have sv: "save (env_salt e) (env_now e)
      (u\<lparr>resetPasswordToken := Some (sha256 cfg (hex_string (env_rnd e))),
          resetPasswordExpire := Some (env_now e + reset_expire_ms)\<rparr>) (store srv) =
      Inr (pending_row cfg e u,
           (store srv)\<lparr>users := map_where (\<lambda>r. user_id r = user_id u) (\<lambda>_. pending_row cfg e u)
                                  (users (store srv))\<rparr>)"
    using save_reset_fields [OF wf mem] new by (simp add: pending_row_def)
  show ?thesis
    using v found sv mail
    by (simp add: with_validator_def forgotPassword_def getResetPasswordToken_def Let_def
        forgot_body_def empty_body_def pending_row_def)
qed

lemma route_login_stored:
  assumes inv: "server_inv srv" and mem: "u \<in> set (users (store srv))"
  shows "route cfg e (PostLogin (login_body (username u) pw0)) srv =
    (if pw0 = [] then ((400, ErrorsResp [(FPassword, PasswordRequired)]), srv)
     else if bcrypt_compare pw0 (password u) then (sendTokenResponse cfg (env_now e) u 200, srv)
     else (fail 401 MsgInvalidCredentials, srv))"
proof -
  from inv mem have wf: "store_wf (store srv)" and ok: "user_ok u"
    by (auto simp: server_inv_def store_inv_def list_all_iff)
  from ok have nb: "\<not> blank (Some (username u))"
    by (simp add: user_ok_def username_errors_def split: if_splits)
  then have ne: "username u \<noteq> []" by (simp add: blank_def)
  from wf mem have found: "find_one (\<lambda>r. username r = username u) (store srv) = Some u"
    by (rule login_finds_user)
  show ?thesis
    using nb ne found
    by (simp add: with_validator_def validateLogin_def login_def login_body_def empty_body_def
        matchPassword_def)
qed

text \<open>
  Logging in right after a successful registration: the new row is found
  by its username and compared by bcrypt against the registered password.
\<close>

lemma route_register_login:
  assumes inv: "server_inv srv"
    and reg: "route cfg e (PostRegister b) srv = ((201, TokenResp tok pu), srv1)"
    and un: "body_username b = Some un" and pw: "body_password b = Some pw"
  shows "\<exists>u. pu = pub_of u \<and> username u = un \<and> server_inv srv1 \<and> 6 \<le> length pw \<and>
    (\<forall>e' pw0. route cfg e' (PostLogin (login_body un pw0)) srv1 =
      (if pw0 = [] then ((400, ErrorsResp [(FPassword, PasswordRequired)]), srv1)
       else if bcrypt_key pw0 = bcrypt_key pw then (sendTokenResponse cfg (env_now e') u 200, srv1)
       else (fail 401 MsgInvalidCredentials, srv1)))"
proof -
  obtain em u st' where
      emf: "body_email b = Some em" and v: "validateRegister b = []"
    and cr: "create (env_salt e) (env_now e) un em (Some pw) (store srv) = Inr (u, st')"
    and srv1: "srv1 = srv\<lparr>store := st'\<rparr>"
    and pu: "pu = pub_of u"
    using route_register_created [OF reg] un pw by auto
  from cr have u: "u = beforeCreate (env_salt e) (new_user (next_id (store srv)) (env_now e) un em pw)"
    and st': "users st' = users (store srv) @ [u]"
    by (auto simp: create_Inr_iff)
  from v un emf have "username_errors (Some un) = []" "email_errors (Some em) = []"
    by (simp_all add: validateRegister_def)
  then have inv1: "server_inv srv1"
    using inv cr srv1 by (simp add: server_inv_def create_inv)
  have mem: "u \<in> set (users (store srv1))" by (simp add: srv1 st')
  have uu: "username u = un" "password u = bcrypt_hash (env_salt e) (Plain pw)"
    by (simp_all add: u new_user_def)
  have "6 \<le> length pw" using validateRegister_Nil_fields [OF v] pw by auto
  with pu uu inv1 show ?thesis
    using route_login_stored [OF inv1 mem] by (intro exI [of _ u]) auto
qed

subsection \<open>Bearer tokens\<close>

lemma bearer_token_Bearer:
  assumes "CHR '' '' \<notin> set tok"
  shows "bearer_token (Some (''Bearer '' @ tok)) = Some tok"
proof -
  have "''Bearer '' @ tok = ''Bearer'' @ CHR '' '' # tok" by simp
  then have "js_split (CHR '' '') (''Bearer '' @ tok) = [''Bearer'', tok]"
    using assms by (simp add: js_split_no_sep)
  moreover have "starts_with (''Bearer '' @ tok) ''Bearer''"
    by (simp add: starts_with_def)
  ultimately show ?thesis by (simp add: bearer_token_def)
qed

lemma protect_issued:
  assumes "u \<in> set (users (store srv))" "store_wf (store srv)"
    and "t div 1000 < now div 1000 + jwt_expire cfg"
  shows "protect cfg t (Some (''Bearer '' @ getSignedJwtToken cfg now u)) srv = Inr (user_id u)"
proof -
  have "bearer_token (Some (''Bearer '' @ getSignedJwtToken cfg now u)) = Some (getSignedJwtToken cfg now u)"
    by (rule bearer_token_Bearer) (simp add: getSignedJwtToken_def jwt_sign_no_space)
  then show ?thesis
    using assms by (simp add: protect_def getSignedJwtToken_def jwt_verify_sign find_by_pk_in)
qed

subsection \<open>Register outcomes and failed delivery\<close>

lemma register_found:
  assumes "validateRegister b = []" "body_username b = Some un" "body_email b = Some em"
    and "find_one (\<lambda>r. email r = em \<or> username r = un) (store srv) = Some ux"
  shows "route cfg e (PostRegister b) srv =
    (fail 400 (if email ux = em then MsgEmailTaken else MsgUsernameTaken), srv)"
  using assms by (simp add: with_validator_def register_def)

lemma route_forgot_failed:
  assumes inv: "server_inv srv" and mem: "u \<in> set (users (store srv))" and mail: "\<not> env_mail_ok e"
    and new: "resetPasswordToken u \<noteq> Some (sha256 cfg (hex_string (env_rnd e)))"
  shows "route cfg e (PostForgotPassword (forgot_body (email u))) srv =
    (fail 500 MsgEmailNotSent,
     srv\<lparr>store := (store srv)\<lparr>users := map_where (\<lambda>r. user_id r = user_id u)
        (\<lambda>_. u\<lparr>resetPasswordToken := None, resetPasswordExpire := None, updatedAt := env_now e\<rparr>)
        (users (store srv))\<rparr>\<rparr>)"
proof -
  let ?P = "\<lambda>r. user_id r = user_id u"
  let ?st1 = "(store srv)\<lparr>users := map_where ?P (\<lambda>_. pending_row cfg e u) (users (store srv))\<rparr>"
  from inv have sinv: "store_inv (store srv)" by (simp add: server_inv_def)
  then have wf: "store_wf (store srv)" and ok: "user_ok u"
    using mem by (auto simp: store_inv_def list_all_iff)
  have v: "validateForgotPassword (forgot_body (email u)) = []"
    using ok by (simp add: validateForgotPassword_def forgot_body_def empty_body_def user_ok_def)
  have found: "find_one (\<lambda>r. email r = email u) (store srv) = Some u"
    using wf mem by (intro find_one_unique_key [where k = email]) (simp_all add: store_wf_def)
  have sv: "save (env_salt e) (env_now e)
      (u\<lparr>resetPasswordToken := Some (sha256 cfg (hex_string (env_rnd e))),
          resetPasswordExpire := Some (env_now e + reset_expire_ms)\<rparr>) (store srv) =
      Inr (pending_row cfg e u, ?st1)"
    using save_reset_fields [OF wf mem] new by (simp add: pending_row_def)
  have wf1: "store_wf ?st1" using save_wf [OF wf sv] .
  have mem1: "pending_row cfg e u \<in> set (users ?st1)"
    using map_where_mem [OF mem, of ?P "\<lambda>_. pending_row cfg e u"] by simp
  have sv2: "save (env_salt e) (env_now e)
      ((pending_row cfg e u)\<lparr>resetPasswordToken := None, resetPasswordExpire := None\<rparr>) ?st1 =
      Inr (u\<lparr>resetPasswordToken := None, resetPasswordExpire := None, updatedAt := env_now e\<rparr>,
           (store srv)\<lparr>users := map_where ?P
              (\<lambda>_. u\<lparr>resetPasswordToken := None, resetPasswordExpire := None, updatedAt := env_now e\<rparr>)
              (users (store srv))\<rparr>)"
    using save_reset_fields [OF wf1 mem1, of None None "env_salt e" "env_now e"]
    by (simp add: pending_row_def map_where_const_twice)
  show ?thesis
    using v found sv sv2 mail
    by (simp add: with_validator_def forgotPassword_def getResetPasswordToken_def Let_def
        forgot_body_def empty_body_def pending_row_def)
qed


lemma route_getMe_bearer:
  "protect cfg (env_now e) h srv = Inr i \<Longrightarrow>
   route cfg e (GetMe h) srv = ((200, DataResp (map_option profile_of (find_by_pk i (store srv)))), srv)"
  by (simp add: with_protect_def getMe_def)

lemma protect_unverified:
  assumes "CHR '' '' \<notin> set tok" "tok \<noteq> []" "jwt_verify (hmac cfg) (jwt_secret cfg) t tok = None"
  shows "protect cfg t (Some (''Bearer '' @ tok)) srv = Inl (fail 401 MsgNotAuthorized)"
  using bearer_token_Bearer [OF assms(1)] assms(2,3) by (simp add: protect_def)

subsection \<open>Forgot-password keeps the credentials\<close>

lemma save_reset_fields_frame:
  assumes wf: "store_wf st" and mem: "u \<in> set (users st)"
    and sv: "save s t (u\<lparr>resetPasswordToken := a, resetPasswordExpire := x\<rparr>) st = Inr (u', st')"
  shows "credentials st' = credentials st \<and> u' \<in> set (users st') \<and> store_wf st' \<and> user_id u' = user_id u"
proof (cases "(a, x) = (resetPasswordToken u, resetPasswordExpire u)")
  case True
  then have "u\<lparr>resetPasswordToken := a, resetPasswordExpire := x\<rparr> = u" by simp
  with sv wf mem have "u' = u" "st' = st" by (simp_all add: save_def find_by_pk_in)
  with wf mem show ?thesis by simp
next
  case False
  let ?P = "\<lambda>r. user_id r = user_id u"
  let ?v = "u\<lparr>resetPasswordToken := a, resetPasswordExpire := x, updatedAt := t\<rparr>"
  from sv save_reset_fields [OF wf mem False, of s t]
  have "u' = ?v \<and> st' = st\<lparr>users := map_where ?P (\<lambda>_. ?v) (users st)\<rparr>" by auto
  then have u': "u' = ?v" and st': "st' = st\<lparr>users := map_where ?P (\<lambda>_. ?v) (users st)\<rparr>" by simp_all
  have "\<forall>r\<in>set (users st). ?P r \<longrightarrow> r = u"
    using wf mem by (auto simp: store_wf_def dest: distinct_map_eqD)
  then have "credentials st' = credentials st"
    by (auto simp: credentials_def st' map_where_def intro!: map_cong)
  moreover have "u' \<in> set (users st')"
    using map_where_mem [OF mem, of ?P "\<lambda>_. ?v"] by (simp add: u' st')
  moreover have "store_wf st'" using save_wf [OF wf sv] .
  ultimately show ?thesis by (simp add: u')
qed

lemma forgotPassword_credentials:
  assumes inv: "server_inv srv" and fp: "forgotPassword cfg e b srv = (resp, srv')"
  shows "credentials (store srv') = credentials (store srv)"
proof -
  from inv have sinv: "store_inv (store srv)" by (simp add: server_inv_def)
  then have wf: "store_wf (store srv)" by (simp add: store_inv_def)
  show ?thesis
  proof (cases "\<exists>em u. body_email b = Some em \<and> find_one (\<lambda>r. email r = em) (store srv) = Some u")
    case False
    with fp show ?thesis by (auto simp: forgotPassword_def split: option.splits)
  next
    case True
    then obtain em u where em: "body_email b = Some em" and fnd: "find_one (\<lambda>r. email r = em) (store srv) = Some u"
      by blast
    from fnd have mem: "u \<in> set (users (store srv))" by (auto simp: find_one_def)
    let ?u1 = "u\<lparr>resetPasswordToken := Some (sha256 cfg (hex_string (env_rnd e))),
                 resetPasswordExpire := Some (env_now e + reset_expire_ms)\<rparr>"
    have gr: "getResetPasswordToken cfg (env_now e) (env_rnd e) u = (hex_string (env_rnd e), ?u1)"
      by (simp add: getResetPasswordToken_def Let_def)
    show ?thesis
    proof (cases "save (env_salt e) (env_now e) ?u1 (store srv)")
      case (Inl err)
      with fp em fnd gr show ?thesis by (simp add: forgotPassword_def)
    next
      case (Inr r1)
      then obtain u2 st1 where sv1: "save (env_salt e) (env_now e) ?u1 (store srv) = Inr (u2, st1)"
        by (cases r1) auto
      from save_reset_fields_frame [OF wf mem sv1]
      have c1: "credentials st1 = credentials (store srv)" and mem1: "u2 \<in> set (users st1)"
        and wf1: "store_wf st1" by simp_all
      show ?thesis
      proof (cases "env_mail_ok e")
        case True
        with fp em fnd gr sv1 c1 show ?thesis by (auto simp: forgotPassword_def)
      next
        case False
        show ?thesis
        proof (cases "save (env_salt e) (env_now e) (u2\<lparr>resetPasswordToken := None, resetPasswordExpire := None\<rparr>) st1")
          case (Inl err)
          with False fp em fnd gr sv1 c1 show ?thesis by (auto simp: forgotPassword_def)
        next
          case (Inr r2)
          then obtain u3 st2 where sv2: "save (env_salt e) (env_now e)
              (u2\<lparr>resetPasswordToken := None, resetPasswordExpire := None\<rparr>) st1 = Inr (u3, st2)"
            by (cases r2) auto
          from save_reset_fields_frame [OF wf1 mem1 sv2] have "credentials st2 = credentials st1" by simp
          with False fp em fnd gr sv1 sv2 c1 show ?thesis by (auto simp: forgotPassword_def)
        qed
      qed
    qed
  qed
qed

text \<open>A forgot-password request for a stored user, a reset with the mailed secret within the window, and the logins that follow.\<close>

lemma forgot_reset_login:
  assumes inv: "server_inv srv" and mem: "u \<in> set (users (store srv))" and mail: "env_mail_ok e"
    and fresh: "list_all (\<lambda>r. resetPasswordToken r \<noteq> Some (sha256 cfg (hex_string (env_rnd e)))) (users (store srv))"
    and fp: "route cfg e (PostForgotPassword (forgot_body (email u))) srv = (resp, srv1)"
    and time: "env_now e' < env_now e + reset_expire_ms"
    and vb: "validateResetPassword b = []" and pwb: "body_password b = Some pw" and len: "length pw \<le> 100"
    and rs: "route cfg e' (PutResetPassword (hex_string (env_rnd e)) b) srv1 = (resp2, srv2)"
  shows "resp = (200, Message True MsgEmailSent) \<and>
    outbox srv1 = outbox srv @ [\<lparr>mail_to = email u, mail_token = hex_string (env_rnd e)\<rparr>] \<and>
    fst resp2 = 200 \<and>
    (\<forall>pw0. fst (fst (route cfg e'' (PostLogin (login_body (username u) pw0)) srv2)) = 200 \<longleftrightarrow>
       pw0 \<noteq> [] \<and> bcrypt_key pw0 = bcrypt_key pw)"
proof -
  let ?d = "sha256 cfg (hex_string (env_rnd e))"
  let ?p = "pending_row cfg e u"
  from fresh mem have new: "resetPasswordToken u \<noteq> Some ?d" by (simp add: list_all_iff)
  have srv1: "srv1 = srv\<lparr>store := (store srv)\<lparr>users := map_where (\<lambda>r. user_id r = user_id u) (\<lambda>_. ?p)
                                  (users (store srv))\<rparr>,
         outbox := outbox srv @ [\<lparr>mail_to = email u, mail_token = hex_string (env_rnd e)\<rparr>]\<rparr>"
    and resp: "resp = (200, Message True MsgEmailSent)"
    using fp route_forgot_sent [OF inv mem mail new] by simp_all
  have inv1: "server_inv srv1" using route_inv [OF inv fp] .
  have pmem: "?p \<in> set (users (store srv1))"
    using map_where_mem [OF mem, of "\<lambda>r. user_id r = user_id u" "\<lambda>_. ?p"] by (simp add: srv1)
  have pmatch: "reset_match ?d (env_now e') ?p"
    using time by (simp add: reset_match_def pending_row_def)
  have only: "\<forall>y\<in>set (users (store srv1)). reset_match ?d (env_now e') y \<longrightarrow> y = ?p"
  proof
    fix y
    assume "y \<in> set (users (store srv1))"
    then have "(y \<in> set (users (store srv)) \<and> user_id y \<noteq> user_id u) \<or> y = ?p"
      by (auto simp: srv1 dest: set_map_where_sub)
    with fresh show "reset_match ?d (env_now e') y \<longrightarrow> y = ?p"
      by (auto simp: list_all_iff reset_match_def)
  qed
  have found: "find_one (reset_match ?d (env_now e')) (store srv1) = Some ?p"
    unfolding find_one_def using pmem pmatch only by (rule find_unique)
  let ?q = "reset_row (env_salt e') (env_now e') pw ?p"
  have srv2: "srv2 = srv1\<lparr>store := (store srv1)\<lparr>users := map_where (\<lambda>r. user_id r = user_id ?p)
                        (\<lambda>_. ?q) (users (store srv1))\<rparr>\<rparr>"
    and resp2: "resp2 = sendTokenResponse cfg (env_now e') ?q 200"
    using rs route_reset_cases [OF inv1 vb pwb, of cfg e' "hex_string (env_rnd e)"] found len by simp_all
  have inv2: "server_inv srv2" using route_inv [OF inv1 rs] .
  have qmem: "?q \<in> set (users (store srv2))"
    using map_where_mem [OF pmem, of "\<lambda>r. user_id r = user_id ?p" "\<lambda>_. ?q"] by (simp add: srv2)
  have pw6: "pw \<noteq> []" using validateResetPassword_Nil_fields [OF vb] pwb by auto
  have "username ?q = username u" "password ?q = bcrypt_hash (env_salt e') (Plain pw)"
    by (simp_all add: reset_row_def pending_row_def)
  then have login: "route cfg e'' (PostLogin (login_body (username u) pw0)) srv2 =
    (if pw0 = [] then ((400, ErrorsResp [(FPassword, PasswordRequired)]), srv2)
     else if bcrypt_key pw0 = bcrypt_key pw then (sendTokenResponse cfg (env_now e'') ?q 200, srv2)
     else (fail 401 MsgInvalidCredentials, srv2))" for pw0
    using route_login_stored [OF inv2 qmem, of cfg e'' pw0] by simp
  show ?thesis
    using resp srv1 resp2 login pw6 by (auto simp: sendTokenResponse_def fail_def)
qed

text \<open>
  Under a digest injective on the secrets \<open>randomBytes(20)\<close> can give, a
  table with fewer than \<open>2^160\<close> rows leaves a secret that matches no row.
\<close>

lemma stored_digests_fresh:
  assumes "inj_on (sha256 cfg) (hex_string ` {bs :: byte list. length bs = 20})"
    and "length rows < 2 ^ 160"
  shows "\<exists>bs :: byte list. length bs = 20 \<and>
    list_all (\<lambda>r. resetPasswordToken r \<noteq> Some (sha256 cfg (hex_string bs))) rows"
proof -
  have "length (List.map_filter resetPasswordToken rows) \<le> length rows"
    by (simp add: map_filter_def)
  then have "card (set (List.map_filter resetPasswordToken rows)) < 2 ^ 160"
    using card_length [of "List.map_filter resetPasswordToken rows"] assms(2) by linarith
  from fresh_bytes_exist [OF assms(1) finite_set this] obtain bs :: "byte list"
    where "length bs = 20" "sha256 cfg (hex_string bs) \<notin> set (List.map_filter resetPasswordToken rows)"
    by blast
  then show ?thesis by (force simp: list_all_iff map_filter_def)
qed

end
