(* ===== verification/App.thy ===== *)
theory App
  imports Routes
begin

text \<open>
  The Express application of \<open>src/Backend/server.js\<close> in front of the router:
  \<open>cors()\<close>, the hand-written CORS middleware, \<open>express.json()\<close>, the router
  mounted at \<open>/api/auth\<close> with the six routes of
  \<open>src/Backend/routes/authRoutes.js\<close>, the routes \<open>/test\<close> and \<open>/\<close>, the error
  handler, and Express's final 404.  An HTTP request is its method, its URL
  path (with any query string), its \<open>Authorization\<close> header and its body,
  which is either JSON (absent fields \<open>undefined\<close>; no body is \<open>{}\<close>) or a
  body that \<open>express.json()\<close> fails to parse.  An answer is JSON, a text
  that is not JSON, or an empty body.

  Express matches routes as its documentation says: literal path segments
  ignore letter case, one trailing slash is allowed, the query string is not
  part of the path, and a parameter is one non-empty segment.  The
  percent-decoding of a parameter is not modelled.
\<close>

datatype http_method = HGet | HPost | HPut | HOptions | HOther

datatype http_body = JsonBody req_body | BadJson

record http_req =
  hreq_method :: http_method
  hreq_url :: string
  hreq_auth :: "string option"
  hreq_body :: http_body

datatype http_resp = JsonResp response | TextResp nat | EmptyResp nat

definition ascii_lower :: "char \<Rightarrow> char" where
  "ascii_lower c = (let k = of_char c :: nat in if 65 \<le> k \<and> k \<le> 90 then char_of (k + 32) else c)"

definition url_path :: "string \<Rightarrow> string" where
  "url_path u = takeWhile (\<lambda>c. c \<noteq> CHR ''?'') u"

text \<open>A path without its one optional trailing slash.\<close>

definition strip_slash :: "string \<Rightarrow> string" where
  "strip_slash p = (if 1 < length p \<and> last p = CHR ''/'' then butlast p else p)"

definition path_is :: "string \<Rightarrow> string \<Rightarrow> bool" where
  "path_is p lit \<longleftrightarrow> map ascii_lower (strip_slash p) = lit"

text \<open>\<open>app.use('/api/auth', router)\<close>: the rest of the path below the mount point.\<close>

definition mount_rest :: "string \<Rightarrow> string option" where
  "mount_rest p =
     (if map ascii_lower (take 9 p) = ''/api/auth'' \<and> (length p = 9 \<or> p ! 9 = CHR ''/'')
      then Some (if length p = 9 then ''/'' else drop 9 p) else None)"

text \<open>The route table of \<open>authRoutes.js\<close>; \<open>:resettoken\<close> is one segment.\<close>

definition reset_param :: "string \<Rightarrow> string option" where
  "reset_param p =
     (let q = strip_slash p
      in if map ascii_lower (take 16 q) = ''/reset-password/'' \<and> 16 < length q \<and>
            CHR ''/'' \<notin> set (drop 16 q)
         then Some (drop 16 q) else None)"

fun auth_route :: "http_method \<Rightarrow> string \<Rightarrow> string option \<Rightarrow> req_body \<Rightarrow> request option" where
  "auth_route HPost p h b =
     (if path_is p ''/register'' then Some (PostRegister b)
      else if path_is p ''/login'' then Some (PostLogin b)
      else if path_is p ''/forgot-password'' then Some (PostForgotPassword b) else None)"
| "auth_route HPut p h b = map_option (\<lambda>tok. PutResetPassword tok b) (reset_param p)"
| "auth_route HGet p h b =
     (if path_is p ''/me'' then Some (GetMe h)
      else if path_is p ''/logout'' then Some (GetLogout h) else None)"
| "auth_route _ p h b = None"

text \<open>
  The application.  \<open>cors()\<close> runs first and ends every \<open>OPTIONS\<close> request with
  204, so the \<open>OPTIONS\<close> branch of the hand-written middleware after it is
  never reached.  A body that \<open>express.json()\<close> rejects goes to the error
  handler.  A path the router does not serve falls through to \<open>/test\<close>,
  \<open>/\<close> and Express's 404 page.
\<close>

definition app_fallthrough :: "http_method \<Rightarrow> string \<Rightarrow> http_resp" where
  "app_fallthrough m p =
     (if m = HGet \<and> path_is p ''/test'' then JsonResp (200, Message True MsgServerOnline)
      else if m = HGet \<and> path_is p ''/'' then TextResp 200
      else TextResp 404)"

definition app_dispatch :: "config \<Rightarrow> env \<Rightarrow> http_req \<Rightarrow> server \<Rightarrow> http_resp \<times> server" where
  "app_dispatch cfg e hr srv =
     (if hreq_method hr = HOptions then (EmptyResp 204, srv)
      else case hreq_body hr of
        BadJson \<Rightarrow> (JsonResp (fail 500 MsgSomethingWrong), srv)
      | JsonBody b \<Rightarrow>
          (let p = url_path (hreq_url hr)
           in case mount_rest p of
                None \<Rightarrow> (app_fallthrough (hreq_method hr) p, srv)
              | Some q \<Rightarrow>
                  (case auth_route (hreq_method hr) q (hreq_auth hr) b of
                     None \<Rightarrow> (app_fallthrough (hreq_method hr) p, srv)
                   | Some r \<Rightarrow> apfst JsonResp (route cfg e r srv))))"

text \<open>The paths the Next.js proxies call, read back by the route table.\<close>

lemma url_path_no_query: "CHR ''?'' \<notin> set u \<Longrightarrow> url_path u = u"
  by (auto simp: url_path_def takeWhile_eq_all_conv)

lemma reset_param_token:
  assumes "tok \<noteq> []" "CHR ''/'' \<notin> set tok"
  shows "reset_param (''/reset-password/'' @ tok) = Some tok"
proof -
  have "last (''/reset-password/'' @ tok) \<noteq> CHR ''/''"
    using assms by (simp add: last_append) (metis last_in_set)
  then have "strip_slash (''/reset-password/'' @ tok) = ''/reset-password/'' @ tok"
    by (simp add: strip_slash_def)
  moreover have "map ascii_lower ''/reset-password/'' = ''/reset-password/''"
    by (simp add: ascii_lower_def)
  ultimately show ?thesis
    using assms by (simp add: reset_param_def Let_def)
qed

lemma app_put_refused:
  assumes "validateResetPassword b \<noteq> []"
  shows "app_dispatch cfg e \<lparr>hreq_method = HPut, hreq_url = u, hreq_auth = h, hreq_body = JsonBody b\<rparr> srv \<in>
    {(TextResp 404, srv), (JsonResp (400, ErrorsResp (validateResetPassword b)), srv)}"
  using assms
  by (auto simp: app_dispatch_def app_fallthrough_def with_validator_def Let_def split: option.splits)


end
