(* ===== verification/Proxy.thy ===== *)
theory Proxy
  imports App
begin

text \<open>
  The Next.js API routes of \<open>src/FrontEnd/Pages/api/auth/\<close>: each handler
  checks the HTTP method, checks the header or path parameter it needs,
  forwards the request to the backend at \<open>API_URL\<close> and relays the backend's
  status and JSON body.  What \<open>fetch\<close> returns is a \<open>reply\<close>: a status with the
  response text (a JSON body, blank text, or text that is not JSON), or a
  network error when the backend cannot be reached.  The backend always
  answers with \<open>res.json\<close>, so a reached backend gives a JSON reply.  The
  \<open>error: error.message\<close> field that the 500 answers carry besides the message
  is not modelled.
\<close>

datatype btext = BJson resp_body | BBlank | BText

datatype reply = Reply nat btext | NetError

definition backend_reply :: "response \<Rightarrow> reply" where
  "backend_reply r = Reply (fst r) (BJson (snd r))"

text \<open>
  The request each proxy's \<open>fetch(`${API_URL}/api/auth/...`)\<close> sends to the
  backend: the method, the path, the \<open>Authorization\<close> header of \<open>me.js\<close> and
  \<open>logout.js\<close>, and the JSON body (\<open>{}\<close> for the two \<open>GET\<close>s).
\<close>

fun backend_request :: "request \<Rightarrow> http_req" where
  "backend_request (PostRegister b) = \<lparr>hreq_method = HPost, hreq_url = ''/api/auth/register'', hreq_auth = None, hreq_body = JsonBody b\<rparr>"
| "backend_request (PostLogin b) = \<lparr>hreq_method = HPost, hreq_url = ''/api/auth/login'', hreq_auth = None, hreq_body = JsonBody b\<rparr>"
| "backend_request (PostForgotPassword b) = \<lparr>hreq_method = HPost, hreq_url = ''/api/auth/forgot-password'', hreq_auth = None, hreq_body = JsonBody b\<rparr>"
| "backend_request (PutResetPassword tok b) = \<lparr>hreq_method = HPut, hreq_url = ''/api/auth/reset-password/'' @ tok, hreq_auth = None, hreq_body = JsonBody b\<rparr>"
| "backend_request (GetMe h) = \<lparr>hreq_method = HGet, hreq_url = ''/api/auth/me'', hreq_auth = h, hreq_body = JsonBody empty_body\<rparr>"
| "backend_request (GetLogout h) = \<lparr>hreq_method = HGet, hreq_url = ''/api/auth/logout'', hreq_auth = h, hreq_body = JsonBody empty_body\<rparr>"

text \<open>What \<open>fetch\<close> gets back: the status and the text of the Express answer.\<close>

fun reply_of :: "http_resp \<Rightarrow> reply" where
  "reply_of (JsonResp r) = backend_reply r"
| "reply_of (TextResp c) = Reply c BText"
| "reply_of (EmptyResp c) = Reply c BBlank"

definition call_backend :: "config \<Rightarrow> env \<Rightarrow> bool \<Rightarrow> request \<Rightarrow> server \<Rightarrow> reply \<times> server" where
  "call_backend cfg e up r srv =
     (if up then apfst reply_of (app_dispatch cfg e (backend_request r) srv) else (NetError, srv))"

text \<open>The requests whose path the route table reads back: a reset token is one segment without \<open>?\<close>.\<close>

definition routable :: "request \<Rightarrow> bool" where
  "routable r = (case r of PutResetPassword tok b \<Rightarrow> tok \<noteq> [] \<and> CHR ''/'' \<notin> set tok \<and> CHR ''?'' \<notin> set tok
                 | _ \<Rightarrow> True)"

text \<open>
  The tail the login, register and reset proxies share: parse the text,
  answer 500 when it is not JSON, relay status and body otherwise; the
  \<open>catch\<close> of a failed \<open>fetch\<close> answers 500 as well.
\<close>

fun relay :: "reply \<Rightarrow> response" where
  "relay NetError = fail 500 MsgBackendUnreachable"
| "relay (Reply c (BJson d)) = (c, d)"
| "relay (Reply c _) = fail 500 MsgBadBackendResponse"

text \<open>\<open>me.js\<close> answers 401 on a blank text before parsing it.\<close>

fun relay_me :: "reply \<Rightarrow> response" where
  "relay_me NetError = fail 500 MsgBackendUnreachable"
| "relay_me (Reply c BBlank) = fail 401 MsgNotAuthenticated"
| "relay_me (Reply c (BJson d)) = (c, d)"
| "relay_me (Reply c BText) = fail 500 MsgBadBackendResponse"

text \<open>\<open>logout.js\<close> reports a successful logout whenever the backend's answer is unusable.\<close>

fun relay_logout :: "reply \<Rightarrow> response" where
  "relay_logout (Reply c (BJson d)) = (c, d)"
| "relay_logout _ = (200, Message True MsgLoggedOut)"

definition forward :: "(reply \<Rightarrow> response) \<Rightarrow> config \<Rightarrow> env \<Rightarrow> bool \<Rightarrow> request \<Rightarrow> server \<Rightarrow> response \<times> server" where
  "forward k cfg e up r srv = (let (rep, srv') = call_backend cfg e up r srv in (k rep, srv'))"

definition proxy_login :: "config \<Rightarrow> env \<Rightarrow> bool \<Rightarrow> http_method \<Rightarrow> req_body \<Rightarrow> server \<Rightarrow> response \<times> server" where
  "proxy_login cfg e up m b srv =
     (if m \<noteq> HPost then (fail 405 MsgMethodNotAllowed, srv)
      else forward relay cfg e up (PostLogin b) srv)"

text \<open>
  \<open>register.js\<close> rebuilds the body from the four destructured fields and
  drops \<open>confirmPassword\<close> when it is falsy.
\<close>

definition register_forward_body :: "req_body \<Rightarrow> req_body" where
  "register_forward_body b =
     \<lparr>body_username = body_username b, body_email = body_email b, body_password = body_password b,
      body_confirmPassword = (if js_falsy (body_confirmPassword b) then None else body_confirmPassword b)\<rparr>"

definition proxy_register :: "config \<Rightarrow> env \<Rightarrow> bool \<Rightarrow> http_method \<Rightarrow> req_body \<Rightarrow> server \<Rightarrow> response \<times> server" where
  "proxy_register cfg e up m b srv =
     (if m \<noteq> HPost then (fail 405 MsgMethodNotAllowed, srv)
      else forward relay cfg e up (PostRegister (register_forward_body b)) srv)"

definition proxy_me :: "config \<Rightarrow> env \<Rightarrow> bool \<Rightarrow> http_method \<Rightarrow> string option \<Rightarrow> server \<Rightarrow> response \<times> server" where
  "proxy_me cfg e up m h srv =
     (if m \<noteq> HGet then (fail 405 MsgMethodNotAllowed, srv)
      else if js_falsy h then (fail 401 MsgNoAuthHeader, srv)
      else forward relay_me cfg e up (GetMe h) srv)"

definition proxy_logout :: "config \<Rightarrow> env \<Rightarrow> bool \<Rightarrow> http_method \<Rightarrow> string option \<Rightarrow> server \<Rightarrow> response \<times> server" where
  "proxy_logout cfg e up m h srv =
     (if m \<noteq> HGet then (fail 405 MsgMethodNotAllowed, srv)
      else if js_falsy h then (fail 401 MsgNoAuthHeader, srv)
      else forward relay_logout cfg e up (GetLogout h) srv)"

definition proxy_reset :: "config \<Rightarrow> env \<Rightarrow> bool \<Rightarrow> http_method \<Rightarrow> string option \<Rightarrow> req_body \<Rightarrow> server \<Rightarrow> response \<times> server" where
  "proxy_reset cfg e up m tok b srv =
     (if m \<noteq> HPut then (fail 405 MsgMethodNotAllowed, srv)
      else if js_falsy tok then (fail 400 MsgNoResetToken, srv)
      else forward relay cfg e up (PutResetPassword (field_str tok) b) srv)"

text \<open>
  The calls the client makes under \<open>/api/auth\<close>.  Next.js serves a path with
  the file of \<open>pages/api\<close> that has its name; there is no file for
  \<open>forgot-password\<close>, so that call gets the framework's 404 page, which is
  not JSON.  A proxy's own answer is always JSON.
\<close>

datatype api_call =
    ApiRegister req_body
  | ApiLogin req_body
  | ApiMe "string option"
  | ApiLogout "string option"
  | ApiForgotPassword req_body
  | ApiResetPassword "string option" req_body

fun next_api :: "config \<Rightarrow> env \<Rightarrow> bool \<Rightarrow> http_method \<Rightarrow> api_call \<Rightarrow> server \<Rightarrow> reply \<times> server" where
  "next_api cfg e up m (ApiRegister b) srv = apfst backend_reply (proxy_register cfg e up m b srv)"
| "next_api cfg e up m (ApiLogin b) srv = apfst backend_reply (proxy_login cfg e up m b srv)"
| "next_api cfg e up m (ApiMe h) srv = apfst backend_reply (proxy_me cfg e up m h srv)"
| "next_api cfg e up m (ApiLogout h) srv = apfst backend_reply (proxy_logout cfg e up m h srv)"
| "next_api cfg e up m (ApiForgotPassword b) srv = (Reply 404 BText, srv)"
| "next_api cfg e up m (ApiResetPassword tok b) srv = apfst backend_reply (proxy_reset cfg e up m tok b srv)"

lemma app_backend_request:
  "routable r \<Longrightarrow> app_dispatch cfg e (backend_request r) srv = apfst JsonResp (route cfg e r srv)"
proof (cases r)
  case (PutResetPassword tok b)
  moreover assume "routable r"
  ultimately have tok: "tok \<noteq> []" "CHR ''/'' \<notin> set tok" "CHR ''?'' \<notin> set tok"
    by (simp_all add: routable_def)
  then have "CHR ''?'' \<notin> set (''/api/auth/reset-password/'' @ tok)" by simp
  moreover have "mount_rest (''/api/auth/reset-password/'' @ tok) = Some (''/reset-password/'' @ tok)"
    by (simp add: mount_rest_def ascii_lower_def)
  ultimately show ?thesis
    using PutResetPassword reset_param_token [OF tok(1,2)]
    by (simp add: app_dispatch_def url_path_no_query)
qed (simp_all add: app_dispatch_def url_path_def mount_rest_def path_is_def strip_slash_def ascii_lower_def)

lemma call_backend_up:
  "routable r \<Longrightarrow> call_backend cfg e True r srv = apfst backend_reply (route cfg e r srv)"
  by (simp add: call_backend_def app_backend_request apfst_def map_prod_def split_def)

lemma call_backend_down [simp]: "call_backend cfg e False r srv = (NetError, srv)"
  by (simp add: call_backend_def)

lemma relay_backend_reply [simp]: "relay (backend_reply r) = r"
  by (cases r) (simp add: backend_reply_def)

lemma relay_me_backend_reply [simp]: "relay_me (backend_reply r) = r"
  by (cases r) (simp add: backend_reply_def)

lemma relay_logout_backend_reply [simp]: "relay_logout (backend_reply r) = r"
  by (cases r) (simp add: backend_reply_def)

lemma forward_up:
  "(\<And>r. k (backend_reply r) = r) \<Longrightarrow> routable q \<Longrightarrow> forward k cfg e True q srv = route cfg e q srv"
  by (simp add: forward_def call_backend_up split_def apfst_def map_prod_def)

lemma forward_down: "forward k cfg e False q srv = (k NetError, srv)"
  by (simp add: forward_def)

lemma forward_state: "snd (forward k cfg e up q srv) = snd (call_backend cfg e up q srv)"
  by (simp add: forward_def split_def Let_def)


lemma register_forward_body_id:
  "body_confirmPassword b \<noteq> Some [] \<Longrightarrow> register_forward_body b = b"
  by (cases b) (auto simp: register_forward_body_def js_falsy_def split: option.splits)

end
