(* ===== verification/Client.thy ===== *)
theory Client
  imports Proxy
begin

text \<open>
  The client state of \<open>src/FrontEnd/context/AuthContext.js\<close>: the React state
  \<open>user\<close>, \<open>loading\<close> and \<open>error\<close>, the \<open>token\<close> entry of \<open>localStorage\<close> and the
  last page pushed to the router.  Each action of the context is a function
  that sends its call to the Next.js API (\<open>next_api\<close>), reads the reply and
  returns the new client state and the new backend state; \<open>forgotPassword\<close>
  and \<open>resetPassword\<close> also return the boolean they resolve to.  The browser
  always reaches the Next.js server (same origin), so the actions' \<open>catch\<close>
  branches, taken only when that \<open>fetch\<close> throws, are not modelled.
\<close>

datatype cuser = PubUser pub_user | ProfUser profile

datatype cerror =
    ErrMsg msg             \<comment> \<open>\<open>data.message\<close>\<close>
  | ErrNotJson             \<comment> \<open>La respuesta del servidor no es un JSON valido\<close>
  | ErrRegisterDefault     \<comment> \<open>Error en el registro\<close>
  | ErrLoginDefault        \<comment> \<open>Credenciales invalidas\<close>
  | ErrForgotDefault       \<comment> \<open>Error al solicitar cambio de contrasena\<close>
  | ErrResetDefault        \<comment> \<open>Error al restablecer contrasena\<close>

record client =
  cl_user :: "cuser option"
  cl_loading :: bool
  cl_error :: "cerror option"
  cl_token :: "string option"
  cl_page :: "string option"

definition init_client :: client where
  "init_client = \<lparr>cl_user = None, cl_loading = True, cl_error = None, cl_token = None, cl_page = None\<rparr>"

text \<open>\<open>res.ok\<close>, and the fields \<open>data.message\<close>, \<open>data.user\<close>, \<open>data.token\<close>, \<open>data.data\<close> of a body.\<close>

definition res_ok :: "nat \<Rightarrow> bool" where
  "res_ok c = (200 \<le> c \<and> c \<le> 299)"

fun body_message :: "resp_body \<Rightarrow> msg option" where
  "body_message (Message _ m) = Some m"
| "body_message _ = None"

fun body_user :: "resp_body \<Rightarrow> cuser option" where
  "body_user (TokenResp _ u) = Some (PubUser u)"
| "body_user _ = None"

text \<open>\<open>localStorage.setItem('token', undefined)\<close> stores the string \<open>undefined\<close>.\<close>

fun body_token :: "resp_body \<Rightarrow> string" where
  "body_token (TokenResp t _) = t"
| "body_token _ = ''undefined''"

fun body_data :: "resp_body \<Rightarrow> cuser option" where
  "body_data (DataResp p) = map_option ProfUser p"
| "body_data _ = None"

definition err_of :: "cerror \<Rightarrow> resp_body \<Rightarrow> cerror" where
  "err_of dflt d = (case body_message d of Some m \<Rightarrow> ErrMsg m | None \<Rightarrow> dflt)"

text \<open>\<open>Authorization: `Bearer ${token}`\<close> with the stored token (\<open>null\<close> when absent).\<close>

definition bearer_header :: "string option \<Rightarrow> string option" where
  "bearer_header tok = Some (''Bearer '' @ (case tok of None \<Rightarrow> ''null'' | Some t \<Rightarrow> t))"

text \<open>
  What \<open>register\<close> and \<open>login\<close> do with the reply: store the user and the
  token and go to \<open>/home\<close>, or record the error and clear the user.
\<close>

fun session_reply :: "cerror \<Rightarrow> reply \<Rightarrow> client \<Rightarrow> client" where
  "session_reply dflt (Reply c (BJson d)) cl =
     (if res_ok c then cl\<lparr>cl_user := body_user d, cl_error := None, cl_token := Some (body_token d),
                          cl_page := Some ''/home''\<rparr>
      else cl\<lparr>cl_error := Some (err_of dflt d), cl_user := None\<rparr>)"
| "session_reply dflt _ cl = cl\<lparr>cl_error := Some ErrNotJson\<rparr>"

definition client_register :: "config \<Rightarrow> env \<Rightarrow> bool \<Rightarrow> string \<Rightarrow> string \<Rightarrow> string \<Rightarrow> string \<Rightarrow> client \<times> server \<Rightarrow> client \<times> server" where
  "client_register cfg e up un em pw cpw cs =
     (let (cl, srv) = cs;
          (rep, srv') = next_api cfg e up HPost (ApiRegister (reg_body un em pw cpw)) srv
      in ((session_reply ErrRegisterDefault rep (cl\<lparr>cl_loading := True, cl_error := None\<rparr>))\<lparr>cl_loading := False\<rparr>,
          srv'))"

definition client_login :: "config \<Rightarrow> env \<Rightarrow> bool \<Rightarrow> string \<Rightarrow> string \<Rightarrow> client \<times> server \<Rightarrow> client \<times> server" where
  "client_login cfg e up un pw cs =
     (let (cl, srv) = cs;
          (rep, srv') = next_api cfg e up HPost (ApiLogin (login_body un pw)) srv
      in ((session_reply ErrLoginDefault rep (cl\<lparr>cl_loading := True, cl_error := None\<rparr>))\<lparr>cl_loading := False\<rparr>,
          srv'))"

text \<open>\<open>logout\<close> ignores the reply: the token and the user are cleared in any case.\<close>

definition client_logout :: "config \<Rightarrow> env \<Rightarrow> bool \<Rightarrow> client \<times> server \<Rightarrow> client \<times> server" where
  "client_logout cfg e up cs =
     (let (cl, srv) = cs;
          (rep, srv') = next_api cfg e up HGet (ApiLogout (bearer_header (cl_token cl))) srv
      in (cl\<lparr>cl_token := None, cl_user := None, cl_page := Some ''/''\<rparr>, srv'))"

text \<open>\<open>forgotPassword\<close> and \<open>resetPassword\<close> resolve to whether the reply was a 2xx JSON answer.\<close>

fun flag_reply :: "cerror \<Rightarrow> reply \<Rightarrow> client \<Rightarrow> bool \<times> client" where
  "flag_reply dflt (Reply c (BJson d)) cl =
     (if res_ok c then (True, cl\<lparr>cl_error := None\<rparr>) else (False, cl\<lparr>cl_error := Some (err_of dflt d)\<rparr>))"
| "flag_reply dflt _ cl = (False, cl\<lparr>cl_error := Some ErrNotJson\<rparr>)"

definition client_forgotPassword :: "config \<Rightarrow> env \<Rightarrow> bool \<Rightarrow> string \<Rightarrow> client \<times> server \<Rightarrow> bool \<times> client \<times> server" where
  "client_forgotPassword cfg e up em cs =
     (let (cl, srv) = cs;
          (rep, srv') = next_api cfg e up HPost (ApiForgotPassword (forgot_body em)) srv;
          (ok, cl') = flag_reply ErrForgotDefault rep (cl\<lparr>cl_loading := True, cl_error := None\<rparr>)
      in (ok, cl'\<lparr>cl_loading := False\<rparr>, srv'))"

text \<open>The body of the reset request is \<open>JSON.stringify({ password })\<close>.\<close>

definition client_reset_body :: "string \<Rightarrow> req_body" where
  "client_reset_body pw = empty_body\<lparr>body_password := Some pw\<rparr>"

definition client_resetPassword :: "config \<Rightarrow> env \<Rightarrow> bool \<Rightarrow> string \<Rightarrow> string \<Rightarrow> client \<times> server \<Rightarrow> bool \<times> client \<times> server" where
  "client_resetPassword cfg e up pw tok cs =
     (let (cl, srv) = cs;
          (rep, srv') = next_api cfg e up HPut (ApiResetPassword (Some tok) (client_reset_body pw)) srv;
          cl0 = cl\<lparr>cl_loading := True, cl_error := None\<rparr>
      in case rep of
           Reply c (BJson d) \<Rightarrow>
             if res_ok c then
               (True, cl0\<lparr>cl_user := body_user d, cl_error := None, cl_token := Some (body_token d),
                          cl_page := Some ''/home'', cl_loading := False\<rparr>, srv')
             else (False, cl0\<lparr>cl_error := Some (err_of ErrResetDefault d), cl_loading := False\<rparr>, srv')
         | _ \<Rightarrow> (False, cl0\<lparr>cl_error := Some ErrNotJson, cl_loading := False\<rparr>, srv'))"

text \<open>
  \<open>checkUserLoggedIn\<close>, run when the provider mounts: with a stored token it
  asks \<open>/api/auth/me\<close>; a blank or non-JSON answer or a non-2xx status drops
  the token.
\<close>

fun me_reply :: "reply \<Rightarrow> client \<Rightarrow> client" where
  "me_reply (Reply c (BJson d)) cl =
     (if res_ok c then cl\<lparr>cl_user := body_data d, cl_error := None\<rparr>
      else cl\<lparr>cl_token := None, cl_user := None\<rparr>)"
| "me_reply _ cl = cl\<lparr>cl_token := None, cl_user := None\<rparr>"

definition checkUserLoggedIn :: "config \<Rightarrow> env \<Rightarrow> bool \<Rightarrow> client \<times> server \<Rightarrow> client \<times> server" where
  "checkUserLoggedIn cfg e up cs =
     (let (cl, srv) = cs
      in if js_falsy (cl_token cl) then (cl\<lparr>cl_user := None, cl_loading := False\<rparr>, srv)
         else
           (let (rep, srv') = next_api cfg e up HGet (ApiMe (bearer_header (cl_token cl))) srv
            in ((me_reply rep cl)\<lparr>cl_loading := False\<rparr>, srv')))"

text \<open>
  Loading a page mounts \<open>AuthProvider\<close>: React state starts as \<open>init_client\<close>, only the
  \<open>localStorage\<close> token survives from before, and the mount effect runs
  \<open>checkUserLoggedIn\<close>.
\<close>

definition AuthProvider_mount :: "config \<Rightarrow> env \<Rightarrow> bool \<Rightarrow> string option \<Rightarrow> server \<Rightarrow> client \<times> server" where
  "AuthProvider_mount cfg e up stored srv = checkUserLoggedIn cfg e up (init_client\<lparr>cl_token := stored\<rparr>, srv)"

subsection \<open>The reset request the client sends\<close>

lemma client_reset_reply:
  "\<exists>c d. fst (next_api cfg e up HPut (ApiResetPassword (Some tok) (client_reset_body pw)) srv) = Reply c (BJson d) \<and>
     \<not> res_ok c \<and> snd (next_api cfg e up HPut (ApiResetPassword (Some tok) (client_reset_body pw)) srv) = srv"
proof -
  have v: "validateResetPassword (client_reset_body pw) \<noteq> []"
    by (simp add: validateResetPassword_def client_reset_body_def empty_body_def confirm_errors_def)
  show ?thesis
  proof (cases "up \<and> tok \<noteq> []")
    case True
    from app_put_refused [OF v, of cfg e "''/api/auth/reset-password/'' @ tok" None srv] True
    show ?thesis
      by (auto simp: proxy_reset_def forward_def call_backend_def js_falsy_def field_str_def
          backend_reply_def res_ok_def fail_def Let_def split_def apfst_def map_prod_def)
  next
    case False
    then show ?thesis
      by (auto simp: proxy_reset_def forward_def call_backend_def js_falsy_def backend_reply_def
          res_ok_def fail_def Let_def)
  qed
qed

end
