(* ===== verification/Race.thy ===== *)
theory Race
  imports Flows
begin

text \<open>
  Two registrations served concurrently.  \<open>register\<close> awaits twice: the
  \<open>findOne\<close> that checks for a taken username or email, then the \<open>create\<close>
  that inserts the row; Node.js may run another request between the two.
  \<open>register_check\<close> and \<open>register_commit\<close> are the handler cut at that
  point, a \<open>reg_proc\<close> is a request between its steps, and \<open>interleave\<close> runs
  two of them on the shared server in the order a schedule gives (\<open>True\<close>
  steps the first request, \<open>False\<close> the second).  The database executes
  each \<open>create\<close> atomically with its unique keys.
\<close>

definition register_check :: "req_body \<Rightarrow> server \<Rightarrow> response + string \<times> string" where
  "register_check b srv =
     (case (body_username b, body_email b) of
        (Some un, Some em) \<Rightarrow>
          (case find_one (\<lambda>r. email r = em \<or> username r = un) (store srv) of
             Some ux \<Rightarrow> Inl (if email ux = em then fail 400 MsgEmailTaken else fail 400 MsgUsernameTaken)
           | None \<Rightarrow> Inr (un, em))
      | _ \<Rightarrow> Inl (fail 500 MsgServerError))"

definition register_commit :: "config \<Rightarrow> env \<Rightarrow> req_body \<Rightarrow> string \<Rightarrow> string \<Rightarrow> server \<Rightarrow> response \<times> server" where
  "register_commit cfg e b un em srv =
     (case create (env_salt e) (env_now e) un em (body_password b) (store srv) of
        Inl (ValidationError ms) \<Rightarrow> (fail 400 (MsgValidation ms), srv)
      | Inl UniqueConstraintError \<Rightarrow> (fail 500 MsgServerError, srv)
      | Inr (u, st') \<Rightarrow> (sendTokenResponse cfg (env_now e) u 201, srv\<lparr>store := st'\<rparr>))"

datatype reg_proc =
    RegPending env req_body
  | RegChecked env req_body string string
  | RegDone response

fun reg_step :: "config \<Rightarrow> reg_proc \<Rightarrow> server \<Rightarrow> reg_proc \<times> server" where
  "reg_step cfg (RegPending e b) srv =
     (if validateRegister b \<noteq> [] then (RegDone (400, ErrorsResp (validateRegister b)), srv)
      else case register_check b srv of
             Inl r \<Rightarrow> (RegDone r, srv)
           | Inr (un, em) \<Rightarrow> (RegChecked e b un em, srv))"
| "reg_step cfg (RegChecked e b un em) srv = apfst RegDone (register_commit cfg e b un em srv)"
| "reg_step cfg (RegDone r) srv = (RegDone r, srv)"

fun interleave :: "config \<Rightarrow> bool list \<Rightarrow> reg_proc \<times> reg_proc \<Rightarrow> server \<Rightarrow> (reg_proc \<times> reg_proc) \<times> server" where
  "interleave cfg [] ps srv = (ps, srv)"
| "interleave cfg (True # sch) (p, q) srv =
     (let (p', srv') = reg_step cfg p srv in interleave cfg sch (p', q) srv')"
| "interleave cfg (False # sch) (p, q) srv =
     (let (q', srv') = reg_step cfg q srv in interleave cfg sch (p, q') srv')"

text \<open>A request that has answered 201, and a request on behalf of the username \<open>un\<close>.\<close>

definition reg_won :: "reg_proc \<Rightarrow> bool" where
  "reg_won p = (\<exists>d. p = RegDone (201, d))"

fun reg_for :: "string \<Rightarrow> reg_proc \<Rightarrow> bool" where
  "reg_for un (RegPending e b) = (body_username b = Some un)"
| "reg_for un (RegChecked e b un' em) = (un' = un)"
| "reg_for un (RegDone r) = True"

definition has_username :: "string \<Rightarrow> server \<Rightarrow> bool" where
  "has_username un srv = (\<exists>u\<in>set (users (store srv)). username u = un)"

definition race_inv :: "string \<Rightarrow> reg_proc \<Rightarrow> reg_proc \<Rightarrow> server \<Rightarrow> bool" where
  "race_inv un p q srv \<longleftrightarrow> reg_for un p \<and> reg_for un q \<and> \<not> (reg_won p \<and> reg_won q) \<and>
     (reg_won p \<longrightarrow> has_username un srv) \<and> (reg_won q \<longrightarrow> has_username un srv)"

lemma register_split:
  "register cfg e b srv =
     (case register_check b srv of Inl r \<Rightarrow> (r, srv) | Inr (un, em) \<Rightarrow> register_commit cfg e b un em srv)"
  by (simp add: register_def register_check_def register_commit_def
      split: option.splits prod.splits)

lemma register_check_Inr:
  "register_check b srv = Inr (un, em) \<Longrightarrow>
     body_username b = Some un \<and> body_email b = Some em \<and>
     find_one (\<lambda>r. email r = em \<or> username r = un) (store srv) = None"
  by (auto simp: register_check_def split: option.splits)

lemma register_commit_cases:
  assumes "register_commit cfg e b un em srv = (r, srv')"
  shows "(srv' = srv \<and> fst r \<noteq> 201) \<or>
    (\<exists>u st'. create (env_salt e) (env_now e) un em (body_password b) (store srv) = Inr (u, st') \<and>
       r = sendTokenResponse cfg (env_now e) u 201 \<and> srv' = srv\<lparr>store := st'\<rparr>)"
  using assms
  by (auto simp: register_commit_def fail_def split: sum.splits db_error.splits prod.splits)

lemma reg_step_Checked:
  "reg_step cfg (RegChecked e b un em) srv = (p', srv') \<Longrightarrow>
     \<exists>r. register_commit cfg e b un em srv = (r, srv') \<and> p' = RegDone r"
proof -
  assume h: "reg_step cfg (RegChecked e b un em) srv = (p', srv')"
  obtain r s' where rc: "register_commit cfg e b un em srv = (r, s')" by (metis prod.collapse)
  with h show ?thesis by simp
qed

lemma reg_step_Pending:
  "reg_step cfg (RegPending e b) srv = (p', srv') \<Longrightarrow>
     srv' = srv \<and> \<not> reg_won p' \<and> (\<forall>e' b'. p' \<noteq> RegPending e' b') \<and>
     (\<forall>e' b' un em. p' = RegChecked e' b' un em \<longrightarrow> body_username b = Some un)"
  by (auto simp: reg_won_def fail_def register_check_def
      split: if_splits sum.splits option.splits prod.splits)

lemma create_grows:
  "create s t un em pw st = Inr (u, st') \<Longrightarrow> set (users st) \<subseteq> set (users st') \<and> u \<in> set (users st')"
  by (auto simp: create_Inr_iff)

lemma reg_step_grows:
  assumes "reg_step cfg p srv = (p', srv')"
  shows "set (users (store srv)) \<subseteq> set (users (store srv'))"
proof (cases p)
  case (RegPending e b)
  from reg_step_Pending [OF assms [unfolded RegPending]] show ?thesis by simp
next
  case (RegChecked e b un em)
  from reg_step_Checked [OF assms [unfolded RegChecked]]
  obtain r where "register_commit cfg e b un em srv = (r, srv')" by blast
  from register_commit_cases [OF this] show ?thesis
  proof
    assume "\<exists>u st'. create (env_salt e) (env_now e) un em (body_password b) (store srv) = Inr (u, st') \<and>
       r = sendTokenResponse cfg (env_now e) u 201 \<and> srv' = srv\<lparr>store := st'\<rparr>"
    then obtain u st' where "create (env_salt e) (env_now e) un em (body_password b) (store srv) = Inr (u, st')"
      and "srv' = srv\<lparr>store := st'\<rparr>" by blast
    then show ?thesis using create_grows by fastforce
  qed simp
next
  case (RegDone r)
  with assms show ?thesis by simp
qed

lemma reg_step_won:
  assumes "reg_step cfg p srv = (p', srv')" "reg_won p'" "\<not> reg_won p" "reg_for un p"
  shows "\<not> has_username un srv \<and> has_username un srv'"
proof (cases p)
  case (RegPending e b)
  from assms(1) have "\<not> reg_won p'" unfolding RegPending by (blast dest: reg_step_Pending)
  with assms(2) show ?thesis by simp
next
  case (RegChecked e b un' em)
  from reg_step_Checked [OF assms(1) [unfolded RegChecked]]
  obtain r where rc: "register_commit cfg e b un' em srv = (r, srv')" and p': "p' = RegDone r"
    by blast
  from assms(4) RegChecked have un: "un' = un" by simp
  from assms(2) p' have "fst r = 201" by (auto simp: reg_won_def)
  with register_commit_cases [OF rc] obtain u st' where
    cr: "create (env_salt e) (env_now e) un' em (body_password b) (store srv) = Inr (u, st')"
    and st: "srv' = srv\<lparr>store := st'\<rparr>" by auto
  from cr have "\<not> list_ex (\<lambda>r. username r = un' \<or> email r = em) (users (store srv))"
    and "u \<in> set (users st')" "username u = un'"
    by (auto simp: create_Inr_iff new_user_def)
  with un st show ?thesis by (auto simp: has_username_def list_ex_iff)
next
  case (RegDone r)
  with assms show ?thesis by simp
qed

lemma reg_step_for:
  "reg_step cfg p srv = (p', srv') \<Longrightarrow> reg_for un p \<Longrightarrow> reg_for un p'"
proof (cases p)
  case (RegPending e b)
  moreover assume "reg_step cfg p srv = (p', srv')" "reg_for un p"
  ultimately show ?thesis using reg_step_Pending [of cfg e b srv p' srv'] by (cases p') auto
next
  case (RegChecked e b un' em)
  moreover assume "reg_step cfg p srv = (p', srv')"
  ultimately show ?thesis using reg_step_Checked [of cfg e b un' em srv p' srv'] by auto
next
  case (RegDone r)
  moreover assume "reg_step cfg p srv = (p', srv')"
  ultimately show ?thesis by auto
qed

lemma has_username_grows:
  "reg_step cfg p srv = (p', srv') \<Longrightarrow> has_username un srv \<Longrightarrow> has_username un srv'"
  unfolding has_username_def using reg_step_grows by blast

lemma race_inv_step:
  assumes inv: "race_inv un p q srv" and st: "reg_step cfg p srv = (p', srv')"
  shows "race_inv un p' q srv'"
proof (cases "reg_won p")
  case True
  then obtain d where "p = RegDone (201, d)" by (auto simp: reg_won_def)
  with st inv show ?thesis by (simp add: race_inv_def)
next
  case False
  have for': "reg_for un p'" using reg_step_for [OF st] inv by (simp add: race_inv_def)
  show ?thesis
  proof (cases "reg_won p'")
    case True
    from reg_step_won [OF st True False] inv
    have "\<not> has_username un srv" "has_username un srv'" by (simp_all add: race_inv_def)
    with inv True for' show ?thesis by (auto simp: race_inv_def)
  next
    case False
    with inv for' has_username_grows [OF st] show ?thesis by (auto simp: race_inv_def)
  qed
qed

lemma race_inv_sym: "race_inv un p q srv \<longleftrightarrow> race_inv un q p srv"
  by (auto simp: race_inv_def)

lemma interleave_race_inv:
  "race_inv un p q srv \<Longrightarrow> interleave cfg sch (p, q) srv = ((p', q'), srv') \<Longrightarrow> race_inv un p' q' srv'"
proof (induction sch arbitrary: p q srv)
  case Nil
  then show ?case by simp
next
  case (Cons x sch)
  show ?case
  proof (cases x)
    case True
    obtain p1 srv1 where st: "reg_step cfg p srv = (p1, srv1)" by (metis prod.collapse)
    from race_inv_step [OF Cons.prems(1) st] Cons.prems(2) st True show ?thesis
      by (intro Cons.IH [of p1 q srv1]) simp_all
  next
    case False
    obtain q1 srv1 where st: "reg_step cfg q srv = (q1, srv1)" by (metis prod.collapse)
    from race_inv_step [of un q p srv cfg q1 srv1] Cons.prems(1) st have "race_inv un p q1 srv1"
      by (simp add: race_inv_sym)
    with Cons.prems(2) st False show ?thesis
      by (intro Cons.IH [of p q1 srv1]) simp_all
  qed
qed


lemma route_register_created_split:
  assumes "fst (fst (route cfg e (PostRegister b) srv)) = 201"
  shows "\<exists>un em u st'. validateRegister b = [] \<and> register_check b srv = Inr (un, em) \<and>
    create (env_salt e) (env_now e) un em (body_password b) (store srv) = Inr (u, st') \<and>
    route cfg e (PostRegister b) srv = (sendTokenResponse cfg (env_now e) u 201, srv\<lparr>store := st'\<rparr>)"
proof -
  have v: "validateRegister b = []"
    using assms by (auto simp: with_validator_def split: if_splits)
  then have r: "route cfg e (PostRegister b) srv = register cfg e b srv" by (simp add: with_validator_def)
  have "\<exists>un em. register_check b srv = Inr (un, em)"
  proof (cases "register_check b srv")
    case (Inl x)
    then have "fst x \<noteq> 201"
      by (auto simp: register_check_def fail_def split: option.splits prod.splits if_splits)
    with Inl assms r show ?thesis by (simp add: register_split)
  qed auto
  then obtain un em where chk: "register_check b srv = Inr (un, em)" by blast
  obtain resp srv' where rc: "register_commit cfg e b un em srv = (resp, srv')" by (metis prod.collapse)
  with assms r chk have "fst resp = 201" by (simp add: register_split)
  with register_commit_cases [OF rc] obtain u st' where
    "create (env_salt e) (env_now e) un em (body_password b) (store srv) = Inr (u, st')"
    "resp = sendTokenResponse cfg (env_now e) u 201" "srv' = srv\<lparr>store := st'\<rparr>" by auto
  with v chk rc r show ?thesis by (auto simp: register_split)
qed

end
