(* ===== verification/Shapes.thy ===== *)
theory Shapes
  imports Proxy
begin

text \<open>
  The shape discipline of the JSON answers, in the manner of a typing
  judgement on responses: \<open>success\<close> is true exactly on a 2xx status, a token
  answer carries 200 or 201, a profile answer 200, and an error list is
  non-empty and answered with 400.  Every handler, the middleware and every
  Next.js proxy answer only well-shaped responses.
\<close>

definition success_code :: "nat \<Rightarrow> bool" where
  "success_code c \<longleftrightarrow> 200 \<le> c \<and> c < 300"

fun resp_wf :: "response \<Rightarrow> bool" where
  "resp_wf (c, Message ok m) = (ok \<longleftrightarrow> success_code c)"
| "resp_wf (c, TokenResp t u) = (c = 200 \<or> c = 201)"
| "resp_wf (c, DataResp p) = (c = 200)"
| "resp_wf (c, ErrorsResp es) = (c = 400 \<and> es \<noteq> [])"

lemma resp_wf_fail [simp]: "resp_wf (fail c m) \<longleftrightarrow> \<not> success_code c"
  by (simp add: fail_def)

lemma resp_wf_token [simp]: "resp_wf (sendTokenResponse cfg t u c) \<longleftrightarrow> c = 200 \<or> c = 201"
  by (simp add: sendTokenResponse_def)

lemma success_code_simps [simp]:
  "success_code 200" "success_code 201" "\<not> success_code 400" "\<not> success_code 401"
  "\<not> success_code 404" "\<not> success_code 405" "\<not> success_code 500"
  by (simp_all add: success_code_def)

named_theorems shape_rules "well-shapedness of a handler's or a proxy's answer"

lemma register_wf [shape_rules]: "resp_wf (fst (register cfg e b srv))"
  by (simp add: register_def split: option.splits prod.splits sum.splits db_error.splits)

lemma login_wf [shape_rules]: "resp_wf (fst (login cfg e b srv))"
  by (simp add: login_def split: option.splits prod.splits)

lemma getMe_wf [shape_rules]: "resp_wf (fst (getMe i srv))"
  by (simp add: getMe_def)

lemma forgotPassword_wf [shape_rules]: "resp_wf (fst (forgotPassword cfg e b srv))"
  by (simp add: forgotPassword_def Let_def success_code_def
      split: option.splits prod.splits sum.splits)

lemma resetPassword_wf [shape_rules]: "resp_wf (fst (resetPassword cfg e tok b srv))"
  by (simp add: resetPassword_def Let_def split: option.splits prod.splits sum.splits)

lemma logout_wf [shape_rules]: "resp_wf (fst (logout srv))"
  by (simp add: logout_def success_code_def)

lemma with_validator_wf [shape_rules]:
  "resp_wf (fst (k srv)) \<Longrightarrow> resp_wf (fst (with_validator errs k srv))"
  by (simp add: with_validator_def)

lemma protect_wf: "protect cfg t h srv = Inl r \<Longrightarrow> resp_wf r"
  by (auto simp: protect_def fail_def success_code_def split: option.splits if_splits)

lemma with_protect_wf [shape_rules]:
  "(\<And>i. resp_wf (fst (k i srv))) \<Longrightarrow> resp_wf (fst (with_protect cfg e h k srv))"
  by (cases "protect cfg (env_now e) h srv") (auto simp: with_protect_def dest: protect_wf)

lemma route_wf [shape_rules]: "resp_wf (fst (route cfg e r srv))"
  by (cases r) (simp_all add: shape_rules)

lemma app_dispatch_wf:
  "fst (app_dispatch cfg e hr srv) = JsonResp r \<Longrightarrow> resp_wf r"
  by (auto simp: app_dispatch_def app_fallthrough_def success_code_def Let_def apfst_def map_prod_def
      split: if_splits http_body.splits option.splits prod.splits)
     (metis fst_conv route_wf)

lemma call_backend_wf:
  "fst (call_backend cfg e up q srv) = Reply c (BJson d) \<Longrightarrow> resp_wf (c, d)"
proof (cases up)
  case True
  moreover assume "fst (call_backend cfg e up q srv) = Reply c (BJson d)"
  ultimately have "reply_of (fst (app_dispatch cfg e (backend_request q) srv)) = Reply c (BJson d)"
    by (simp add: call_backend_def apfst_def map_prod_def split_def)
  then have "fst (app_dispatch cfg e (backend_request q) srv) = JsonResp (c, d)"
    by (cases "fst (app_dispatch cfg e (backend_request q) srv)") (auto simp: backend_reply_def)
  then show ?thesis by (rule app_dispatch_wf)
next
  case False
  moreover assume "fst (call_backend cfg e up q srv) = Reply c (BJson d)"
  ultimately show ?thesis by (simp add: call_backend_def)
qed

lemma forward_wf:
  assumes "\<And>rep. (\<And>c d. rep = Reply c (BJson d) \<Longrightarrow> resp_wf (c, d)) \<Longrightarrow> resp_wf (k rep)"
  shows "resp_wf (fst (forward k cfg e up q srv))"
proof -
  have "resp_wf (k (fst (call_backend cfg e up q srv)))"
    by (rule assms) (rule call_backend_wf)
  then show ?thesis by (simp add: forward_def split_def Let_def)
qed

lemma forward_relay_wf [shape_rules]: "resp_wf (fst (forward relay cfg e up q srv))"
  by (rule forward_wf) (case_tac rep rule: relay.cases, simp_all)

lemma forward_relay_me_wf [shape_rules]: "resp_wf (fst (forward relay_me cfg e up q srv))"
  by (rule forward_wf) (case_tac rep rule: relay_me.cases, simp_all)

lemma forward_relay_logout_wf [shape_rules]: "resp_wf (fst (forward relay_logout cfg e up q srv))"
  by (rule forward_wf) (case_tac rep rule: relay_logout.cases, simp_all add: success_code_def)

end
