(* ===== verification/Pages.thy ===== *)
theory Pages
  imports Client
begin

text \<open>
  The two pages that drive the client: the login page
  \<open>src/FrontEnd/Pages/index.js\<close>, one form in three modes (sign in, sign up,
  forgot password), and the reset page
  \<open>src/FrontEnd/Pages/reset-password/[token].js\<close>.  Each page is a record of
  its React state; \<open>handleSubmit\<close> runs the page's own checks and then the
  \<open>AuthContext\<close> action, and the page's effects follow: the login page shows
  the context's error when it becomes non-null and stops loading, and both
  pages go to \<open>/home\<close> once the context holds a user.  The branches taken when
  an awaited action throws are not modelled: the context's actions catch
  their own errors.
\<close>

datatype page_msg =
    PMPasswordsDontMatch   \<comment> \<open>Las contrasenas no coinciden\<close>
  | PMPasswordTooShort     \<comment> \<open>La contrasena debe tener al menos 6 caracteres\<close>
  | PMEnterEmail           \<comment> \<open>Por favor, ingresa tu email\<close>
  | PMLinkSent             \<comment> \<open>Se ha enviado un enlace de recuperacion a tu email\<close>
  | PMFillAll              \<comment> \<open>Por favor, completa todos los campos\<close>
  | PMContext cerror       \<comment> \<open>the context's \<open>error\<close>\<close>

datatype status = NoStatus | StatusError page_msg | StatusSuccess page_msg

record login_form =
  lf_username :: string
  lf_password :: string
  lf_email :: string
  lf_confirm :: string
  lf_signup :: bool
  lf_forgot :: bool
  lf_loading :: bool
  lf_status :: status

definition init_login_form :: login_form where
  "init_login_form = \<lparr>lf_username = [], lf_password = [], lf_email = [], lf_confirm = [],
     lf_signup = False, lf_forgot = False, lf_loading = False, lf_status = NoStatus\<rparr>"

text \<open>The sign-up checks of \<open>handleSubmit\<close>, in their order.\<close>

definition signup_checks :: "string \<Rightarrow> string \<Rightarrow> page_msg option" where
  "signup_checks pw cpw =
     (if pw \<noteq> cpw then Some PMPasswordsDontMatch
      else if length pw < 6 then Some PMPasswordTooShort else None)"

text \<open>
  The effects that run after the action: \<open>useEffect(.., [error])\<close> shows a
  non-null error and stops loading (every action first resets the error to
  \<open>null\<close>, so a non-null error after it is a change), and
  \<open>useEffect(.., [user])\<close> goes to \<open>/home\<close>.
\<close>

definition login_effects :: "login_form \<Rightarrow> client \<Rightarrow> login_form \<times> client" where
  "login_effects f cl =
     ((case cl_error cl of None \<Rightarrow> f | Some er \<Rightarrow> f\<lparr>lf_status := StatusError (PMContext er), lf_loading := False\<rparr>),
      (if cl_user cl \<noteq> None then cl\<lparr>cl_page := Some ''/home''\<rparr> else cl))"

definition login_submit :: "config \<Rightarrow> env \<Rightarrow> bool \<Rightarrow> login_form \<Rightarrow> client \<times> server \<Rightarrow> login_form \<times> client \<times> server" where
  "login_submit cfg e up f cs =
     (let f0 = f\<lparr>lf_loading := True, lf_status := NoStatus\<rparr>
      in if lf_signup f then
           (case signup_checks (lf_password f) (lf_confirm f) of
              Some m \<Rightarrow> (f0\<lparr>lf_status := StatusError m, lf_loading := False\<rparr>, cs)
            | None \<Rightarrow>
                (let (cl', srv') = client_register cfg e up (lf_username f) (lf_email f) (lf_password f)
                                     (lf_confirm f) cs;
                     (f', cl'') = login_effects f0 cl'
                 in (f', cl'', srv')))
         else if lf_forgot f then
           (if lf_email f = [] then (f0\<lparr>lf_status := StatusError PMEnterEmail, lf_loading := False\<rparr>, cs)
            else
              (let (ok, cl', srv') = client_forgotPassword cfg e up (lf_email f) cs;
                   f1 = (if ok then f0\<lparr>lf_status := StatusSuccess PMLinkSent\<rparr> else f0);
                   (f', cl'') = login_effects f1 cl'
               in (f', cl'', srv')))
         else if lf_username f = [] \<or> lf_password f = [] then
           (f0\<lparr>lf_status := StatusError PMFillAll, lf_loading := False\<rparr>, cs)
         else
           (let (cl', srv') = client_login cfg e up (lf_username f) (lf_password f) cs;
                (f', cl'') = login_effects f0 cl'
            in (f', cl'', srv')))"

definition toggleSignUp :: "login_form \<Rightarrow> login_form" where
  "toggleSignUp f =
     (let f' = f\<lparr>lf_signup := \<not> lf_signup f, lf_forgot := False, lf_status := NoStatus\<rparr>
      in if \<not> lf_signup f then f'\<lparr>lf_email := [], lf_confirm := []\<rparr> else f')"

definition toggleForgotPassword :: "login_form \<Rightarrow> login_form" where
  "toggleForgotPassword f =
     (let f' = f\<lparr>lf_forgot := \<not> lf_forgot f, lf_signup := False, lf_status := NoStatus\<rparr>
      in if \<not> lf_forgot f then f'\<lparr>lf_username := [], lf_password := []\<rparr> else f'\<lparr>lf_email := []\<rparr>)"

subsection \<open>The reset page\<close>

datatype reset_msg =
    RfNone
  | RfMismatch      \<comment> \<open>Las contrasenas no coinciden\<close>
  | RfTooShort      \<comment> \<open>La contrasena debe tener al menos 6 caracteres\<close>
  | RfInvalidToken  \<comment> \<open>Token invalido\<close>

record reset_form =
  rf_password :: string
  rf_confirm :: string
  rf_error :: reset_msg
  rf_loading :: bool
  rf_success :: bool

text \<open>
  \<open>handleSubmit\<close> of the reset page with the \<open>token\<close> of the route's query.  It
  shows only its own \<open>error\<close> state, never the context's.
\<close>

definition reset_submit :: "config \<Rightarrow> env \<Rightarrow> bool \<Rightarrow> string option \<Rightarrow> reset_form \<Rightarrow> client \<times> server \<Rightarrow> reset_form \<times> client \<times> server" where
  "reset_submit cfg e up tok f cs =
     (if rf_password f \<noteq> rf_confirm f then (f\<lparr>rf_error := RfMismatch\<rparr>, cs)
      else if length (rf_password f) < 6 then (f\<lparr>rf_error := RfTooShort\<rparr>, cs)
      else if js_falsy tok then (f\<lparr>rf_loading := False, rf_error := RfInvalidToken\<rparr>, cs)
      else
        (let (ok, cl', srv') = client_resetPassword cfg e up (rf_password f) (field_str tok) cs;
             cl'' = (if cl_user cl' \<noteq> None then cl'\<lparr>cl_page := Some ''/home''\<rparr> else cl')
         in (f\<lparr>rf_loading := False, rf_error := RfNone, rf_success := (ok \<or> rf_success f)\<rparr>, cl'', srv')))"

subsection \<open>Lemmas\<close>

text \<open>A reset submitted past the page's own checks: the context's call always fails.\<close>

lemma reset_submit_checked:
  assumes "rf_password f = rf_confirm f" "6 \<le> length (rf_password f)" "\<not> js_falsy tok"
  shows "\<exists>cl'. reset_submit cfg e up tok f (cl, srv) = (f\<lparr>rf_loading := False, rf_error := RfNone\<rparr>, cl', srv)"
proof -
  obtain c d where r: "fst (next_api cfg e up HPut (ApiResetPassword (Some (field_str tok)) (client_reset_body (rf_password f))) srv) = Reply c (BJson d)"
    and nok: "\<not> res_ok c"
    and st: "snd (next_api cfg e up HPut (ApiResetPassword (Some (field_str tok)) (client_reset_body (rf_password f))) srv) = srv"
    using client_reset_reply by blast
  have "next_api cfg e up HPut (ApiResetPassword (Some (field_str tok)) (client_reset_body (rf_password f))) srv =
      (Reply c (BJson d), srv)"
    using r st by (metis prod.collapse)
  with assms nok show ?thesis
    by (auto simp: reset_submit_def client_resetPassword_def Let_def)
qed

text \<open>A submit never changes the backend and never sets \<open>isSuccess\<close>.\<close>

lemma reset_submit_frame:
  "snd (snd (reset_submit cfg e up tok f (cl, srv))) = srv \<and>
   rf_success (fst (reset_submit cfg e up tok f (cl, srv))) = rf_success f"
proof (cases "rf_password f = rf_confirm f \<and> 6 \<le> length (rf_password f) \<and> \<not> js_falsy tok")
  case True
  then obtain cl' where "reset_submit cfg e up tok f (cl, srv) = (f\<lparr>rf_loading := False, rf_error := RfNone\<rparr>, cl', srv)"
    using reset_submit_checked by blast
  then show ?thesis by simp
next
  case False
  then show ?thesis by (auto simp: reset_submit_def)
qed

end
