(* ===== verification/Mail.thy ===== *)
theory Mail
  imports Pages
begin

text \<open>
  The reset mail: the link \<open>forgotPassword\<close> builds
  (\<open>src/Backend/controllers/authController.js\<close>) from the request's protocol
  and \<open>Host\<close> header, the HTML message around it, and the options
  \<open>sendEmail\<close> (\<open>src/Backend/utils/emailService.js\<close>) hands to
  \<open>nodemailer\<close>.  The outbox of the server keeps the recipient and the secret
  of each sent mail; the rest of the mail is a function of them and of the
  request.  Non-ASCII letters of the texts are their UTF-8 bytes.  The
  link's reader is modelled by the parts a browser needs: the first
  \<open>href\<close> of the message, the host and path of a URL, and the dynamic page
  route \<open>pages/reset-password/[token].js\<close> of Next.js.
\<close>

definition nl :: string where "nl = [CHR 0x0A]"

definition dq :: char where "dq = CHR 0x22"

definition enye :: string where "enye = [CHR 0xC3, CHR 0xB1]"

definition o_acute :: string where "o_acute = [CHR 0xC3, CHR 0xB3]"

text \<open>
  \<open>sendEmail\<close>: a transporter configured from \<open>EMAIL_SERVICE\<close>,
  \<open>EMAIL_USERNAME\<close> and \<open>EMAIL_PASSWORD\<close>, and the mail options with the
  sender \<open>EMAIL_FROM\<close> (absent when unset).  Whether \<open>sendMail\<close> resolves is
  an input; it is the flag \<open>env_mail_ok\<close> that \<open>forgotPassword\<close> reads.
\<close>

record transport_config =
  tc_service :: "string option"
  tc_user :: "string option"
  tc_pass :: "string option"

record mail_options =
  mo_from :: "string option"
  mo_to :: string
  mo_subject :: string
  mo_html :: string

datatype send_result = Sent transport_config mail_options | SendFailed

definition createTransport :: "env_vars \<Rightarrow> transport_config" where
  "createTransport vars =
     \<lparr>tc_service = vars ''EMAIL_SERVICE'', tc_user = vars ''EMAIL_USERNAME'', tc_pass = vars ''EMAIL_PASSWORD''\<rparr>"

definition sendEmail_options :: "env_vars \<Rightarrow> string \<Rightarrow> string \<Rightarrow> string \<Rightarrow> mail_options" where
  "sendEmail_options vars to subject html =
     \<lparr>mo_from = vars ''EMAIL_FROM'', mo_to = to, mo_subject = subject, mo_html = html\<rparr>"

definition sendEmail :: "env_vars \<Rightarrow> bool \<Rightarrow> string \<Rightarrow> string \<Rightarrow> string \<Rightarrow> send_result" where
  "sendEmail vars ok to subject html =
     (if ok then Sent (createTransport vars) (sendEmail_options vars to subject html) else SendFailed)"

definition reset_url :: "string \<Rightarrow> string \<Rightarrow> string \<Rightarrow> string" where
  "reset_url proto host tok = proto @ ''://'' @ host @ ''/reset-password/'' @ tok"

text \<open>
  The message of \<open>forgotPassword\<close>, cut at the link: the text up to the
  \<open>href\<close> attribute, the quoted URL, and the rest.
\<close>

definition mail_head :: string where
  "mail_head =
     nl @ ''      <h1>Has solicitado un reseteo de contrase'' @ enye @ ''a</h1>'' @ nl @
     ''      <p>Por favor, haz clic en el siguiente enlace para restablecer tu contrase'' @ enye @ ''a:</p>'' @ nl @
     ''      <a ''"

definition mail_tail :: string where
  "mail_tail =
     '' target='' @ [dq] @ ''_blank'' @ [dq] @ ''>Restablecer Contrase'' @ enye @ ''a</a>'' @ nl @
     ''      <p>Si no has solicitado este cambio, puedes ignorar este mensaje.</p>'' @ nl @ ''    ''"

definition reset_html :: "string \<Rightarrow> string" where
  "reset_html url = mail_head @ ''href='' @ [dq] @ url @ [dq] @ mail_tail"

definition reset_subject :: string where
  "reset_subject = ''Solicitud de recuperaci'' @ o_acute @ ''n de contrase'' @ enye @ ''a''"

text \<open>The options \<open>sendEmail\<close> hands to \<open>nodemailer\<close> for a mail of the outbox.\<close>

definition reset_mail_options :: "env_vars \<Rightarrow> string \<Rightarrow> string \<Rightarrow> mail \<Rightarrow> mail_options" where
  "reset_mail_options vars proto host m =
     sendEmail_options vars (mail_to m) reset_subject (reset_html (reset_url proto host (mail_token m)))"

fun after_marker :: "string \<Rightarrow> string \<Rightarrow> string option" where
  "after_marker m [] = None"
| "after_marker m (c # s) =
     (if take (length m) (c # s) = m then Some (drop (length m) (c # s)) else after_marker m s)"

definition mail_link :: "string \<Rightarrow> string option" where
  "mail_link html = map_option (takeWhile (\<lambda>c. c \<noteq> dq)) (after_marker (''href='' @ [dq]) html)"

definition url_split :: "string \<Rightarrow> string \<times> string" where
  "url_split u =
     (let rest = drop 3 (dropWhile (\<lambda>c. c \<noteq> CHR '':'') u)
      in (takeWhile (\<lambda>c. c \<noteq> CHR ''/'') rest, dropWhile (\<lambda>c. c \<noteq> CHR ''/'') rest))"

definition next_reset_page :: "string \<Rightarrow> string option" where
  "next_reset_page p =
     (let q = url_path p
      in if take 16 q = ''/reset-password/'' \<and> 16 < length q \<and> CHR ''/'' \<notin> set (drop 16 q)
         then Some (drop 16 q) else None)"

lemma after_marker_append:
  assumes "\<forall>i<length p. take (length m) (drop i p @ m) \<noteq> m" and "m \<noteq> []"
  shows "after_marker m (p @ m @ x) = Some x"
  using assms
proof (induction p)
  case Nil
  then show ?case by (cases m) simp_all
next
  case (Cons c p)
  from Cons.prems(1) have hd: "take (length m) (c # p @ m) \<noteq> m" by (metis drop0 length_greater_0_conv list.distinct(1) append_Cons)
  have "take (length m) (c # p @ m @ x) = take (length m) (c # p @ m)"
    by (simp add: take_Cons' take_append)
  with hd have "take (length m) (c # p @ m @ x) \<noteq> m" by simp
  moreover have "\<forall>i<length p. take (length m) (drop i p @ m) \<noteq> m"
    using Cons.prems(1) by (metis Suc_less_eq drop_Suc_Cons length_Cons)
  ultimately show ?case using Cons.IH Cons.prems(2) by simp
qed

lemma hex_string_plain:
  "c \<in> set (hex_string bs) \<Longrightarrow> c \<noteq> CHR ''/'' \<and> c \<noteq> CHR ''?'' \<and> c \<noteq> dq \<and> c \<noteq> CHR '':''"
  using hex_string_lower [of bs] by (auto simp: hex_alphabet_def dq_def)

lemma mail_head_no_href:
  "\<forall>i<length mail_head. take (length (''href='' @ [dq])) (drop i mail_head @ ''href='' @ [dq]) \<noteq> ''href='' @ [dq]"
  unfolding mail_head_def nl_def enye_def dq_def by code_simp

lemma reset_html_link:
  assumes "dq \<notin> set url"
  shows "mail_link (reset_html url) = Some url"
proof -
  have "after_marker (''href='' @ [dq]) (reset_html url) = Some (url @ [dq] @ mail_tail)"
    using after_marker_append [OF mail_head_no_href, of "url @ [dq] @ mail_tail"] by (simp add: reset_html_def)
  moreover have "takeWhile (\<lambda>c. c \<noteq> dq) (url @ [dq] @ mail_tail) = url"
    by (rule trans [OF takeWhile_append2]) (use assms in auto)
  ultimately show ?thesis by (simp add: mail_link_def)
qed

lemma url_split_reset_url:
  assumes "CHR '':'' \<notin> set proto" "CHR ''/'' \<notin> set host"
  shows "url_split (reset_url proto host tok) = (host, ''/reset-password/'' @ tok)"
proof -
  have "dropWhile (\<lambda>c. c \<noteq> CHR '':'') (proto @ ''://'' @ host @ ''/reset-password/'' @ tok) =
      ''://'' @ host @ ''/reset-password/'' @ tok"
    by (rule trans [OF dropWhile_append2]) (use assms(1) in auto)
  moreover have "takeWhile (\<lambda>c. c \<noteq> CHR ''/'') (host @ ''/reset-password/'' @ tok) = host"
    by (rule trans [OF takeWhile_append2]) (use assms(2) in auto)
  moreover have "dropWhile (\<lambda>c. c \<noteq> CHR ''/'') (host @ ''/reset-password/'' @ tok) = ''/reset-password/'' @ tok"
    by (rule trans [OF dropWhile_append2]) (use assms(2) in auto)
  ultimately show ?thesis by (simp add: url_split_def reset_url_def)
qed

lemma next_reset_page_token:
  assumes "tok \<noteq> []" "CHR ''/'' \<notin> set tok" "CHR ''?'' \<notin> set tok"
  shows "next_reset_page (''/reset-password/'' @ tok) = Some tok"
  using assms by (simp add: next_reset_page_def url_path_no_query)

lemma path_is_long: "length lit + 1 < length p \<Longrightarrow> \<not> path_is p lit"
  by (auto simp: path_is_def strip_slash_def dest: arg_cong [where f = length])

lemma mount_rest_reset_page: "mount_rest (url_path (''/reset-password/'' @ tok)) = None"
  by (simp add: mount_rest_def url_path_def ascii_lower_def)

lemma hex_string_token:
  "bs \<noteq> [] \<Longrightarrow> hex_string bs \<noteq> [] \<and> CHR ''/'' \<notin> set (hex_string bs) \<and> CHR ''?'' \<notin> set (hex_string bs)"
  using hex_decode_hex_string [of bs] hex_string_plain [of _ bs] by auto

lemma reset_mail_link:
  assumes "dq \<notin> set (proto @ host)" "mail_token m = hex_string bs"
  shows "mail_link (mo_html (reset_mail_options vars proto host m)) = Some (reset_url proto host (hex_string bs))"
proof -
  have "dq \<notin> set (reset_url proto host (hex_string bs))"
    using assms(1) hex_string_plain [of dq bs] by (auto simp: reset_url_def dq_def)
  then show ?thesis
    using assms(2) by (simp add: reset_mail_options_def sendEmail_options_def reset_html_link)
qed

lemma reset_mail_token:
  assumes "CHR '':'' \<notin> set proto" "CHR ''/'' \<notin> set host" "dq \<notin> set (proto @ host)"
    and "mail_token m = hex_string bs" "bs \<noteq> []"
  shows "next_reset_page (snd (url_split (the (mail_link (mo_html (reset_mail_options vars proto host m)))))) =
    Some (hex_string bs)"
  using reset_mail_link [OF assms(3,4)] hex_string_token [OF assms(5)] url_split_reset_url [OF assms(1,2)]
    next_reset_page_token by simp

end
