(* ===== verification/Diagnostics.thy ===== *)
theory Diagnostics
  imports Flows Client
begin

text \<open>
  The diagnostics of \<open>src/FrontEnd/utils/diagnostico.js\<close>, run in the browser
  against the backend at \<open>NEXT_PUBLIC_API_URL\<close>: \<open>checkBackendStatus\<close>
  (\<open>GET /\<close>), \<open>checkCORSConfiguration\<close> (\<open>GET /test\<close>; its fallback
  never runs), \<open>registerTestUser\<close> (a random \<open>test_user_N\<close> with the
  password \<open>Test123456\<close>) and \<open>testCredentials\<close> (a login), composed by
  \<open>runFullDiagnostic\<close>.  Each request goes through \<open>app_dispatch\<close>; the random
  suffix \<open>Math.floor(Math.random() * 10000)\<close> is an input.  Every answer of
  the application carries \<open>Access-Control-Allow-Origin: *\<close> (\<open>cors()\<close> and the
  hand-written middleware set it before any route), so the CORS check is
  configured whenever the request is answered.  The 5-second abort of the
  CORS check is not modelled: a reachable backend answers.
\<close>

definition fetch_backend :: "config \<Rightarrow> env \<Rightarrow> bool \<Rightarrow> http_req \<Rightarrow> server \<Rightarrow> reply \<times> server" where
  "fetch_backend cfg e up hr srv = (if up then apfst reply_of (app_dispatch cfg e hr srv) else (NetError, srv))"

definition get_req :: "string \<Rightarrow> http_req" where
  "get_req u = \<lparr>hreq_method = HGet, hreq_url = u, hreq_auth = None, hreq_body = JsonBody empty_body\<rparr>"

definition post_req :: "string \<Rightarrow> req_body \<Rightarrow> http_req" where
  "post_req u b = \<lparr>hreq_method = HPost, hreq_url = u, hreq_auth = None, hreq_body = JsonBody b\<rparr>"

datatype backend_status = Online bool nat | Offline

fun backend_online :: "backend_status \<Rightarrow> bool" where
  "backend_online (Online ok _) = ok"
| "backend_online Offline = False"

datatype cors_result = CorsChecked bool nat | CorsFailed

datatype test_result = TestJson bool nat resp_body | TestNotJson | TestFailed | TestSkipped

datatype diagnostic =
    DiagUnavailable backend_status
  | DiagReport bool backend_status cors_result test_result test_result

definition checkBackendStatus :: "config \<Rightarrow> env \<Rightarrow> bool \<Rightarrow> server \<Rightarrow> backend_status \<times> server" where
  "checkBackendStatus cfg e up srv =
     (let (rep, srv') = fetch_backend cfg e up (get_req ''/'') srv
      in (case rep of Reply c _ \<Rightarrow> Online (res_ok c) c | NetError \<Rightarrow> Offline, srv'))"

text \<open>
  \<open>checkCORSConfiguration\<close>: \<open>GET /test\<close>; when that fetch throws, the
  fallback \<open>fetch(`${API_URL}`)\<close> of its catch reads \<open>API_URL\<close>, a \<open>const\<close>
  declared inside the \<open>try\<close> block and out of scope in the \<open>catch\<close>: the
  \<open>ReferenceError\<close> is caught by the inner \<open>catch (altError)\<close>, so the
  fallback never sends a request and the check reports a failure.
\<close>

definition checkCORSConfiguration :: "config \<Rightarrow> env \<Rightarrow> bool \<Rightarrow> server \<Rightarrow> cors_result \<times> server" where
  "checkCORSConfiguration cfg e up srv =
     (let (rep, srv') = fetch_backend cfg e up (get_req ''/test'') srv
      in case rep of
           Reply c _ \<Rightarrow> (CorsChecked True c, srv')
         | NetError \<Rightarrow> (CorsFailed, srv'))"

fun test_reply :: "reply \<Rightarrow> test_result" where
  "test_reply (Reply c (BJson d)) = TestJson (res_ok c) c d"
| "test_reply (Reply c _) = TestNotJson"
| "test_reply NetError = TestFailed"

fun test_ok :: "test_result \<Rightarrow> bool" where
  "test_ok (TestJson ok _ _) = ok"
| "test_ok _ = False"

definition testCredentials :: "config \<Rightarrow> env \<Rightarrow> bool \<Rightarrow> string \<Rightarrow> string \<Rightarrow> server \<Rightarrow> test_result \<times> server" where
  "testCredentials cfg e up un pw srv =
     apfst test_reply (fetch_backend cfg e up (post_req ''/api/auth/login'' (login_body un pw)) srv)"

definition test_username :: "nat \<Rightarrow> string" where
  "test_username n = ''test_user_'' @ dec n"

definition test_email :: "nat \<Rightarrow> string" where
  "test_email n = ''test'' @ dec n @ ''@example.com''"

definition test_password :: string where
  "test_password = ''Test123456''"

definition registerTestUser :: "config \<Rightarrow> env \<Rightarrow> bool \<Rightarrow> nat \<Rightarrow> server \<Rightarrow> test_result \<times> server" where
  "registerTestUser cfg e up n srv =
     apfst test_reply (fetch_backend cfg e up
       (post_req ''/api/auth/register'' (reg_body (test_username n) (test_email n) test_password test_password)) srv)"

definition runFullDiagnostic :: "config \<Rightarrow> env \<Rightarrow> env \<Rightarrow> bool \<Rightarrow> nat \<Rightarrow> server \<Rightarrow> diagnostic \<times> server" where
  "runFullDiagnostic cfg e1 e2 up n srv =
     (let (bs, s1) = checkBackendStatus cfg e1 up srv
      in if \<not> backend_online bs then (DiagUnavailable bs, s1)
         else
           (let (cc, s2) = checkCORSConfiguration cfg e1 up s1;
                (rt, s3) = registerTestUser cfg e1 up n s2;
                (lt, s4) = (if test_ok rt then testCredentials cfg e2 up (test_username n) test_password s3
                            else (TestSkipped, s3))
            in (DiagReport (test_ok rt \<and> test_ok lt) bs cc rt lt, s4)))"

fun diag_success :: "diagnostic \<Rightarrow> bool" where
  "diag_success (DiagUnavailable _) = False"
| "diag_success (DiagReport ok _ _ _ _) = ok"

subsection \<open>The test user\<close>

lemma dec_length: "n < 10 ^ Suc k \<Longrightarrow> length (dec n) \<le> Suc k"
proof (induction n arbitrary: k rule: dec.induct)
  case (1 n)
  show ?case
  proof (cases "n < 10")
    case False
    with "1.prems" obtain k' where k: "k = Suc k'"
      by (cases k) auto
    with "1.prems" have "n div 10 < 10 ^ Suc k'" by (simp add: div_less_iff_less_mult)
    with False "1.IH" [of k'] show ?thesis by (subst dec.simps) (simp add: k)
  qed (subst dec.simps, simp)
qed

lemma dec_char_plain:
  "c \<in> set (dec n) \<Longrightarrow> is_alnum c \<and> \<not> is_ws c \<and> c \<noteq> CHR ''@'' \<and> c \<noteq> CHR ''.''"
  using dec_chars [of c n] by (auto simp: is_alnum_def is_ws_def)

lemma test_dec_length: "n < 10000 \<Longrightarrow> length (dec n) \<le> 4"
  using dec_length [of n 3] by simp

lemma is_email_test_email:
  assumes "n < 10000"
  shows "is_email (test_email n)"
proof -
  have at: "CHR ''@'' \<notin> set (''test'' @ dec n)" and dot: "CHR ''.'' \<notin> set (''test'' @ dec n)"
    using dec_char_plain by auto
  have "js_split (CHR ''@'') (test_email n) = [''test'' @ dec n, ''example.com'']"
    using js_split_append_sep [OF at, of "''example.com''"] by (simp add: test_email_def)
  moreover have "is_fqdn ''example.com''" by code_simp
  moreover have "local_part_ok (''test'' @ dec n)"
  proof -
    have sp: "js_split (CHR ''.'') (''test'' @ dec n) = [''test'' @ dec n]" by (rule js_split_no_sep [OF dot])
    have "\<forall>c\<in>set (''test'' @ dec n). is_alnum c"
      using dec_char_plain by (auto simp: is_alnum_def)
    then show ?thesis
      unfolding local_part_ok_def sp using test_dec_length [OF assms] by (auto simp: list_all_iff)
  qed
  ultimately show ?thesis by (simp add: is_email_def)
qed

lemma test_body_valid:
  assumes "n < 10000"
  shows "validateRegister (reg_body (test_username n) (test_email n) test_password test_password) = []"
proof -
  have "\<not> blank (Some (test_username n))" "\<not> blank (Some (test_email n))"
    by (simp_all add: blank_def js_trim_Nil_iff test_username_def test_email_def is_ws_def)
  then show ?thesis using is_email_test_email [OF assms]
    by (simp add: validateRegister_def username_errors_def email_errors_def password_errors_def
        confirm_errors_def reg_body_def field_str_def test_username_def test_password_def)
qed

lemma test_user_valid:
  assumes "n < 10000"
  shows "validate all_attrs (new_user i t (test_username n) (test_email n) test_password) = []"
  using is_email_test_email [OF assms] test_dec_length [OF assms]
  by (simp add: validate_def all_attrs_def new_user_def test_username_def test_password_def)

subsection \<open>Requests through the application\<close>

lemma fetch_backend_request:
  "routable r \<Longrightarrow> fetch_backend cfg e True (backend_request r) srv = apfst backend_reply (route cfg e r srv)"
  using call_backend_up [of r cfg e srv] by (simp add: call_backend_def fetch_backend_def)

lemma post_req_register: "post_req ''/api/auth/register'' b = backend_request (PostRegister b)"
  and post_req_login: "post_req ''/api/auth/login'' b = backend_request (PostLogin b)"
  by (simp_all add: post_req_def)

lemma checkBackendStatus_up: "checkBackendStatus cfg e True srv = (Online True 200, srv)"
  by (simp add: checkBackendStatus_def fetch_backend_def get_req_def app_dispatch_def url_path_def
      mount_rest_def app_fallthrough_def path_is_def strip_slash_def ascii_lower_def res_ok_def)

lemma checkCORSConfiguration_up: "checkCORSConfiguration cfg e True srv = (CorsChecked True 200, srv)"
  by (simp add: checkCORSConfiguration_def fetch_backend_def get_req_def app_dispatch_def url_path_def
      mount_rest_def app_fallthrough_def path_is_def strip_slash_def ascii_lower_def backend_reply_def)

lemma route_register_fresh:
  assumes "validateRegister b = []" "body_username b = Some un" "body_email b = Some em" "body_password b = Some pw"
    and "validate all_attrs (new_user (next_id (store srv)) (env_now e) un em pw) = []"
    and "\<not> list_ex (\<lambda>r. username r = un \<or> email r = em) (users (store srv))"
  shows "\<exists>u st'. create (env_salt e) (env_now e) un em (Some pw) (store srv) = Inr (u, st') \<and>
    route cfg e (PostRegister b) srv = (sendTokenResponse cfg (env_now e) u 201, srv\<lparr>store := st'\<rparr>)"
proof -
  have "find_one (\<lambda>r. email r = em \<or> username r = un) (store srv) = None"
    using assms(6) by (auto simp: find_one_def find_None_iff list_ex_iff)
  moreover obtain u st' where "create (env_salt e) (env_now e) un em (Some pw) (store srv) = Inr (u, st')"
    using assms(5,6) by (auto simp: create_Inr_iff)
  ultimately show ?thesis using assms(1-4) by (simp add: with_validator_def register_def)
qed

lemma test_login_valid: "validateLogin (login_body (test_username n) test_password) = []"
  by (simp add: validateLogin_login_body test_username_def test_password_def blank_def js_trim_Nil_iff is_ws_def)

subsection \<open>The full diagnostic\<close>

lemma runFullDiagnostic_up:
  "runFullDiagnostic cfg e1 e2 True n srv =
     (let (rt, s3) = registerTestUser cfg e1 True n srv;
          (lt, s4) = (if test_ok rt then testCredentials cfg e2 True (test_username n) test_password s3
                      else (TestSkipped, s3))
      in (DiagReport (test_ok rt \<and> test_ok lt) (Online True 200) (CorsChecked True 200) rt lt, s4))"
  by (simp add: runFullDiagnostic_def checkBackendStatus_up checkCORSConfiguration_up)

lemma registerTestUser_route:
  "registerTestUser cfg e True n srv = apfst test_reply (apfst backend_reply
     (route cfg e (PostRegister (reg_body (test_username n) (test_email n) test_password test_password)) srv))"
  using fetch_backend_request [of "PostRegister (reg_body (test_username n) (test_email n) test_password test_password)" cfg e srv]
  by (simp only: registerTestUser_def post_req_register routable_def request.case simp_thms)

lemma testCredentials_route:
  "testCredentials cfg e True un pw srv = apfst test_reply (apfst backend_reply (route cfg e (PostLogin (login_body un pw)) srv))"
  using fetch_backend_request [of "PostLogin (login_body un pw)" cfg e srv]
  by (simp only: testCredentials_def post_req_login routable_def request.case simp_thms)

lemma runFullDiagnostic_taken:
  assumes n: "n < 10000"
    and taken: "list_ex (\<lambda>r. username r = test_username n \<or> email r = test_email n) (users (store srv))"
  shows "\<not> diag_success (fst (runFullDiagnostic cfg e1 e2 True n srv)) \<and> snd (runFullDiagnostic cfg e1 e2 True n srv) = srv"
proof -
  let ?b = "reg_body (test_username n) (test_email n) test_password test_password"
  from taken obtain ux where found: "find_one (\<lambda>r. email r = test_email n \<or> username r = test_username n) (store srv) = Some ux"
    by (cases "find_one (\<lambda>r. email r = test_email n \<or> username r = test_username n) (store srv)")
       (auto simp: find_one_def list_ex_iff find_None_iff)
  have "route cfg e1 (PostRegister ?b) srv = (fail 400 (if email ux = test_email n then MsgEmailTaken else MsgUsernameTaken), srv)"
    by (rule register_found [OF test_body_valid [OF n] _ _ found]) (simp_all add: reg_body_def)
  then show ?thesis
    by (simp add: runFullDiagnostic_up registerTestUser_route fail_def backend_reply_def res_ok_def)
qed

lemma runFullDiagnostic_fresh:
  assumes inv: "server_inv srv" and n: "n < 10000"
    and fresh: "\<not> list_ex (\<lambda>r. username r = test_username n \<or> email r = test_email n) (users (store srv))"
  shows "\<exists>u st'. server_inv (srv\<lparr>store := st'\<rparr>) \<and> u \<in> set (users st') \<and> username u = test_username n \<and>
    bcrypt_compare test_password (password u) \<and> diag_success (fst (runFullDiagnostic cfg e1 e2 True n srv)) \<and>
    snd (runFullDiagnostic cfg e1 e2 True n srv) = srv\<lparr>store := st'\<rparr>"
proof -
  let ?b = "reg_body (test_username n) (test_email n) test_password test_password"
  have "body_username ?b = Some (test_username n)" "body_email ?b = Some (test_email n)"
    "body_password ?b = Some test_password" by (simp_all add: reg_body_def)
  from route_register_fresh [where e = e1 and cfg = cfg, OF test_body_valid [OF n] this test_user_valid [OF n] fresh]
  obtain u st' where cr: "create (env_salt e1) (env_now e1) (test_username n) (test_email n) (Some test_password) (store srv) = Inr (u, st')"
    and rt: "route cfg e1 (PostRegister ?b) srv = (sendTokenResponse cfg (env_now e1) u 201, srv\<lparr>store := st'\<rparr>)"
    by blast
  have inv1: "server_inv (srv\<lparr>store := st'\<rparr>)" by (rule route_inv [OF inv rt])
  from cr have u: "u = beforeCreate (env_salt e1) (new_user (next_id (store srv)) (env_now e1) (test_username n) (test_email n) test_password)"
    and mem: "u \<in> set (users st')"
    by (auto simp: create_Inr_iff)
  have cmp: "bcrypt_compare test_password (password u)" and un: "username u = test_username n"
    by (simp_all add: u new_user_def)
  have "validateLogin (login_body (username u) test_password) = []"
    by (simp add: un test_login_valid)
  from route_login_success [OF inv1 _ cmp this, of cfg e2] mem
  have "testCredentials cfg e2 True (test_username n) test_password (srv\<lparr>store := st'\<rparr>) =
      (test_reply (backend_reply (sendTokenResponse cfg (env_now e2) u 200)), srv\<lparr>store := st'\<rparr>)"
    by (simp add: testCredentials_route un)
  with rt inv1 mem cmp un show ?thesis
    by (auto simp: runFullDiagnostic_up registerTestUser_route sendTokenResponse_def backend_reply_def res_ok_def)
qed

end
