(* ===== verification/Views.thy ===== *)
theory Views
  imports Pages
begin

text \<open>
  What the login page of \<open>src/FrontEnd/Pages/index.js\<close> renders: nothing when
  the context holds a user, otherwise a form whose title, inputs, submit
  button and footer links depend on the mode.  The inputs a user can type
  into, the links a user can click and the submit button (disabled while
  loading) are the page's only events; \<open>form_reachable\<close> is the set of form
  states they reach from the initial state.  Styling is not modelled.
\<close>

datatype page_title = TitleCreateAccount | TitleRecoverPassword | TitleWelcome

datatype input_field = InUsername | InEmail | InPassword | InConfirm | InResetEmail

datatype button_label = BtnSpinner | BtnRegister | BtnSendLink | BtnSignIn

datatype footer_link = LinkToggleSignUp | LinkForgotPassword | LinkBackToLogin

record login_view =
  lv_title :: page_title
  lv_message :: status
  lv_fields :: "input_field list"
  lv_button :: button_label
  lv_button_disabled :: bool
  lv_links :: "footer_link list"
  lv_overlay :: bool

definition login_view_of :: "login_form \<Rightarrow> login_view" where
  "login_view_of f =
     \<lparr>lv_title = (if lf_signup f then TitleCreateAccount
                  else if lf_forgot f then TitleRecoverPassword else TitleWelcome),
      lv_message = lf_status f,
      lv_fields = (if \<not> lf_forgot f
                   then [InUsername] @ (if lf_signup f then [InEmail] else []) @ [InPassword] @
                        (if lf_signup f then [InConfirm] else [])
                   else []) @
                  (if lf_forgot f then [InResetEmail] else []),
      lv_button = (if lf_loading f then BtnSpinner else if lf_signup f then BtnRegister
                   else if lf_forgot f then BtnSendLink else BtnSignIn),
      lv_button_disabled = lf_loading f,
      lv_links = (if \<not> lf_forgot f then [LinkToggleSignUp] else []) @
                 (if \<not> lf_signup f \<and> \<not> lf_forgot f then [LinkForgotPassword] else []) @
                 (if lf_forgot f then [LinkBackToLogin] else []),
      lv_overlay = lf_loading f\<rparr>"

definition login_render :: "login_form \<Rightarrow> client \<Rightarrow> login_view option" where
  "login_render f cl = (if cl_user cl \<noteq> None then None else Some (login_view_of f))"

fun field_value :: "login_form \<Rightarrow> input_field \<Rightarrow> string" where
  "field_value f InUsername = lf_username f"
| "field_value f InEmail = lf_email f"
| "field_value f InPassword = lf_password f"
| "field_value f InConfirm = lf_confirm f"
| "field_value f InResetEmail = lf_email f"

text \<open>The \<open>onChange\<close> handlers of the inputs.\<close>

fun set_field :: "input_field \<Rightarrow> string \<Rightarrow> login_form \<Rightarrow> login_form" where
  "set_field InUsername s f = f\<lparr>lf_username := s\<rparr>"
| "set_field InEmail s f = f\<lparr>lf_email := s\<rparr>"
| "set_field InPassword s f = f\<lparr>lf_password := s\<rparr>"
| "set_field InConfirm s f = f\<lparr>lf_confirm := s\<rparr>"
| "set_field InResetEmail s f = f\<lparr>lf_email := s\<rparr>"

text \<open>The \<open>onClick\<close> handlers of the footer links.\<close>

fun follow_link :: "footer_link \<Rightarrow> login_form \<Rightarrow> login_form" where
  "follow_link LinkToggleSignUp f = toggleSignUp f"
| "follow_link LinkForgotPassword f = toggleForgotPassword f"
| "follow_link LinkBackToLogin f = f\<lparr>lf_forgot := False\<rparr>"

inductive form_reachable :: "login_form \<Rightarrow> bool" where
  init: "form_reachable init_login_form"
| type: "form_reachable f \<Longrightarrow> x \<in> set (lv_fields (login_view_of f)) \<Longrightarrow> form_reachable (set_field x s f)"
| click: "form_reachable f \<Longrightarrow> l \<in> set (lv_links (login_view_of f)) \<Longrightarrow> form_reachable (follow_link l f)"
| submit: "form_reachable f \<Longrightarrow> \<not> lv_button_disabled (login_view_of f) \<Longrightarrow>
    form_reachable (fst (login_submit cfg e up f cs))"

text \<open>
  What the reset page of \<open>src/FrontEnd/Pages/reset-password/[token].js\<close>
  renders in the browser: the invalid-token page when the route has no
  token, the success message once \<open>isSuccess\<close> is set, and otherwise the form
  with the page's own error (if any) and the spinner while loading.
\<close>

datatype reset_view = ResetTokenError | ResetDone | ResetFormView "reset_msg option" bool

definition reset_render :: "string option \<Rightarrow> reset_form \<Rightarrow> reset_view" where
  "reset_render tok f =
     (if js_falsy tok then ResetTokenError
      else if rf_success f then ResetDone
      else ResetFormView (if rf_error f = RfNone then None else Some (rf_error f)) (rf_loading f))"

lemma login_submit_modes:
  "lf_signup (fst (login_submit cfg e up f cs)) = lf_signup f \<and> lf_forgot (fst (login_submit cfg e up f cs)) = lf_forgot f"
  by (cases cs) (auto simp: login_submit_def login_effects_def Let_def split_def split: option.splits)

lemma set_field_modes [simp]:
  "lf_signup (set_field x s f) = lf_signup f" "lf_forgot (set_field x s f) = lf_forgot f"
  by (cases x; simp)+

lemma form_modes_exclusive: "form_reachable f \<Longrightarrow> \<not> (lf_signup f \<and> lf_forgot f)"
proof (induction rule: form_reachable.induct)
  case (click f l)
  then show ?case
    by (cases l) (simp_all add: toggleSignUp_def toggleForgotPassword_def Let_def)
qed (simp_all add: init_login_form_def login_submit_modes)

end
