(* ===== verification/ResetPage.thy ===== *)
theory ResetPage
  imports Views
begin

text \<open>
  The reset page of \<open>src/FrontEnd/Pages/reset-password/[token].js\<close> as an
  event machine over the page state, the client and the backend.  The
  user's events are typing into the two inputs, submitting the form and
  clicking the links back to \<open>/\<close>; the one internal event is the
  two-second timer that \<open>handleSubmit\<close> sets after a successful reset, which
  pushes \<open>/home\<close>.  An event on a control the page does not render (the
  form once the success message shows, or without a token) changes nothing.
  Each submit brings its own request inputs.
\<close>

record reset_page =
  rp_form :: reset_form
  rp_timer :: bool

definition init_reset_form :: reset_form where
  "init_reset_form = \<lparr>rf_password = [], rf_confirm = [], rf_error = RfNone, rf_loading = False, rf_success = False\<rparr>"

definition init_reset_page :: reset_page where
  "init_reset_page = \<lparr>rp_form = init_reset_form, rp_timer = False\<rparr>"

datatype reset_event =
    ResetTypePassword string
  | ResetTypeConfirm string
  | ResetSubmit env
  | ResetBack
  | ResetTimer

definition reset_form_shown :: "string option \<Rightarrow> reset_page \<Rightarrow> bool" where
  "reset_form_shown tok rp \<longleftrightarrow> \<not> js_falsy tok \<and> \<not> rf_success (rp_form rp)"

fun reset_page_step :: "config \<Rightarrow> bool \<Rightarrow> string option \<Rightarrow> reset_event \<Rightarrow>
    reset_page \<times> client \<times> server \<Rightarrow> reset_page \<times> client \<times> server" where
  "reset_page_step cfg up tok (ResetTypePassword s) (rp, cl, srv) =
     (if reset_form_shown tok rp then (rp\<lparr>rp_form := (rp_form rp)\<lparr>rf_password := s\<rparr>\<rparr>, cl, srv) else (rp, cl, srv))"
| "reset_page_step cfg up tok (ResetTypeConfirm s) (rp, cl, srv) =
     (if reset_form_shown tok rp then (rp\<lparr>rp_form := (rp_form rp)\<lparr>rf_confirm := s\<rparr>\<rparr>, cl, srv) else (rp, cl, srv))"
| "reset_page_step cfg up tok (ResetSubmit e) (rp, cl, srv) =
     (if reset_form_shown tok rp then
        (let (f', cl', srv') = reset_submit cfg e up tok (rp_form rp) (cl, srv)
         in (\<lparr>rp_form = f', rp_timer = (rp_timer rp \<or> rf_success f' \<and> \<not> rf_success (rp_form rp))\<rparr>, cl', srv'))
      else (rp, cl, srv))"
| "reset_page_step cfg up tok ResetBack (rp, cl, srv) =
     (if js_falsy tok \<or> \<not> rf_success (rp_form rp) then (rp, cl\<lparr>cl_page := Some ''/''\<rparr>, srv) else (rp, cl, srv))"
| "reset_page_step cfg up tok ResetTimer (rp, cl, srv) =
     (if rp_timer rp then (rp\<lparr>rp_timer := False\<rparr>, cl\<lparr>cl_page := Some ''/home''\<rparr>, srv) else (rp, cl, srv))"

fun reset_page_run :: "config \<Rightarrow> bool \<Rightarrow> string option \<Rightarrow> reset_event list \<Rightarrow>
    reset_page \<times> client \<times> server \<Rightarrow> reset_page \<times> client \<times> server" where
  "reset_page_run cfg up tok [] s = s"
| "reset_page_run cfg up tok (ev # evs) s = reset_page_run cfg up tok evs (reset_page_step cfg up tok ev s)"

definition reset_page_quiet :: "server \<Rightarrow> reset_page \<times> client \<times> server \<Rightarrow> bool" where
  "reset_page_quiet srv0 s \<longleftrightarrow>
     (case s of (rp, cl, srv) \<Rightarrow> srv = srv0 \<and> \<not> rf_success (rp_form rp) \<and> \<not> rp_timer rp)"

lemma reset_page_step_quiet:
  assumes "reset_page_quiet srv0 s"
  shows "reset_page_quiet srv0 (reset_page_step cfg up tok ev s)"
proof -
  obtain rp cl srv where s: "s = (rp, cl, srv)" by (metis prod.collapse)
  show ?thesis
  proof (cases ev)
    case (ResetSubmit e)
    obtain f' cl' srv' where sub: "reset_submit cfg e up tok (rp_form rp) (cl, srv) = (f', cl', srv')"
      by (metis prod.collapse)
    from assms s have "\<not> rf_success (rp_form rp)" by (simp add: reset_page_quiet_def)
    with reset_submit_frame [of cfg e up tok "rp_form rp" cl srv] sub
    have "srv' = srv" "\<not> rf_success f'" by simp_all
    with assms s sub ResetSubmit show ?thesis by (simp add: reset_page_quiet_def)
  qed (use assms s in \<open>auto simp: reset_page_quiet_def\<close>)
qed

lemma reset_page_run_quiet:
  "reset_page_quiet srv0 s \<Longrightarrow> reset_page_quiet srv0 (reset_page_run cfg up tok evs s)"
  by (induction evs arbitrary: s) (simp_all add: reset_page_step_quiet)

end
