(* ===== verification/Bootstrap.thy ===== *)
theory Bootstrap
  imports Lifecycle App
begin

text \<open>
  Starting the backend: the connection options of
  \<open>src/Backend/config/db.js\<close>, its \<open>testConnection\<close>, and \<open>startServer\<close> of
  \<open>src/Backend/server.js\<close>, which tests the connection, runs
  \<open>sequelize.sync({ alter: true })\<close> and listens on \<open>PORT\<close>.  The database
  outlives the process: it is a \<open>users\<close> table or no table yet.  Whether the
  database accepts the connection and whether the sync succeeds are inputs.
  \<open>sync\<close> with \<open>alter\<close> creates a missing table and otherwise adapts the
  columns and keeps the rows (the table already has the model's columns).
  A new process has sent no mail.  \<open>app_dispatch_inv\<close>: every request
  the Express application serves keeps the invariant of \<open>Lifecycle\<close>.  The
  route listing and the log lines are output only and are not modelled.
\<close>

record db_config =
  db_name :: string
  db_user :: string
  db_password :: string
  db_host :: string
  db_dialect :: string
  db_logging :: bool
  pool_max :: nat
  pool_min :: nat
  pool_acquire :: nat
  pool_idle :: nat

definition db_config_of :: "env_vars \<Rightarrow> db_config" where
  "db_config_of vars =
     \<lparr>db_name = env_or vars ''DB_NAME'' ''auth_app'', db_user = env_or vars ''DB_USER'' ''root'',
      db_password = env_or vars ''DB_PASSWORD'' [], db_host = env_or vars ''DB_HOST'' ''localhost'',
      db_dialect = env_or vars ''DB_DIALECT'' ''mysql'', db_logging = False,
      pool_max = 5, pool_min = 0, pool_acquire = 30000, pool_idle = 10000\<rparr>"

text \<open>\<open>testConnection\<close>: \<open>None\<close> when \<open>authenticate()\<close> succeeds, the exit status of \<open>process.exit(1)\<close> otherwise.\<close>

definition testConnection :: "bool \<Rightarrow> nat option" where
  "testConnection conn = (if conn then None else Some 1)"

definition sync_alter :: "store option \<Rightarrow> store" where
  "sync_alter db = (case db of None \<Rightarrow> empty_store | Some st \<Rightarrow> st)"

definition port_of :: "env_vars \<Rightarrow> string" where
  "port_of vars = env_or vars ''PORT'' ''5000''"

datatype boot = Exited nat | Listening string db_config server

definition startServer :: "env_vars \<Rightarrow> bool \<Rightarrow> bool \<Rightarrow> store option \<Rightarrow> boot" where
  "startServer vars conn sync_ok db =
     (case testConnection conn of
        Some code \<Rightarrow> Exited code
      | None \<Rightarrow>
          if \<not> sync_ok then Exited 1
          else Listening (port_of vars) (db_config_of vars) \<lparr>store = sync_alter db, outbox = []\<rparr>)"

lemma app_dispatch_inv:
  assumes "server_inv srv" "app_dispatch cfg e hr srv = (resp, srv')"
  shows "server_inv srv'"
proof -
  have "\<And>r. server_inv (snd (route cfg e r srv))"
    using route_inv [OF assms(1)] by (metis prod.collapse)
  with assms show ?thesis
    by (auto simp: app_dispatch_def Let_def apfst_def map_prod_def split_def split: http_body.splits option.splits if_splits)
qed

end
