(* ===== verification/Spec2Isabelle.thy ===== *)
theory Spec2Isabelle
  imports Flows Client Race Shapes Mail Diagnostics ResetPage Bootstrap
begin

text \<open>
  \<^bold>\<open>A verification model of NextApp, a username/password authentication
  service with email password recovery and a Next.js client.\<close>

  \<^bold>\<open>The program.\<close>  The backend (\<open>src/Backend\<close>) is an Express server whose
  router (\<open>routes/authRoutes.js\<close>) sends six endpoints through validation
  middleware (\<open>middleware/validators.js\<close>) or the bearer-token guard
  \<open>protect\<close> (\<open>middleware/auth.js\<close>) to the handlers of
  \<open>controllers/authController.js\<close>: register, login, me, forgot-password,
  reset-password, logout.  The handlers read and write one Sequelize model,
  \<open>models/User.js\<close>, with field validation, a \<open>beforeCreate\<close> and a
  \<open>beforeUpdate\<close> hook that hash the password with bcrypt, and instance
  methods that sign a JWT, compare a password and create a reset secret
  (twenty random bytes in hex; SHA-256 of it is stored, with an expiry ten
  minutes ahead).  The client (\<open>src/FrontEnd\<close>) is a React context,
  \<open>context/AuthContext.js\<close>, whose actions call Next.js API routes under
  \<open>Pages/api/auth\<close>; those routes forward each call to the backend and relay
  the answer.

  \<^bold>\<open>Theories and what they model.\<close>
  \<^item> \<open>Prelude\<close>: the fact collections, \<open>map_where\<close> (an \<open>UPDATE ... WHERE\<close> on a
    table) and list lemmas on first matches (\<open>findOne\<close>) shared by all.
  \<^item> \<open>Js\<close>: the JavaScript built-ins the sources call (\<open>trim\<close>, \<open>split\<close>,
    \<open>startsWith\<close>, truthiness of an optional field, \<open>process.env.K || d\<close>) and
    an ASCII model of \<open>validator.isEmail\<close>, with the split/join round trip.
  \<^item> \<open>Crypto\<close>: bcrypt as a symbolic value \<open>Bcrypt salt v\<close>, so a hash of a
    hash is visible, compared through \<open>bcrypt_key\<close>, the 72 bytes of the
    password and its NUL terminator that the key schedule reads (two
    passwords with the same first 72 bytes match); \<open>Buffer.toString('hex')\<close>
    exactly, on \<open>8 word\<close> bytes, with its decoder and round trip.
  \<^item> \<open>Jwt\<close>: \<open>jsonwebtoken\<close> as a concrete three-part token (hex header, hex
    claims with decimal numbers, hex HMAC) with HMAC a parameter of the
    configuration; \<open>jwt_verify_sign\<close> is the sign/verify round trip with
    expiry.
  \<^item> \<open>User\<close>: \<open>models/User.js\<close>: the row as a record, the validation
    constraints (\<open>attr_errors\<close>, \<open>validate\<close>), the two hooks, and
    \<open>getSignedJwtToken\<close>, \<open>matchPassword\<close>, \<open>getResetPasswordToken\<close>.
  \<^item> \<open>Store\<close>: the \<open>users\<close> table through Sequelize: a list in primary-key
    order with the auto-increment counter; \<open>find_one\<close> is \<open>findOne\<close> (first
    match), \<open>create\<close> validates all fields, runs \<open>beforeCreate\<close> and checks
    the unique keys, \<open>save\<close> validates the changed fields, runs
    \<open>beforeUpdate\<close>, checks the keys and updates the row (nothing when no
    field changed).  \<open>store_wf\<close> is what the keys guarantee; \<open>create_wf\<close>
    and \<open>save_wf\<close> show both operations keep it.
  \<^item> \<open>Http\<close>: request bodies with \<open>undefined\<close> fields, the per-request inputs
    (clock, salt, random bytes, whether mail delivery succeeds), the
    messages and JSON bodies, and the server state: the table and the
    outbox of sent reset mails.
  \<^item> \<open>Controller\<close>: the six handlers, one function each, every
    \<open>return res.status(..)\<close> and every \<open>catch\<close> a branch.
  \<^item> \<open>Middleware\<close>: the four validators and \<open>protect\<close>.
  \<^item> \<open>Routes\<close>: \<open>route\<close> runs each endpoint's chain; \<open>run\<close> serves a
    sequence of requests.
  \<^item> \<open>Lifecycle\<close>: the invariant \<open>server_inv\<close> (keys unique, every password a
    bcrypt hash of a plaintext, reset digest and expiry present together,
    stored names and emails valid), its preservation by every handler, and
    the inductive set \<open>reachable\<close> of states served from the empty table.
  \<^item> \<open>Flows\<close>: closed forms of each request on an invariant state: what
    login, register, forgot-password (delivered or not) and reset-password
    answer and store, and when \<open>protect\<close> accepts or refuses a token.
  \<^item> \<open>Race\<close>: \<open>register\<close> cut at its \<open>await\<close> of \<open>findOne\<close>
    (\<open>register_check\<close>, \<open>register_commit\<close>), a request between its steps
    (\<open>reg_proc\<close>), and \<open>interleave\<close>, which runs two registrations on the
    shared table in the order a schedule gives; \<open>race_inv\<close> is the invariant
    that at most one of them has won.
  \<^item> \<open>App\<close>: the Express application of \<open>server.js\<close>: \<open>cors()\<close> ending
    every \<open>OPTIONS\<close> request, \<open>express.json()\<close> and the error handler, the
    router mounted at \<open>/api/auth\<close> with the route table of \<open>authRoutes.js\<close>
    (\<open>auth_route\<close>), Express's path matching (letter case, one trailing
    slash, the query cut off, one-segment parameters), \<open>/test\<close>, \<open>/\<close> and
    the final 404 (\<open>app_dispatch\<close>).
  \<^item> \<open>Proxy\<close>: the five Next.js API routes, which send their request to
    \<open>app_dispatch\<close> (\<open>backend_request\<close>, \<open>reply_of\<close>), and Next's routing of
    the client's calls (there is no \<open>forgot-password\<close> route); \<open>Client\<close>: the
    state and the six actions of \<open>AuthContext\<close>, and the provider's mount on a
    page load (\<open>AuthProvider_mount\<close>).
  \<^item> \<open>Shapes\<close>: \<open>resp_wf\<close>, the shape every JSON answer has (success exactly
    on 2xx, tokens with 200 or 201, profiles with 200, non-empty error lists
    with 400), and that every handler, the router, the app and the proxies
    keep it; the rules form the collection \<open>shape_rules\<close>.
  \<^item> \<open>Pages\<close>: the login page (\<open>Pages/index.js\<close>) and the reset page
    (\<open>Pages/reset-password/[token].js\<close>) as records of their React state;
    \<open>login_submit\<close> and \<open>reset_submit\<close> are the two \<open>handleSubmit\<close>s with
    their own checks, the context action they call and the effects on
    \<open>user\<close> and \<open>error\<close>.
  \<^item> \<open>Mail\<close>: the reset mail: the link \<open>forgotPassword\<close> builds from the
    request's protocol and host, the HTML message around it and the options
    of \<open>sendEmail\<close> (\<open>utils/emailService.js\<close>); a reader of the link (its
    first \<open>href\<close>, the host and path of a URL) and Next's page route
    \<open>reset-password/[token]\<close>.
  \<^item> \<open>Diagnostics\<close>: \<open>utils/diagnostico.js\<close>: the status, CORS, test-user
    registration and credential probes, each a request through
    \<open>app_dispatch\<close>, composed by \<open>runFullDiagnostic\<close>.
  \<^item> \<open>Views\<close>: what the login page renders (title, inputs, button, footer
    links) as a function of its state, and \<open>form_reachable\<close>, the inductive
    set of page states its inputs, links and enabled submit button reach;
    what the reset page renders (\<open>reset_render\<close>).
  \<^item> \<open>ResetPage\<close>: the reset page as an event machine: typing, submitting,
    the links back to \<open>/\<close> and the redirect timer (\<open>reset_page_step\<close>,
    \<open>reset_page_run\<close>), with the invariant \<open>reset_page_quiet\<close>.
  \<^item> \<open>Bootstrap\<close>: the connection options of \<open>config/db.js\<close> with their
    defaults (\<open>env_or\<close> is \<open>process.env.K || d\<close>), \<open>testConnection\<close>,
    \<open>startServer\<close> of \<open>server.js\<close> (exit status or a listening server on the
    persisted table); the invariant is kept by every request the Express
    application serves (\<open>app_dispatch_inv\<close>).

  \<^bold>\<open>The properties\<close> (sections below, C1 to C34): the credential invariant
  of every reachable state (C1); register then login (C2); single use of a
  reset secret (C3); the forgot/reset/login flow, with the login checked on
  bcrypt's key (C4); uniform login failures (C5); duplicate registrations
  and their table-order tie (C6, C7); the rollback after a failed mail
  (C8); acceptance of issued tokens and refusal of expired or foreign ones
  (C9 to C11); transparency of the proxies (C12); the client's broken
  recovery flow (C13); the client's login and session restore (C14);
  forgot-password never touching the credentials (C15); the 500 on an
  over-long reset password (C16); refusal of resets without a live secret
  (C17); which requests can change the state at all (C18); two concurrent
  registrations: never two winners, and a 500 for the loser of a race (C19,
  C20); the shape of every answer (C21); the bearer header round trip
  (C22); the bounds of a reset secret and its expiry (C23); the sign-up
  form's checks against the backend's (C24); the forgot mode's certain
  error (C25); that every stored user of a reachable state can always
  recover the account through forgot-password, reset and login (C26); the
  round trip of the secret through the mailed link, and the backend's 404
  for that link (C27, C28); when the full diagnostic succeeds, and the test
  account it leaves behind (C29, C30); that the login page's hidden inputs
  never influence a submit (C31); what the reset page shows after a submit
  and after any run of its events (C32); that the mailed secret, read by
  the reset page and sent by the proxy, resets the password (C33); and that
  a password longer than 72 bytes is checked only on its first 72 (C34).
  Each property with hypotheses has a witness on the fixtures below (a
  configuration with a toy HMAC and SHA-256, a server holding the user
  \<open>alice\<close>).

  \<^bold>\<open>Bounds and choices.\<close>  Times are natural numbers of milliseconds
  (\<open>Date.now()\<close>); the token's \<open>iat\<close> and \<open>exp\<close> are seconds (\<open>div 1000\<close>),
  as \<open>jsonwebtoken\<close> computes them; the reset window is \<open>10 * 60 * 1000\<close>
  ms.  Every operation is a total function, no loop needs fuel: handlers
  are straight-line code and the only recursion is over lists and numbers.
  Randomness (salts, reset bytes), the clock and mail delivery are inputs
  of each request (\<open>env\<close>), so every statement holds for all of them.
  Recovery (C29) needs a secret whose digest no row holds: twenty random
  bytes give \<open>2^160\<close> secrets, so a table of fewer rows and a digest
  injective on those secrets leave one (\<open>fresh_bytes_exist\<close>, by counting).
  The diagnostics' random suffix is below 10000, so the test username has
  at most 14 characters and the test email's local part at most 8, within
  the model's length constraints.  Strings are byte strings (one character
  per byte, as UTF-8 of ASCII); bcrypt's limit \<open>bcrypt_max_bytes\<close> is 72
  bytes of the key schedule, and the validators let passwords of up to 100
  through, so C4 and C34 state the login on the first 72 bytes.

  \<^bold>\<open>Not modelled.\<close>  What is left of the sources carries no behaviour that
  can be stated: the \<open>require\<close>/\<open>import\<close> lines and exports, the styles
  of both pages, the provider's JSX, the log lines and the route listing of
  \<open>startServer\<close>.  Outside the repository's code: the socket behind
  \<open>listen\<close>, the connection pool's behaviour (its options are recorded),
  the CORS headers (the diagnostics take \<open>Access-Control-Allow-Origin\<close> as
  set on every answer, as \<open>cors()\<close> sets it), the \<open>time\<close> field of \<open>/test\<close>,
  Express's percent-decoding of a route parameter (the proxies' tokens are
  routed only without \<open>/\<close> or \<open>?\<close>), MySQL's case-insensitive collation
  (names compare as exact strings here), \<open>nodemailer\<close>'s delivery
  (\<open>sendEmail\<close> is its configuration and mail options with success or
  failure as an input; the outbox keeps the recipient and secret of a sent
  mail, and \<open>Mail\<close> renders the rest from them), and the 5-second abort of
  the diagnostics' CORS probe.  Requests are served one at a time, except
  two registrations, which \<open>Race\<close> interleaves at their \<open>await\<close> points;
  the awaits inside \<open>create\<close> (bcrypt's salt and hash) and inside the other
  handlers are not split, and each database statement is atomic.  bcrypt,
  SHA-256 and HMAC are modelled by their contracts (bcrypt symbolically, the
  digests as configuration functions), so no statement depends on their
  cryptographic strength.

  \<^bold>\<open>Approximations.\<close>  Times are kept in milliseconds, as \<open>Date.now()\<close>
  gives them; on MySQL, \<open>DataTypes.DATE\<close> is a \<open>DATETIME\<close> of whole
  seconds, so the stored expiry loses its milliseconds and the real reset
  window may end up to a second away from \<open>t + 600000\<close> (C17, C33 and C26 speak of the millisecond window).
  \<open>is_email\<close> is an ASCII approximation of \<open>validator.isEmail\<close>: its
  local part omits the characters \<open>'\<close> and the backquote, and the
  254-character limit on the whole address is not checked.  A failed
  insert does not consume an \<open>AUTO_INCREMENT\<close> value here (InnoDB consumes
  one), so only the ids of later rows differ.  The random bytes of
  \<open>randomBytes(20)\<close> are an input of any length; the statements that need
  twenty bytes (C23, C26) say so.  \<open>JWT_SECRET\<close> is taken as set and
  \<open>JWT_EXPIRE\<close> as a number of seconds (unset, \<open>jwt.sign\<close> throws and the
  handler answers 500 after writing the row).  \<open>app_dispatch\<close> does not
  collapse a double slash after the mount point and does not serve
  \<open>HEAD\<close>; \<open>client_forgotPassword\<close> omits the catch of a failing
  same-origin \<open>fetch\<close>.  An entered password equal to a stored 60-character
  bcrypt string is not compared against a hash of that string, which
  \<open>server_inv\<close> excludes anyway.
\<close>

section \<open>Fixtures for the witnesses\<close>

definition demo_cfg :: config where
  "demo_cfg = \<lparr>jwt_secret = ''s3cret'', jwt_expire = 3600,
     hmac = (\<lambda>k m. text_bytes (k @ m)), sha256 = (\<lambda>s. ''sha:'' @ s)\<rparr>"

definition demo_env :: env where
  "demo_env = \<lparr>env_now = 1000000, env_salt = 7, env_rnd = [1, 2, 171], env_mail_ok = True\<rparr>"

definition demo_user :: user where
  "demo_user = beforeCreate 7 (new_user 1 1000000 ''alice'' ''alice@x.com'' ''secret1'')"

definition demo_srv1 :: server where
  "demo_srv1 = init_server\<lparr>store := \<lparr>users = [demo_user], next_id = 2\<rparr>\<rparr>"

definition demo_env2 :: env where
  "demo_env2 = demo_env\<lparr>env_now := 1001000, env_salt := 9\<rparr>"

definition demo_env20 :: env where
  "demo_env20 = demo_env\<lparr>env_rnd := replicate 20 171\<rparr>"

definition demo_reset_body :: req_body where
  "demo_reset_body = empty_body\<lparr>body_password := Some ''secret3'', body_confirmPassword := Some ''secret3''\<rparr>"

definition demo_srv2 :: server where
  "demo_srv2 = \<lparr>store = \<lparr>users = [pending_row demo_cfg demo_env demo_user], next_id = 2\<rparr>,
                 outbox = [\<lparr>mail_to = email demo_user, mail_token = hex_string (env_rnd demo_env)\<rparr>]\<rparr>"

definition demo_srv3 :: server where
  "demo_srv3 = demo_srv2\<lparr>store := \<lparr>users = [reset_row 9 1001000 ''secret3'' (pending_row demo_cfg demo_env demo_user)],
                                   next_id = 2\<rparr>\<rparr>"

definition demo_tie_srv :: server where
  "demo_tie_srv = init_server\<lparr>store := \<lparr>users =
     [beforeCreate 7 (new_user 1 1000000 ''bob'' ''bob@x.com'' ''secret1''),
      beforeCreate 7 (new_user 2 1000000 ''carol'' ''carol@x.com'' ''secret1'')], next_id = 3\<rparr>\<rparr>"

definition demo_env_fail :: env where
  "demo_env_fail = demo_env\<lparr>env_mail_ok := False\<rparr>"

definition demo_long_body :: req_body where
  "demo_long_body = empty_body\<lparr>body_password := Some (replicate 101 (CHR ''a'')),
                                body_confirmPassword := Some (replicate 101 (CHR ''a''))\<rparr>"

definition demo_reset_form :: reset_form where
  "demo_reset_form = \<lparr>rf_password = ''secret3'', rf_confirm = ''secret3'', rf_error = RfNone,
                       rf_loading = False, rf_success = False\<rparr>"

definition demo_pw80 :: string where
  "demo_pw80 = replicate 72 (CHR ''a'') @ ''bbbbbbbb''"

definition demo_pw74 :: string where
  "demo_pw74 = replicate 72 (CHR ''a'') @ ''zz''"

definition demo_long_user :: user where
  "demo_long_user = beforeCreate 7 (new_user 1 1000000 ''alice'' ''alice@x.com'' demo_pw80)"

lemma demo_register:
  "route demo_cfg demo_env (PostRegister (reg_body ''alice'' ''alice@x.com'' ''secret1'' ''secret1'')) init_server =
     ((201, TokenResp (getSignedJwtToken demo_cfg 1000000 demo_user) (pub_of demo_user)), demo_srv1)"
  by (simp add: with_validator_def validateRegister_def username_errors_def email_errors_def
      password_errors_def confirm_errors_def blank_def js_trim_def is_ws_def field_str_def reg_body_def
      register_def find_one_def init_server_def empty_store_def create_def create_errors_def
      validate_def all_attrs_def is_email_def is_fqdn_def local_part_ok_def domain_label_ok_def
      is_alnum_def is_alpha_def demo_env_def sendTokenResponse_def new_user_def Let_def
      demo_user_def demo_srv1_def)

lemma demo_register_long:
  "route demo_cfg demo_env (PostRegister (reg_body ''alice'' ''alice@x.com'' demo_pw80 demo_pw80)) init_server =
     ((201, TokenResp (getSignedJwtToken demo_cfg 1000000 demo_long_user) (pub_of demo_long_user)),
      init_server\<lparr>store := \<lparr>users = [demo_long_user], next_id = 2\<rparr>\<rparr>)"
  by (simp add: with_validator_def register_validation_simps reg_body_def
      register_def find_one_def init_server_def empty_store_def create_def create_errors_def
      validate_def all_attrs_def sendTokenResponse_def new_user_def Let_def demo_env_def
      demo_long_user_def demo_pw80_def)

lemma demo_register_other:
  "fst (fst (route demo_cfg demo_env (PostRegister (reg_body ''alice'' ''other@x.com'' ''secret2'' ''secret2'')) init_server)) = 201"
  by (simp add: with_validator_def register_validation_simps reg_body_def
      register_def find_one_def init_server_def empty_store_def create_def create_errors_def
      validate_def all_attrs_def sendTokenResponse_def new_user_def Let_def)

lemma demo_srv1_inv: "server_inv demo_srv1"
  using demo_register init_server_inv by (metis route_inv)

lemma demo_user_in: "demo_user \<in> set (users (store demo_srv1))"
  by (simp add: demo_srv1_def)

lemma demo_user_fresh:
  "list_all (\<lambda>r. resetPasswordToken r \<noteq> Some (sha256 demo_cfg (hex_string (env_rnd demo_env))))
     (users (store demo_srv1))"
  by (simp add: demo_srv1_def demo_user_def beforeCreate_def new_user_def)

lemma demo_forgot:
  "route demo_cfg demo_env (PostForgotPassword (forgot_body (email demo_user))) demo_srv1 =
     ((200, Message True MsgEmailSent), demo_srv2)"
  using route_forgot_sent [OF demo_srv1_inv demo_user_in, of demo_env demo_cfg] demo_user_fresh
  by (simp add: demo_env_def demo_srv1_def demo_srv2_def init_server_def)

lemma demo_srv2_inv: "server_inv demo_srv2"
  using demo_forgot demo_srv1_inv by (metis route_inv)

lemma demo_reset_body_ok:
  "validateResetPassword demo_reset_body = []" "body_password demo_reset_body = Some ''secret3''"
  by (simp_all add: demo_reset_body_def validateResetPassword_def password_errors_def confirm_errors_def
      empty_body_def field_str_def js_falsy_def)

lemma demo_reset:
  "route demo_cfg demo_env2 (PutResetPassword (hex_string (env_rnd demo_env)) demo_reset_body) demo_srv2 =
     (sendTokenResponse demo_cfg 1001000 (reset_row 9 1001000 ''secret3'' (pending_row demo_cfg demo_env demo_user)) 200,
      demo_srv3)"
  using route_reset_cases [OF demo_srv2_inv demo_reset_body_ok, of demo_cfg demo_env2 "hex_string (env_rnd demo_env)"]
  by (simp add: find_one_def demo_srv2_def demo_srv3_def reset_match_def pending_row_def
      reset_expire_ms_def demo_env2_def demo_env_def)

section \<open>The credential lifecycle\<close>

text \<open>
  C1.  In every state the server reaches from the empty table by routed
  requests, with any clock, salts, random bytes and mail outcomes, the
  usernames and the emails of the stored users are pairwise distinct, every
  stored password is the bcrypt hash of a plaintext (never a plaintext and
  never a hash of a hash), and a user has a reset digest exactly when it has
  a reset expiry.
\<close>

theorem reachable_credentials_invariant:
  assumes "reachable cfg srv"
  shows "distinct (map username (users (store srv))) \<and> distinct (map email (users (store srv))) \<and>
    list_all (\<lambda>u. (\<exists>s p. password u = Bcrypt s (Plain p)) \<and>
                  (resetPasswordToken u = None \<longleftrightarrow> resetPasswordExpire u = None)) (users (store srv))"
proof -
  from assms have "server_inv srv" by (rule reachable_server_inv)
  then have "store_wf (store srv)" "list_all user_ok (users (store srv))"
    by (simp_all add: server_inv_def store_inv_def)
  moreover have "user_ok u \<Longrightarrow> \<exists>s p. password u = Bcrypt s (Plain p)" for u
    by (cases "password u" rule: is_bcrypt_of_plain.cases) (auto simp: user_ok_def)
  ultimately show ?thesis
    by (auto simp: store_wf_def list_all_iff user_ok_def reset_paired_def)
qed

theorem reachable_credentials_invariant_witness:
  "reachable demo_cfg (snd (route demo_cfg demo_env (PostRegister (reg_body ''alice'' ''alice@x.com'' ''secret1'' ''secret1'')) init_server)) \<and>
   distinct (map username (users (store (snd (route demo_cfg demo_env (PostRegister (reg_body ''alice'' ''alice@x.com'' ''secret1'' ''secret1'')) init_server)))))"
proof -
  have r: "reachable demo_cfg (snd (route demo_cfg demo_env (PostRegister (reg_body ''alice'' ''alice@x.com'' ''secret1'' ''secret1'')) init_server))"
    by (rule reachable.step [OF reachable.init prod.collapse [symmetric]])
  show ?thesis using reachable_credentials_invariant [OF r] r by simp
qed

text \<open>
  C2.  After a successful registration (201 with a token), logging in with
  the registered username and password succeeds (200) on the new state, the
  response carries the same public user, and the issued token verifies under
  the server's secret to the user's id and username until \<open>JWT_EXPIRE\<close>
  seconds after the login.
\<close>

theorem register_then_login:
  assumes inv: "server_inv srv"
    and reg: "route cfg e (PostRegister b) srv = ((201, TokenResp tok pu), srv1)"
    and un: "body_username b = Some un" and pw: "body_password b = Some pw"
  shows "\<exists>tok'. route cfg e' (PostLogin (login_body un pw)) srv1 = ((200, TokenResp tok' pu), srv1) \<and>
    jwt_verify (hmac cfg) (jwt_secret cfg) t tok' =
      (if env_now e' div 1000 + jwt_expire cfg \<le> t div 1000 then None
       else Some \<lparr>claim_id = pub_id pu, claim_username = un, claim_iat = env_now e' div 1000,
                  claim_exp = env_now e' div 1000 + jwt_expire cfg\<rparr>)"
proof -
  obtain u where pu: "pu = pub_of u" and uu: "username u = un" and l6: "6 \<le> length pw"
    and all: "\<forall>e' pw0. route cfg e' (PostLogin (login_body un pw0)) srv1 =
      (if pw0 = [] then ((400, ErrorsResp [(FPassword, PasswordRequired)]), srv1)
       else if bcrypt_key pw0 = bcrypt_key pw then (sendTokenResponse cfg (env_now e') u 200, srv1)
       else (fail 401 MsgInvalidCredentials, srv1))"
    using route_register_login [OF inv reg un pw] by blast
  have "route cfg e' (PostLogin (login_body un pw)) srv1 = (sendTokenResponse cfg (env_now e') u 200, srv1)"
    using all l6 by auto
  moreover have "pub_id pu = user_id u" by (simp add: pu pub_of_def)
  ultimately show ?thesis
    by (simp add: sendTokenResponse_def getSignedJwtToken_def jwt_verify_sign uu pu)
qed

theorem register_then_login_witness:
  "server_inv init_server \<and>
   route demo_cfg demo_env (PostRegister (reg_body ''alice'' ''alice@x.com'' ''secret1'' ''secret1'')) init_server =
     ((201, TokenResp (getSignedJwtToken demo_cfg 1000000 demo_user) (pub_of demo_user)), demo_srv1) \<and>
   (\<exists>tok'. route demo_cfg demo_env (PostLogin (login_body ''alice'' ''secret1'')) demo_srv1 =
      ((200, TokenResp tok' (pub_of demo_user)), demo_srv1))"
proof -
  have "body_username (reg_body ''alice'' ''alice@x.com'' ''secret1'' ''secret1'') = Some ''alice''"
    "body_password (reg_body ''alice'' ''alice@x.com'' ''secret1'' ''secret1'') = Some ''secret1''"
    by (simp_all add: reg_body_def)
  from register_then_login [OF init_server_inv demo_register this, of demo_env 1000000]
  show ?thesis using init_server_inv demo_register by blast
qed

section \<open>Password reset\<close>

text \<open>
  C3.  A reset secret works at most once: when at most one stored user holds
  the digest of the secret \<open>S\<close> and a reset with \<open>S\<close> succeeds (200), every later
  reset with \<open>S\<close>, at any time and with any body, answers 400 (invalid or
  expired token when the body passes validation, the validation errors
  otherwise) and leaves the state unchanged.
\<close>

theorem reset_secret_single_use:
  assumes inv: "server_inv srv"
    and one: "length (filter (\<lambda>u. resetPasswordToken u = Some (sha256 cfg S)) (users (store srv))) \<le> 1"
    and first: "route cfg e (PutResetPassword S b) srv = ((200, body), srv1)"
  shows "route cfg e' (PutResetPassword S b') srv1 =
    (if validateResetPassword b' = [] then fail 400 MsgInvalidToken
     else (400, ErrorsResp (validateResetPassword b')), srv1)"
proof -
  let ?d = "sha256 cfg S"
  have vb: "validateResetPassword b = []"
    using first by (auto simp: with_validator_def split: if_splits)
  then obtain pw where pwb: "body_password b = Some pw"
    using validateResetPassword_Nil_fields by blast
  obtain u where found: "find_one (reset_match ?d (env_now e)) (store srv) = Some u"
    and srv1: "srv1 = srv\<lparr>store := (store srv)\<lparr>users := map_where (\<lambda>r. user_id r = user_id u)
                        (\<lambda>_. reset_row (env_salt e) (env_now e) pw u) (users (store srv))\<rparr>\<rparr>"
    using first route_reset_cases [OF inv vb pwb, of cfg e S]
    by (auto simp: fail_def split: option.splits if_splits)
  from found have mem: "u \<in> set (users (store srv))" and tok: "resetPasswordToken u = Some ?d"
    by (auto simp: find_one_def reset_match_def)
  have "\<forall>r\<in>set (users (store srv1)). \<not> reset_match ?d t r" for t
  proof
    fix r
    assume "r \<in> set (users (store srv1))"
    then have "(r \<in> set (users (store srv)) \<and> user_id r \<noteq> user_id u) \<or>
               r = reset_row (env_salt e) (env_now e) pw u"
      by (auto simp: srv1 dest: set_map_where_sub)
    then show "\<not> reset_match ?d t r"
    proof
      assume r: "r \<in> set (users (store srv)) \<and> user_id r \<noteq> user_id u"
      then have "r \<noteq> u" by auto
      with r mem tok one have "resetPasswordToken r \<noteq> Some ?d"
        using filter_length_le1_unique [OF one, of r u] by auto
      then show ?thesis by (simp add: reset_match_def)
    qed simp
  qed
  then have "find_one (reset_match ?d (env_now e')) (store srv1) = None"
    by (simp add: find_one_def find_None_ball)
  then show ?thesis
    by (simp add: with_validator_def resetPassword_def Let_def)
qed

theorem reset_secret_single_use_witness:
  "route demo_cfg demo_env2 (PutResetPassword (hex_string (env_rnd demo_env)) demo_reset_body) demo_srv3 =
     (fail 400 MsgInvalidToken, demo_srv3)"
proof -
  have one: "length (filter (\<lambda>u. resetPasswordToken u = Some (sha256 demo_cfg (hex_string (env_rnd demo_env))))
               (users (store demo_srv2))) \<le> 1"
    by (simp add: demo_srv2_def)
  have first: "route demo_cfg demo_env2 (PutResetPassword (hex_string (env_rnd demo_env)) demo_reset_body) demo_srv2 =
     ((200, snd (sendTokenResponse demo_cfg 1001000 (reset_row 9 1001000 ''secret3'' (pending_row demo_cfg demo_env demo_user)) 200)),
      demo_srv3)"
    using demo_reset by (simp add: sendTokenResponse_def)
  show ?thesis
    using reset_secret_single_use [OF demo_srv2_inv one first, of demo_env2 demo_reset_body] demo_reset_body_ok
    by simp
qed

text \<open>
  C4.  The forgot-password flow works end to end: for a stored user, with
  mail delivery succeeding and fresh random bytes, a forgot-password request
  for the user's email answers 200 and mails the hex rendering of the random
  bytes to that email; a reset with that secret before the ten minutes run out
  and a valid password of at most 100 characters answers 200; afterwards
  logging in as the user succeeds exactly with the non-empty passwords that
  bcrypt cannot tell from the new one: those with the same bcrypt key.  For
  passwords without NUL bytes these are the passwords with the same first 72
  bytes, so a new password longer than 72 bytes is only checked on its
  first 72.
\<close>

theorem forgot_then_reset:
  assumes inv: "server_inv srv" and mem: "u \<in> set (users (store srv))" and mail: "env_mail_ok e"
    and fresh: "list_all (\<lambda>r. resetPasswordToken r \<noteq> Some (sha256 cfg (hex_string (env_rnd e)))) (users (store srv))"
    and fp: "route cfg e (PostForgotPassword (forgot_body (email u))) srv = (resp, srv1)"
    and time: "env_now e' < env_now e + 600000"
    and vb: "validateResetPassword b = []" and pwb: "body_password b = Some pw" and len: "length pw \<le> 100"
    and rs: "route cfg e' (PutResetPassword (hex_string (env_rnd e)) b) srv1 = (resp2, srv2)"
  shows "resp = (200, Message True MsgEmailSent) \<and>
    outbox srv1 = outbox srv @ [\<lparr>mail_to = email u, mail_token = hex_string (env_rnd e)\<rparr>] \<and>
    fst resp2 = 200 \<and>
    (\<forall>pw0. fst (fst (route cfg e'' (PostLogin (login_body (username u) pw0)) srv2)) = 200 \<longleftrightarrow>
       pw0 \<noteq> [] \<and> bcrypt_key pw0 = bcrypt_key pw) \<and>
    (CHR 0x00 \<notin> set pw \<longrightarrow> (\<forall>pw0. CHR 0x00 \<notin> set pw0 \<longrightarrow>
       fst (fst (route cfg e'' (PostLogin (login_body (username u) pw0)) srv2)) = 200 \<longleftrightarrow>
       take bcrypt_max_bytes pw0 = take bcrypt_max_bytes pw))"
proof -
  have flow: "resp = (200, Message True MsgEmailSent) \<and>
    outbox srv1 = outbox srv @ [\<lparr>mail_to = email u, mail_token = hex_string (env_rnd e)\<rparr>] \<and>
    fst resp2 = 200 \<and>
    (\<forall>pw0. fst (fst (route cfg e'' (PostLogin (login_body (username u) pw0)) srv2)) = 200 \<longleftrightarrow>
       pw0 \<noteq> [] \<and> bcrypt_key pw0 = bcrypt_key pw)"
    using forgot_reset_login [OF inv mem mail fresh fp _ vb pwb len rs] time
    by (simp add: reset_expire_ms_def)
  have pw: "take bcrypt_max_bytes pw \<noteq> []"
    using validateResetPassword_Nil_fields [OF vb] pwb bcrypt_max_bytes_pos by auto
  have "take bcrypt_max_bytes pw0 = take bcrypt_max_bytes pw \<longleftrightarrow>
      pw0 \<noteq> [] \<and> bcrypt_key pw0 = bcrypt_key pw"
    if "CHR 0x00 \<notin> set pw" "CHR 0x00 \<notin> set pw0" for pw0
    using bcrypt_key_eq_iff [OF that(2,1)] pw by auto
  with flow show ?thesis by simp
qed

theorem forgot_then_reset_witness:
  "fst (route demo_cfg demo_env (PostForgotPassword (forgot_body (email demo_user))) demo_srv1) =
     (200, Message True MsgEmailSent) \<and>
   fst (fst (route demo_cfg demo_env2 (PutResetPassword (hex_string (env_rnd demo_env)) demo_reset_body)
     (snd (route demo_cfg demo_env (PostForgotPassword (forgot_body (email demo_user))) demo_srv1)))) = 200"
proof -
  have mail: "env_mail_ok demo_env" and time: "env_now demo_env2 < env_now demo_env + 600000"
    and len: "length ''secret3'' \<le> 100"
    by (simp_all add: demo_env_def demo_env2_def)
  show ?thesis
    using forgot_then_reset [OF demo_srv1_inv demo_user_in mail demo_user_fresh prod.collapse [symmetric] time
        demo_reset_body_ok len prod.collapse [symmetric], of demo_env2]
    by simp
qed

section \<open>Login, registration and delivery failures\<close>

text \<open>
  C5.  Login failures are uniform: on a state satisfying the invariant, a
  login with a non-blank username and a non-empty password that matches no
  stored user with that username answers 401 with the same message, whether
  the username is unknown or the password is wrong, and changes nothing.
\<close>

theorem login_failure_uniform:
  assumes inv: "server_inv srv" and un: "\<not> blank (Some un)" and pw: "pw \<noteq> []"
    and no: "\<not> (\<exists>u\<in>set (users (store srv)). username u = un \<and> bcrypt_compare pw (password u))"
  shows "route cfg e (PostLogin (login_body un pw)) srv = (fail 401 MsgInvalidCredentials, srv)"
proof -
  have v: "validateLogin (login_body un pw) = []" using un pw by (simp add: validateLogin_login_body)
  have ne: "un \<noteq> []" using un by (simp add: blank_def)
  show ?thesis
  proof (cases "find_one (\<lambda>r. username r = un) (store srv)")
    case None
    with v ne pw show ?thesis by (simp add: with_validator_def login_def login_body_def empty_body_def)
  next
    case (Some u)
    then have "u \<in> set (users (store srv))" "username u = un" by (auto simp: find_one_def)
    with no have "\<not> matchPassword u pw" by (auto simp: matchPassword_def)
    with Some v ne pw show ?thesis by (simp add: with_validator_def login_def login_body_def empty_body_def)
  qed
qed

theorem login_failure_uniform_witness:
  "route demo_cfg demo_env (PostLogin (login_body ''alice'' ''wrong1'')) demo_srv1 =
     (fail 401 MsgInvalidCredentials, demo_srv1)"
  by (rule login_failure_uniform [OF demo_srv1_inv])
     (simp_all add: blank_def js_trim_def is_ws_def demo_srv1_def demo_user_def beforeCreate_def
       new_user_def bcrypt_hash_def bcrypt_key_inj_short bcrypt_max_bytes_def)

text \<open>
  C6.  A registration that passes validation and collides with a stored
  user is refused with 400 and changes nothing: with the email taken and the
  username free the answer is "email taken", with the username taken and the
  email free it is "username taken", and when one stored user has both it is
  "email taken".
\<close>

theorem register_duplicate:
  assumes inv: "server_inv srv" and v: "validateRegister b = []"
    and un: "body_username b = Some un" and em: "body_email b = Some em"
  shows "((\<exists>r\<in>set (users (store srv)). email r = em) \<and> \<not> (\<exists>r\<in>set (users (store srv)). username r = un) \<longrightarrow>
            route cfg e (PostRegister b) srv = (fail 400 MsgEmailTaken, srv)) \<and>
         (\<not> (\<exists>r\<in>set (users (store srv)). email r = em) \<and> (\<exists>r\<in>set (users (store srv)). username r = un) \<longrightarrow>
            route cfg e (PostRegister b) srv = (fail 400 MsgUsernameTaken, srv)) \<and>
         (\<forall>r\<in>set (users (store srv)). email r = em \<and> username r = un \<longrightarrow>
            route cfg e (PostRegister b) srv = (fail 400 MsgEmailTaken, srv))"
proof (intro conjI impI ballI)
  let ?P = "\<lambda>r. email r = em \<or> username r = un"
  let ?us = "users (store srv)"
  {
    assume h: "(\<exists>r\<in>set ?us. email r = em) \<and> \<not> (\<exists>r\<in>set ?us. username r = un)"
    then have "\<exists>r\<in>set ?us. ?P r" by blast
    from find_Some_exists [OF this] obtain ux where fnd0: "List.find ?P ?us = Some ux" and ux: "ux \<in> set ?us" "?P ux"
      by blast
    from fnd0 have fnd: "find_one ?P (store srv) = Some ux" by (simp add: find_one_def)
    from h ux have "email ux = em" by blast
    then show "route cfg e (PostRegister b) srv = (fail 400 MsgEmailTaken, srv)"
      using register_found [OF v un em fnd] by simp
  next
    assume h: "\<not> (\<exists>r\<in>set ?us. email r = em) \<and> (\<exists>r\<in>set ?us. username r = un)"
    then have "\<exists>r\<in>set ?us. ?P r" by blast
    from find_Some_exists [OF this] obtain ux where fnd0: "List.find ?P ?us = Some ux" and ux: "ux \<in> set ?us"
      by blast
    from fnd0 have fnd: "find_one ?P (store srv) = Some ux" by (simp add: find_one_def)
    from h ux have "email ux \<noteq> em" by blast
    then show "route cfg e (PostRegister b) srv = (fail 400 MsgUsernameTaken, srv)"
      using register_found [OF v un em fnd] by simp
  next
    fix r
    assume r: "r \<in> set ?us" and h: "email r = em \<and> username r = un"
    from inv have "distinct (map email ?us)" "distinct (map username ?us)"
      by (simp_all add: server_inv_def store_inv_def store_wf_def)
    then have all: "\<forall>y\<in>set ?us. ?P y \<longrightarrow> y = r"
      using r h by (auto dest: distinct_map_eqD)
    have "List.find ?P ?us = Some r" by (rule find_unique [OF r _ all]) (simp add: h)
    then have "find_one ?P (store srv) = Some r" by (simp add: find_one_def)
    with h show "route cfg e (PostRegister b) srv = (fail 400 MsgEmailTaken, srv)"
      using register_found [OF v un em] by simp
  }
qed

theorem register_duplicate_witness:
  "route demo_cfg demo_env (PostRegister (reg_body ''alice'' ''other@x.com'' ''secret2'' ''secret2'')) demo_srv1 =
     (fail 400 MsgUsernameTaken, demo_srv1)"
proof -
  have v: "validateRegister (reg_body ''alice'' ''other@x.com'' ''secret2'' ''secret2'') = []"
    by (simp add: register_validation_simps reg_body_def)
  have "\<not> (\<exists>r\<in>set (users (store demo_srv1)). email r = ''other@x.com'') \<and>
        (\<exists>r\<in>set (users (store demo_srv1)). username r = ''alice'')"
    by (simp add: demo_srv1_def demo_user_def beforeCreate_def new_user_def)
  then show ?thesis
    using register_duplicate [OF demo_srv1_inv v, of "''alice''" "''other@x.com''" demo_cfg demo_env]
    by (simp add: reg_body_def)
qed

text \<open>
  C7.  When the username collides with one stored user and the email with
  another, the answer depends on the table order: if the username's owner
  comes first among the colliding rows, the answer is "username taken",
  although the email collides too.
\<close>

theorem register_tie_table_order:
  assumes v: "validateRegister b = []" and un: "body_username b = Some un" and em: "body_email b = Some em"
    and tbl: "users (store srv) = xs @ r # ys"
    and before: "\<forall>x\<in>set xs. email x \<noteq> em \<and> username x \<noteq> un"
    and hit: "username r = un" "email r \<noteq> em"
  shows "route cfg e (PostRegister b) srv = (fail 400 MsgUsernameTaken, srv)"
proof -
  have "find_one (\<lambda>r. email r = em \<or> username r = un) (store srv) = Some r"
    using before hit by (simp add: find_one_def tbl find_append_None find_None_iff)
  with hit show ?thesis using register_found [OF v un em] by simp
qed

theorem register_tie_table_order_witness:
  "(\<exists>y\<in>set (users (store demo_tie_srv)). email y = ''carol@x.com'') \<and>
   route demo_cfg demo_env (PostRegister (reg_body ''bob'' ''carol@x.com'' ''secret2'' ''secret2'')) demo_tie_srv =
     (fail 400 MsgUsernameTaken, demo_tie_srv)"
proof -
  have v: "validateRegister (reg_body ''bob'' ''carol@x.com'' ''secret2'' ''secret2'') = []"
    by (simp add: register_validation_simps reg_body_def)
  have tbl: "users (store demo_tie_srv) =
      [] @ beforeCreate 7 (new_user 1 1000000 ''bob'' ''bob@x.com'' ''secret1'') #
      [beforeCreate 7 (new_user 2 1000000 ''carol'' ''carol@x.com'' ''secret1'')]"
    by (simp add: demo_tie_srv_def)
  show ?thesis
    using register_tie_table_order [OF v _ _ tbl]
    by (simp add: reg_body_def demo_tie_srv_def beforeCreate_def new_user_def)
qed

text \<open>
  C8.  When the reset mail cannot be delivered, forgot-password answers 500
  "email not sent", sends nothing, and rolls the user's reset state back:
  afterwards the user has neither reset digest nor expiry, and every user's
  id, username, email and password are as before.
\<close>

theorem forgot_delivery_failure:
  assumes inv: "server_inv srv" and mem: "u \<in> set (users (store srv))" and mail: "\<not> env_mail_ok e"
    and new: "resetPasswordToken u \<noteq> Some (sha256 cfg (hex_string (env_rnd e)))"
    and fp: "route cfg e (PostForgotPassword (forgot_body (email u))) srv = (resp, srv')"
  shows "resp = fail 500 MsgEmailNotSent \<and> outbox srv' = outbox srv \<and>
    (\<forall>r\<in>set (users (store srv')). resetPasswordToken r = None \<and> resetPasswordExpire r = None \<or>
        r \<in> set (users (store srv)) \<and> user_id r \<noteq> user_id u) \<and>
    map (\<lambda>r. (user_id r, username r, email r, password r)) (users (store srv')) =
    map (\<lambda>r. (user_id r, username r, email r, password r)) (users (store srv))"
proof -
  have srv': "srv' = srv\<lparr>store := (store srv)\<lparr>users := map_where (\<lambda>r. user_id r = user_id u)
        (\<lambda>_. u\<lparr>resetPasswordToken := None, resetPasswordExpire := None, updatedAt := env_now e\<rparr>)
        (users (store srv))\<rparr>\<rparr>" and resp: "resp = fail 500 MsgEmailNotSent"
    using fp route_forgot_failed [OF inv mem mail new] by simp_all
  have "map (\<lambda>r. (user_id r, username r, email r, password r)) (users (store srv')) =
        map (\<lambda>r. (user_id r, username r, email r, password r)) (users (store srv))"
  proof -
    from inv have "store_wf (store srv)" by (simp add: server_inv_def store_inv_def)
    then have "\<forall>x\<in>set (users (store srv)). user_id x = user_id u \<longrightarrow> x = u"
      using mem by (auto simp: store_wf_def dest: distinct_map_eqD)
    then show ?thesis unfolding srv' by (auto simp: map_where_def intro!: map_cong)
  qed
  moreover have "\<forall>r\<in>set (users (store srv')). resetPasswordToken r = None \<and> resetPasswordExpire r = None \<or>
        r \<in> set (users (store srv)) \<and> user_id r \<noteq> user_id u"
    unfolding srv' by (auto dest: set_map_where_sub)
  ultimately show ?thesis using resp by (simp add: srv')
qed

theorem forgot_delivery_failure_witness:
  "fst (route demo_cfg demo_env_fail (PostForgotPassword (forgot_body (email demo_user))) demo_srv1) =
     fail 500 MsgEmailNotSent"
proof -
  have mail: "\<not> env_mail_ok demo_env_fail" by (simp add: demo_env_fail_def demo_env_def)
  have new: "resetPasswordToken demo_user \<noteq> Some (sha256 demo_cfg (hex_string (env_rnd demo_env_fail)))"
    using demo_user_fresh by (simp add: demo_env_fail_def demo_srv1_def)
  show ?thesis
    using forgot_delivery_failure [OF demo_srv1_inv demo_user_in mail new prod.collapse [symmetric]]
    by simp
qed

section \<open>Bearer tokens\<close>

text \<open>
  C9.  A token issued for a stored user opens \<open>/me\<close> until it expires: with
  the header \<open>Bearer\<close> followed by the token, \<open>GET /me\<close> answers 200 with
  the user's id, username, email and timestamps, and changes nothing.
\<close>

theorem getMe_issued_token:
  assumes inv: "server_inv srv" and mem: "u \<in> set (users (store srv))"
    and fresh: "env_now e div 1000 < now div 1000 + jwt_expire cfg"
  shows "route cfg e (GetMe (Some (''Bearer '' @ getSignedJwtToken cfg now u))) srv =
    ((200, DataResp (Some \<lparr>prof_id = user_id u, prof_username = username u, prof_email = email u,
                          prof_createdAt = createdAt u, prof_updatedAt = updatedAt u\<rparr>)), srv)"
proof -
  from inv have wf: "store_wf (store srv)" by (simp add: server_inv_def store_inv_def)
  show ?thesis
    using route_getMe_bearer [OF protect_issued [OF mem wf fresh]] find_by_pk_in [OF wf mem]
    by (simp add: profile_of_def)
qed

theorem getMe_issued_token_witness:
  "route demo_cfg demo_env (GetMe (Some (''Bearer '' @ getSignedJwtToken demo_cfg 1000000 demo_user))) demo_srv1 =
    ((200, DataResp (Some \<lparr>prof_id = 1, prof_username = ''alice'', prof_email = ''alice@x.com'',
                          prof_createdAt = 1000000, prof_updatedAt = 1000000\<rparr>)), demo_srv1)"
  using getMe_issued_token [OF demo_srv1_inv demo_user_in, of demo_env 1000000 demo_cfg]
  by (simp add: demo_env_def demo_cfg_def demo_user_def beforeCreate_def new_user_def)

text \<open>
  C10.  An issued token is refused once its expiry has passed: \<open>/me\<close> and
  \<open>/logout\<close> answer 401 "not authorized" and change nothing.
\<close>

theorem expired_token_refused:
  assumes expired: "now div 1000 + jwt_expire cfg \<le> env_now e div 1000"
  shows "route cfg e (GetMe (Some (''Bearer '' @ getSignedJwtToken cfg now u))) srv = (fail 401 MsgNotAuthorized, srv) \<and>
         route cfg e (GetLogout (Some (''Bearer '' @ getSignedJwtToken cfg now u))) srv = (fail 401 MsgNotAuthorized, srv)"
proof -
  have "protect cfg (env_now e) (Some (''Bearer '' @ getSignedJwtToken cfg now u)) srv = Inl (fail 401 MsgNotAuthorized)"
    using expired
    by (intro protect_unverified) (simp_all add: getSignedJwtToken_def jwt_sign_no_space jwt_verify_sign)
  then show ?thesis by (simp add: with_protect_def)
qed

theorem expired_token_refused_witness:
  "route demo_cfg (demo_env\<lparr>env_now := 1000000 + 3600 * 1000\<rparr>)
     (GetMe (Some (''Bearer '' @ getSignedJwtToken demo_cfg 1000000 demo_user))) demo_srv1 =
   (fail 401 MsgNotAuthorized, demo_srv1)"
  using expired_token_refused [of 1000000 demo_cfg "demo_env\<lparr>env_now := 1000000 + 3600 * 1000\<rparr>" demo_user demo_srv1]
  by (simp add: demo_cfg_def)

text \<open>
  C11.  A token signed with another secret, whose signature differs from the
  one the server's secret gives, is refused by \<open>/me\<close> with 401.
\<close>

theorem foreign_token_refused:
  assumes other: "hmac cfg secret' (jwt_header @ CHR ''.'' # encode_claims
            \<lparr>claim_id = i, claim_username = n, claim_iat = now div 1000, claim_exp = now div 1000 + x\<rparr>)
        \<noteq> hmac cfg (jwt_secret cfg) (jwt_header @ CHR ''.'' # encode_claims
            \<lparr>claim_id = i, claim_username = n, claim_iat = now div 1000, claim_exp = now div 1000 + x\<rparr>)"
  shows "route cfg e (GetMe (Some (''Bearer '' @ jwt_sign (hmac cfg) secret' x now i n))) srv =
           (fail 401 MsgNotAuthorized, srv)"
proof -
  have "jwt_verify (hmac cfg) (jwt_secret cfg) (env_now e) (jwt_sign (hmac cfg) secret' x now i n) = None"
    using other by (intro jwt_verify_other_secret) (simp_all add: eq_commute)
  then have "protect cfg (env_now e) (Some (''Bearer '' @ jwt_sign (hmac cfg) secret' x now i n)) srv =
      Inl (fail 401 MsgNotAuthorized)"
    by (intro protect_unverified) (simp_all add: jwt_sign_no_space)
  then show ?thesis by (simp add: with_protect_def)
qed

theorem foreign_token_refused_witness:
  "route demo_cfg demo_env (GetMe (Some (''Bearer '' @ jwt_sign (hmac demo_cfg) ''guess'' 3600 1000000 1 ''alice''))) demo_srv1 =
     (fail 401 MsgNotAuthorized, demo_srv1)"
  by (rule foreign_token_refused) (simp add: demo_cfg_def text_bytes_def)

section \<open>The client and the proxies\<close>

text \<open>
  C12.  With the backend reachable, each Next.js proxy, called with its
  method and with the header or token it requires, answers exactly what the
  backend's router answers on the forwarded request, after the request has
  gone through the Express application of \<open>server.js\<close>, and leaves the
  backend in the same state; the register proxy does so whenever the
  confirmation field is not the empty string, the reset proxy whenever the
  token is one path segment without a query mark.
\<close>

theorem proxies_transparent:
  "proxy_login cfg e True HPost b srv = route cfg e (PostLogin b) srv \<and>
   (body_confirmPassword b \<noteq> Some [] \<longrightarrow>
      proxy_register cfg e True HPost b srv = route cfg e (PostRegister b) srv) \<and>
   (\<not> js_falsy h \<longrightarrow>
      proxy_me cfg e True HGet h srv = route cfg e (GetMe h) srv \<and>
      proxy_logout cfg e True HGet h srv = route cfg e (GetLogout h) srv) \<and>
   (tok \<noteq> [] \<and> CHR ''/'' \<notin> set tok \<and> CHR ''?'' \<notin> set tok \<longrightarrow>
      proxy_reset cfg e True HPut (Some tok) b srv = route cfg e (PutResetPassword tok b) srv)"
  by (simp add: proxy_login_def proxy_register_def proxy_me_def proxy_logout_def proxy_reset_def
      forward_up routable_def register_forward_body_id js_falsy_def field_str_def)

theorem proxies_transparent_witness:
  "proxy_register demo_cfg demo_env True HPost (reg_body ''alice'' ''alice@x.com'' ''secret1'' ''secret1'') init_server =
     route demo_cfg demo_env (PostRegister (reg_body ''alice'' ''alice@x.com'' ''secret1'' ''secret1'')) init_server"
  using proxies_transparent [of demo_cfg demo_env "reg_body ''alice'' ''alice@x.com'' ''secret1'' ''secret1''" init_server]
  by (simp add: reg_body_def)

text \<open>
  C13.  Password recovery from the client never succeeds: the client's
  forgot-password call resolves to false with the "not JSON" error, since no
  API route serves it, and the client's reset call resolves to false, since
  the body it sends lacks the confirmation the backend requires; neither
  changes the backend state, whatever the inputs.
\<close>

theorem client_recovery_broken:
  "fst (client_forgotPassword cfg e up em (cl, srv)) = False \<and>
   cl_error (fst (snd (client_forgotPassword cfg e up em (cl, srv)))) = Some ErrNotJson \<and>
   snd (snd (client_forgotPassword cfg e up em (cl, srv))) = srv \<and>
   fst (client_resetPassword cfg e up pw tok (cl, srv)) = False \<and>
   snd (snd (client_resetPassword cfg e up pw tok (cl, srv))) = srv"
proof -
  obtain c d where r: "fst (next_api cfg e up HPut (ApiResetPassword (Some tok) (client_reset_body pw)) srv) = Reply c (BJson d)"
    and nok: "\<not> res_ok c"
    and st: "snd (next_api cfg e up HPut (ApiResetPassword (Some tok) (client_reset_body pw)) srv) = srv"
    using client_reset_reply by blast
  have "next_api cfg e up HPut (ApiResetPassword (Some tok) (client_reset_body pw)) srv = (Reply c (BJson d), srv)"
    using r st by (metis prod.collapse)
  then show ?thesis
    using nok by (simp add: client_forgotPassword_def client_resetPassword_def)
qed

text \<open>
  C14.  A client login with the right password for a stored user stores the
  issued token and the public user and goes to \<open>/home\<close>; a later session check
  with that token before it expires replaces the user with the profile the
  backend returns for it, and so does reloading the page, which mounts the
  provider afresh with only the stored token.
\<close>

theorem client_login_session:
  assumes inv: "server_inv srv" and mem: "u \<in> set (users (store srv))"
    and pw: "pw \<noteq> []" "bcrypt_compare pw (password u)"
    and lg: "client_login cfg e True (username u) pw (cl, srv) = (cl1, srv1)"
    and fresh: "env_now e' div 1000 < env_now e div 1000 + jwt_expire cfg"
  shows "srv1 = srv \<and> cl_user cl1 = Some (PubUser (pub_of u)) \<and> cl_error cl1 = None \<and>
    cl_token cl1 = Some (getSignedJwtToken cfg (env_now e) u) \<and> cl_page cl1 = Some ''/home'' \<and>
    checkUserLoggedIn cfg e' True (cl1, srv1) =
      (cl1\<lparr>cl_user := Some (ProfUser (profile_of u)), cl_loading := False\<rparr>, srv) \<and>
    AuthProvider_mount cfg e' True (cl_token cl1) srv1 =
      (init_client\<lparr>cl_token := cl_token cl1, cl_user := Some (ProfUser (profile_of u)), cl_loading := False\<rparr>, srv)"
proof -
  from inv have wf: "store_wf (store srv)" by (simp add: server_inv_def store_inv_def)
  have login: "route cfg e (PostLogin (login_body (username u) pw)) srv = (sendTokenResponse cfg (env_now e) u 200, srv)"
    using route_login_stored [OF inv mem, of cfg e pw] pw by simp
  then have cl1: "cl1 = cl\<lparr>cl_loading := True, cl_error := None, cl_user := Some (PubUser (pub_of u)),
        cl_error := None, cl_token := Some (getSignedJwtToken cfg (env_now e) u), cl_page := Some ''/home'',
        cl_loading := False\<rparr>" and srv1: "srv1 = srv"
    using lg by (simp_all add: client_login_def proxy_login_def forward_up routable_def sendTokenResponse_def
      backend_reply_def res_ok_def)
  have tokne: "\<not> js_falsy (Some (getSignedJwtToken cfg (env_now e) u))"
    by (simp add: js_falsy_def getSignedJwtToken_def)
  have me: "route cfg e' (GetMe (Some (''Bearer '' @ getSignedJwtToken cfg (env_now e) u))) srv =
      ((200, DataResp (Some (profile_of u))), srv)"
    using route_getMe_bearer [OF protect_issued [OF mem wf fresh]] find_by_pk_in [OF wf mem] by simp
  have chk: "checkUserLoggedIn cfg e' True (c, srv) = (c\<lparr>cl_user := Some (ProfUser (profile_of u)), cl_loading := False\<rparr>, srv)"
    if "cl_token c = Some (getSignedJwtToken cfg (env_now e) u)" "cl_error c = None" for c
    using that tokne me by (simp add: checkUserLoggedIn_def proxy_me_def forward_up routable_def bearer_header_def
      js_falsy_def backend_reply_def res_ok_def)
  show ?thesis
    using chk [of cl1] chk [of "init_client\<lparr>cl_token := cl_token cl1\<rparr>"]
    by (simp add: cl1 srv1 AuthProvider_mount_def init_client_def)
qed

theorem client_login_session_witness:
  "\<exists>cl1. client_login demo_cfg demo_env True ''alice'' ''secret1'' (init_client, demo_srv1) = (cl1, demo_srv1) \<and>
     cl_user cl1 = Some (PubUser (pub_of demo_user)) \<and>
     checkUserLoggedIn demo_cfg demo_env True (cl1, demo_srv1) =
       (cl1\<lparr>cl_user := Some (ProfUser (profile_of demo_user)), cl_loading := False\<rparr>, demo_srv1)"
proof -
  have u: "username demo_user = ''alice''" by (simp add: demo_user_def beforeCreate_def new_user_def)
  have pw: "''secret1'' \<noteq> []" "bcrypt_compare ''secret1'' (password demo_user)"
    by (simp_all add: demo_user_def beforeCreate_def new_user_def bcrypt_hash_def)
  have fresh: "env_now demo_env div 1000 < env_now demo_env div 1000 + jwt_expire demo_cfg"
    by (simp add: demo_cfg_def)
  obtain cl1 srv1 where lg: "client_login demo_cfg demo_env True (username demo_user) ''secret1'' (init_client, demo_srv1) = (cl1, srv1)"
    by (metis prod.collapse)
  from client_login_session [OF demo_srv1_inv demo_user_in pw lg fresh] lg u show ?thesis by auto
qed

section \<open>Frames and refusals\<close>

text \<open>
  C15.  A forgot-password request, whatever its outcome (sent, not sent,
  unknown email, invalid body), leaves every stored user's id, username,
  email and password hash as they were: only the reset fields change, and
  \<open>beforeUpdate\<close> does not hash the stored hash again.
\<close>

theorem forgot_keeps_credentials:
  assumes inv: "server_inv srv" and fp: "route cfg e (PostForgotPassword b) srv = (resp, srv')"
  shows "map (\<lambda>r. (user_id r, username r, email r, password r)) (users (store srv')) =
         map (\<lambda>r. (user_id r, username r, email r, password r)) (users (store srv))"
proof (cases "validateForgotPassword b = []")
  case True
  with fp have "forgotPassword cfg e b srv = (resp, srv')" by (simp add: with_validator_def)
  from forgotPassword_credentials [OF inv this] show ?thesis by (simp add: credentials_def)
next
  case False
  with fp show ?thesis by (simp add: with_validator_def)
qed

theorem forgot_keeps_credentials_witness:
  "map (\<lambda>r. (user_id r, username r, email r, password r)) (users (store demo_srv2)) =
   map (\<lambda>r. (user_id r, username r, email r, password r)) (users (store demo_srv1))"
  using forgot_keeps_credentials [OF demo_srv1_inv demo_forgot] .

text \<open>
  C16.  A reset with a valid secret and a password longer than 100
  characters passes the validator but fails the model's length constraint in
  \<open>save\<close>; the handler's \<open>catch\<close> answers 500 "server error" and nothing
  changes.
\<close>

theorem reset_long_password_server_error:
  assumes inv: "server_inv srv"
    and found: "find_one (reset_match (sha256 cfg S) (env_now e)) (store srv) = Some u"
    and vb: "validateResetPassword b = []" and pwb: "body_password b = Some pw" and long: "100 < length pw"
  shows "route cfg e (PutResetPassword S b) srv = (fail 500 MsgServerError, srv)"
  using route_reset_cases [OF inv vb pwb, of cfg e S] found long by simp

theorem reset_long_password_server_error_witness:
  "route demo_cfg demo_env2 (PutResetPassword (hex_string (env_rnd demo_env)) demo_long_body) demo_srv2 =
     (fail 500 MsgServerError, demo_srv2)"
proof -
  have found: "find_one (reset_match (sha256 demo_cfg (hex_string (env_rnd demo_env))) (env_now demo_env2)) (store demo_srv2) =
      Some (pending_row demo_cfg demo_env demo_user)"
    by (simp add: find_one_def demo_srv2_def reset_match_def pending_row_def reset_expire_ms_def
        demo_env2_def demo_env_def)
  have vb: "validateResetPassword demo_long_body = []"
    by (simp add: demo_long_body_def validateResetPassword_def password_errors_def confirm_errors_def
        empty_body_def field_str_def js_falsy_def)
  have pwb: "body_password demo_long_body = Some (replicate 101 (CHR ''a''))"
    by (simp add: demo_long_body_def empty_body_def)
  show ?thesis
    by (rule reset_long_password_server_error [OF demo_srv2_inv found vb pwb]) simp
qed

text \<open>
  C17.  When no stored user holds the secret's digest with an expiry still
  ahead of the clock (wrong secret, expired secret, or none pending), a reset
  answers 400 (invalid or expired token after a valid body, the field errors
  otherwise) and changes nothing; the expiry instant itself is already too
  late.
\<close>

theorem reset_without_valid_token:
  assumes none: "\<forall>r\<in>set (users (store srv)). resetPasswordToken r = Some (sha256 cfg S) \<longrightarrow>
                   (case resetPasswordExpire r of None \<Rightarrow> True | Some x \<Rightarrow> x \<le> env_now e)"
  shows "route cfg e (PutResetPassword S b) srv =
    (if validateResetPassword b = [] then fail 400 MsgInvalidToken
     else (400, ErrorsResp (validateResetPassword b)), srv)"
proof -
  have "find_one (reset_match (sha256 cfg S) (env_now e)) (store srv) = None"
    using none by (auto simp: find_one_def find_None_ball reset_match_def split: option.splits)
  then show ?thesis by (simp add: with_validator_def resetPassword_def Let_def)
qed

theorem reset_without_valid_token_witness:
  "route demo_cfg (demo_env2\<lparr>env_now := 1000000 + 600000\<rparr>)
     (PutResetPassword (hex_string (env_rnd demo_env)) demo_reset_body) demo_srv2 =
   (fail 400 MsgInvalidToken, demo_srv2)"
proof -
  have none: "\<forall>r\<in>set (users (store demo_srv2)).
      resetPasswordToken r = Some (sha256 demo_cfg (hex_string (env_rnd demo_env))) \<longrightarrow>
      (case resetPasswordExpire r of None \<Rightarrow> True
       | Some x \<Rightarrow> x \<le> env_now (demo_env2\<lparr>env_now := 1000000 + 600000\<rparr>))"
    by (simp add: demo_srv2_def pending_row_def reset_expire_ms_def demo_env_def)
  show ?thesis
    using reset_without_valid_token [OF none, of demo_reset_body] demo_reset_body_ok by simp
qed

text \<open>
  C18.  Only three kinds of request change the server state: a registration
  that answers 201, a reset that answers 200, and a forgot-password request.
  Logins, \<open>/me\<close>, \<open>/logout\<close> and every failed registration or reset leave
  it as it was.
\<close>

theorem state_changing_requests:
  assumes ch: "snd (route cfg e r srv) \<noteq> srv"
  shows "(\<exists>b. r = PostRegister b \<and> fst (fst (route cfg e r srv)) = 201) \<or>
         (\<exists>S b. r = PutResetPassword S b \<and> fst (fst (route cfg e r srv)) = 200) \<or>
         (\<exists>b. r = PostForgotPassword b)"
proof (cases r)
  case (PostRegister b)
  with ch show ?thesis
    by (auto simp: with_validator_def register_def sendTokenResponse_def
        split: if_splits option.splits prod.splits sum.splits db_error.splits)
next
  case (PostLogin b)
  have "snd (login cfg e b srv) = srv"
    using login_state [of cfg e b srv "fst (login cfg e b srv)" "snd (login cfg e b srv)"] by simp
  with ch PostLogin show ?thesis by (simp add: with_validator_def)
next
  case (PutResetPassword S b)
  with ch show ?thesis
    by (auto simp: with_validator_def resetPassword_def sendTokenResponse_def Let_def
        split: if_splits option.splits prod.splits sum.splits)
next
  case (GetMe h)
  with ch show ?thesis
    by (auto simp: with_protect_def getMe_def split: sum.splits)
next
  case (GetLogout h)
  with ch show ?thesis
    by (auto simp: with_protect_def logout_def split: sum.splits)
qed simp

theorem state_changing_requests_witness:
  "snd (route demo_cfg demo_env (PostRegister (reg_body ''alice'' ''alice@x.com'' ''secret1'' ''secret1'')) init_server)
     \<noteq> init_server \<and>
   fst (fst (route demo_cfg demo_env (PostRegister (reg_body ''alice'' ''alice@x.com'' ''secret1'' ''secret1'')) init_server)) = 201"
proof -
  have ch: "snd (route demo_cfg demo_env (PostRegister (reg_body ''alice'' ''alice@x.com'' ''secret1'' ''secret1'')) init_server)
     \<noteq> init_server"
    by (simp only: demo_register snd_conv) (simp add: demo_srv1_def init_server_def empty_store_def)
  from state_changing_requests [OF ch] ch show ?thesis by simp
qed

section \<open>Concurrent registrations\<close>

text \<open>
  C19.  Two registrations for the same username, interleaved in any order
  at their \<open>await\<close> points, never both answer 201: the unique key on the
  username keeps the second insert out even when both checks passed.
\<close>

theorem register_race_exclusive:
  assumes "body_username bA = Some un" "body_username bB = Some un"
    and "interleave cfg sch (RegPending eA bA, RegPending eB bB) srv = ((pA, pB), srv')"
  shows "\<not> (reg_won pA \<and> reg_won pB)"
proof -
  have "race_inv un (RegPending eA bA) (RegPending eB bB) srv"
    using assms(1,2) by (simp add: race_inv_def reg_won_def)
  from interleave_race_inv [OF this assms(3)] show ?thesis by (simp add: race_inv_def)
qed

theorem register_race_exclusive_witness:
  "\<not> (reg_won (fst (fst (interleave demo_cfg [True, False, True, False]
        (RegPending demo_env (reg_body ''alice'' ''alice@x.com'' ''secret1'' ''secret1''),
         RegPending demo_env (reg_body ''alice'' ''other@x.com'' ''secret2'' ''secret2'')) init_server))) \<and>
       reg_won (snd (fst (interleave demo_cfg [True, False, True, False]
        (RegPending demo_env (reg_body ''alice'' ''alice@x.com'' ''secret1'' ''secret1''),
         RegPending demo_env (reg_body ''alice'' ''other@x.com'' ''secret2'' ''secret2'')) init_server))))"
proof -
  let ?r = "interleave demo_cfg [True, False, True, False]
        (RegPending demo_env (reg_body ''alice'' ''alice@x.com'' ''secret1'' ''secret1''),
         RegPending demo_env (reg_body ''alice'' ''other@x.com'' ''secret2'' ''secret2'')) init_server"
  have eq: "?r = ((fst (fst ?r), snd (fst ?r)), snd ?r)" by simp
  have "body_username (reg_body ''alice'' ''alice@x.com'' ''secret1'' ''secret1'') = Some ''alice''"
    "body_username (reg_body ''alice'' ''other@x.com'' ''secret2'' ''secret2'') = Some ''alice''"
    by (simp_all add: reg_body_def)
  from register_race_exclusive [OF this eq] show ?thesis .
qed

text \<open>
  C20.  When two registrations for the same username and different emails
  would each succeed alone, the first one wins in both schedules below, but
  the loser's answer depends on the interleaving: served one after the other
  it gets 400 "username taken"; with both checks before either insert it
  gets 500 "server error", because \<open>create\<close>'s unique-key error falls into the
  handler's generic \<open>catch\<close>.
\<close>

theorem register_race_outcome:
  assumes unA: "body_username bA = Some un" and unB: "body_username bB = Some un"
    and em: "body_email bA \<noteq> body_email bB"
    and okA: "fst (fst (route cfg eA (PostRegister bA) srv)) = 201"
    and okB: "fst (fst (route cfg eB (PostRegister bB) srv)) = 201"
  shows "interleave cfg [True, False, True, False] (RegPending eA bA, RegPending eB bB) srv =
           ((RegDone (fst (route cfg eA (PostRegister bA) srv)), RegDone (fail 500 MsgServerError)),
            snd (route cfg eA (PostRegister bA) srv)) \<and>
         interleave cfg [True, True, False, False] (RegPending eA bA, RegPending eB bB) srv =
           ((RegDone (fst (route cfg eA (PostRegister bA) srv)), RegDone (fail 400 MsgUsernameTaken)),
            snd (route cfg eA (PostRegister bA) srv))"
proof -
  obtain unA' emA uA stA where vA: "validateRegister bA = []" and chkA: "register_check bA srv = Inr (unA', emA)"
    and crA: "create (env_salt eA) (env_now eA) unA' emA (body_password bA) (store srv) = Inr (uA, stA)"
    and rA: "route cfg eA (PostRegister bA) srv = (sendTokenResponse cfg (env_now eA) uA 201, srv\<lparr>store := stA\<rparr>)"
    using route_register_created_split [OF okA] by blast
  obtain unB' emB uB stB where vB: "validateRegister bB = []" and chkB: "register_check bB srv = Inr (unB', emB)"
    and crB: "create (env_salt eB) (env_now eB) unB' emB (body_password bB) (store srv) = Inr (uB, stB)"
    using route_register_created_split [OF okB] by blast
  from register_check_Inr [OF chkA] unA have a: "unA' = un" "body_email bA = Some emA" by simp_all
  from register_check_Inr [OF chkB] unB have b: "unB' = un" "body_email bB = Some emB"
    and noB: "find_one (\<lambda>r. email r = emB \<or> username r = un) (store srv) = None" by simp_all
  from a b em have emAB: "emA \<noteq> emB" by simp
  from crA a have stA: "users stA = users (store srv) @ [uA]" "username uA = un" "email uA = emA"
    by (auto simp: create_Inr_iff new_user_def)
  let ?srv1 = "srv\<lparr>store := stA\<rparr>"
  have stepA1: "reg_step cfg (RegPending eA bA) srv = (RegChecked eA bA un emA, srv)"
    using vA chkA a by simp
  have stepB1: "reg_step cfg (RegPending eB bB) srv = (RegChecked eB bB un emB, srv)"
    using vB chkB b by simp
  have stepA2: "reg_step cfg (RegChecked eA bA un emA) srv =
      (RegDone (sendTokenResponse cfg (env_now eA) uA 201), ?srv1)"
    using crA a by (simp add: register_commit_def)
  have "list_ex (\<lambda>r. username r = un \<or> email r = emB) (users stA)"
    using stA by (simp add: list_ex_iff)
  then have "create (env_salt eB) (env_now eB) un emB (body_password bB) stA = Inl UniqueConstraintError"
    using create_taken crB b by blast
  then have stepB2: "reg_step cfg (RegChecked eB bB un emB) ?srv1 = (RegDone (fail 500 MsgServerError), ?srv1)"
    by (simp add: register_commit_def)
  have "find_one (\<lambda>r. email r = emB \<or> username r = un) (store ?srv1) = Some uA"
    using noB stA by (simp add: find_one_def find_append_None)
  then have "register_check bB ?srv1 = Inl (fail 400 MsgUsernameTaken)"
    using unB b stA emAB by (simp add: register_check_def)
  then have stepB1': "reg_step cfg (RegPending eB bB) ?srv1 = (RegDone (fail 400 MsgUsernameTaken), ?srv1)"
    using vB by simp
  show ?thesis
    using stepA1 stepB1 stepA2 stepB2 stepB1' rA by simp
qed

theorem register_race_outcome_witness:
  "snd (fst (interleave demo_cfg [True, False, True, False]
      (RegPending demo_env (reg_body ''alice'' ''alice@x.com'' ''secret1'' ''secret1''),
       RegPending demo_env (reg_body ''alice'' ''other@x.com'' ''secret2'' ''secret2'')) init_server)) =
   RegDone (fail 500 MsgServerError)"
proof -
  have okA: "fst (fst (route demo_cfg demo_env (PostRegister (reg_body ''alice'' ''alice@x.com'' ''secret1'' ''secret1'')) init_server)) = 201"
    by (simp only: demo_register fst_conv)
  show ?thesis
    using register_race_outcome [OF _ _ _ okA demo_register_other, where un = "''alice''"]
    by (simp add: reg_body_def)
qed

section \<open>Shapes, headers and secrets\<close>

text \<open>
  C21.  Every answer is well shaped: the backend's router and the five
  Next.js proxies, on any request, state, method and backend availability,
  answer \<open>success: true\<close> exactly with a 2xx status, a token only with 200
  or 201, a profile only with 200, and a non-empty error list only with
  400.
\<close>

theorem responses_well_shaped:
  "resp_wf (fst (route cfg e r srv)) \<and>
   resp_wf (fst (proxy_login cfg e up m b srv)) \<and> resp_wf (fst (proxy_register cfg e up m b srv)) \<and>
   resp_wf (fst (proxy_me cfg e up m h srv)) \<and> resp_wf (fst (proxy_logout cfg e up m h srv)) \<and>
   resp_wf (fst (proxy_reset cfg e up m tok b srv))"
  by (simp add: shape_rules proxy_login_def proxy_register_def proxy_me_def proxy_logout_def proxy_reset_def)

text \<open>
  C22.  The header the client builds from its stored token,
  \<open>`Bearer ${token}`\<close>, is read back by \<open>protect\<close> as that token when the
  token has no space; with no stored token the header is \<open>Bearer null\<close> and
  \<open>protect\<close> reads the token \<open>null\<close>.
\<close>

theorem bearer_header_roundtrip:
  assumes "CHR '' '' \<notin> set t"
  shows "bearer_token (bearer_header (Some t)) = Some t \<and> bearer_token (bearer_header None) = Some ''null''"
proof -
  have "bearer_token (Some (''Bearer '' @ t)) = Some t" using assms by (rule bearer_token_Bearer)
  moreover have "bearer_token (Some (''Bearer '' @ ''null'')) = Some ''null''" by (rule bearer_token_Bearer) simp
  ultimately show ?thesis by (simp add: bearer_header_def)
qed

theorem bearer_header_roundtrip_witness:
  "bearer_token (bearer_header (Some (getSignedJwtToken demo_cfg 1000000 demo_user))) =
     Some (getSignedJwtToken demo_cfg 1000000 demo_user)"
proof -
  have "CHR '' '' \<notin> set (getSignedJwtToken demo_cfg 1000000 demo_user)"
    by (simp add: getSignedJwtToken_def jwt_sign_no_space)
  from bearer_header_roundtrip [OF this] show ?thesis by simp
qed

text \<open>
  C23.  A reset secret made from twenty random bytes is forty lowercase hex
  characters that decode back to the bytes, the row stores its SHA-256
  digest, and the expiry is exactly 600000 ms after the request.
\<close>

theorem reset_token_bounds:
  assumes len: "length rnd = 20" and gr: "getResetPasswordToken cfg t rnd u = (tok, u')"
  shows "length tok = 40 \<and> set tok \<subseteq> set hex_alphabet \<and> hex_decode tok = Some rnd \<and>
    resetPasswordToken u' = Some (sha256 cfg tok) \<and> resetPasswordExpire u' = Some (t + 600000)"
proof -
  from getResetPasswordToken_fields [OF gr]
  have tok: "tok = hex_string rnd" and "resetPasswordToken u' = Some (sha256 cfg tok)"
    and "resetPasswordExpire u' = Some (t + reset_expire_ms)" by simp_all
  with len show ?thesis
    by (simp add: hex_string_lower hex_decode_hex_string reset_expire_ms_def)
qed

theorem reset_token_bounds_witness:
  "length (fst (getResetPasswordToken demo_cfg 0 (replicate 20 255) demo_user)) = 40"
  using reset_token_bounds [of "replicate 20 255" demo_cfg 0 demo_user] by (metis length_replicate prod.collapse)

section \<open>The Express application and the pages\<close>

text \<open>
  C24.  The sign-up form's own checks accept exactly the password and
  confirmation that the backend's register validator accepts: the form
  refuses a mismatch or a password under six characters, and these are the
  password and confirmation errors \<open>validateRegister\<close> reports on the body the
  client sends.
\<close>

theorem signup_checks_backend:
  "signup_checks pw cpw = None \<longleftrightarrow>
   password_errors (body_password (reg_body un em pw cpw)) @ confirm_errors (reg_body un em pw cpw) = []"
  by (auto simp: signup_checks_def password_errors_def confirm_errors_def reg_body_def js_falsy_def field_str_def)

text \<open>
  C25.  Submitting the login page in forgot-password mode with an email
  always ends with the context's "not JSON" error shown and loading stopped,
  without reaching the backend: the client calls an API route that does not
  exist.
\<close>

theorem forgot_mode_fails:
  assumes "lf_forgot f" "\<not> lf_signup f" "lf_email f \<noteq> []"
  shows "login_submit cfg e up f (cl, srv) =
    (f\<lparr>lf_loading := False, lf_status := StatusError (PMContext ErrNotJson)\<rparr>,
     cl\<lparr>cl_loading := False, cl_error := Some ErrNotJson,
        cl_page := (if cl_user cl \<noteq> None then Some ''/home'' else cl_page cl)\<rparr>, srv)"
  using assms by (simp add: login_submit_def client_forgotPassword_def login_effects_def Let_def)

theorem forgot_mode_fails_witness:
  "lf_status (fst (login_submit demo_cfg demo_env True
      (init_login_form\<lparr>lf_forgot := True, lf_email := ''alice@x.com''\<rparr>) (init_client, demo_srv1))) =
   StatusError (PMContext ErrNotJson)"
proof -
  have "lf_forgot (init_login_form\<lparr>lf_forgot := True, lf_email := ''alice@x.com''\<rparr>)"
    "\<not> lf_signup (init_login_form\<lparr>lf_forgot := True, lf_email := ''alice@x.com''\<rparr>)"
    "lf_email (init_login_form\<lparr>lf_forgot := True, lf_email := ''alice@x.com''\<rparr>) \<noteq> []"
    by (simp_all add: init_login_form_def)
  from forgot_mode_fails [OF this, of demo_cfg demo_env True init_client demo_srv1] show ?thesis by simp
qed

text \<open>
  C26.  Recovery is always possible at the backend: in every reachable
  state, for every stored user and every valid new password of at most 100
  characters, there are request inputs under which a forgot-password
  request for the user's email, a reset with the mailed secret, and a login
  with the new password all answer 200.  The inputs are a delivered mail and
  random bytes whose digest no row holds; these exist when the digest is
  injective on the twenty-byte secrets and the table has fewer than
  \<open>2^160\<close> rows.
\<close>

theorem recovery_always_possible:
  assumes reach: "reachable cfg srv" and mem: "u \<in> set (users (store srv))"
    and inj: "inj_on (sha256 cfg) (hex_string ` {bs :: byte list. length bs = 20})"
    and few: "length (users (store srv)) < 2 ^ 160"
    and vb: "validateResetPassword b = []" and pwb: "body_password b = Some pw" and len: "length pw \<le> 100"
  shows "\<exists>e e'. map fst (fst (run cfg [(e, PostForgotPassword (forgot_body (email u))),
                                     (e', PutResetPassword (hex_string (env_rnd e)) b),
                                     (e'', PostLogin (login_body (username u) pw))] srv)) = [200, 200, 200]"
proof -
  from stored_digests_fresh [OF inj few] obtain bs :: "byte list"
    where fresh: "list_all (\<lambda>r. resetPasswordToken r \<noteq> Some (sha256 cfg (hex_string bs))) (users (store srv))"
    by blast
  define e where "e = \<lparr>env_now = 0, env_salt = 0, env_rnd = bs, env_mail_ok = True\<rparr>"
  define e' where "e' = e"
  obtain resp srv1 where fp: "route cfg e (PostForgotPassword (forgot_body (email u))) srv = (resp, srv1)"
    by (metis prod.exhaust)
  obtain resp2 srv2 where rs: "route cfg e' (PutResetPassword (hex_string (env_rnd e)) b) srv1 = (resp2, srv2)"
    by (metis prod.exhaust)
  have time: "env_now e' < env_now e + reset_expire_ms" by (simp add: e'_def reset_expire_ms_def)
  have pw6: "pw \<noteq> []" using validateResetPassword_Nil_fields [OF vb] pwb by auto
  from forgot_reset_login [OF reachable_server_inv [OF reach] mem _ _ fp time vb pwb len rs, of e'']
  have "fst resp = 200 \<and> fst resp2 = 200 \<and> fst (fst (route cfg e'' (PostLogin (login_body (username u) pw)) srv2)) = 200"
    using fresh pw6 by (simp add: e_def)
  moreover have "fst (run cfg [(e, PostForgotPassword (forgot_body (email u))),
      (e', PutResetPassword (hex_string (env_rnd e)) b), (e'', PostLogin (login_body (username u) pw))] srv) =
    [resp, resp2, fst (route cfg e'' (PostLogin (login_body (username u) pw)) srv2)]"
    using fp rs by (simp add: split_def Let_def del: route.simps)
  ultimately show ?thesis
    by (intro exI [of _ e] exI [of _ e']) (simp del: route.simps)
qed

theorem recovery_always_possible_witness:
  "\<exists>e e'. map fst (fst (run demo_cfg [(e, PostForgotPassword (forgot_body (email demo_user))),
                                     (e', PutResetPassword (hex_string (env_rnd e)) demo_reset_body),
                                     (demo_env, PostLogin (login_body (username demo_user) ''secret3''))] demo_srv1)) = [200, 200, 200]"
proof -
  have reach: "reachable demo_cfg demo_srv1" by (rule reachable.step [OF reachable.init demo_register])
  have inj: "inj_on (sha256 demo_cfg) (hex_string ` {bs :: byte list. length bs = 20})"
    by (simp add: demo_cfg_def inj_on_def)
  have few: "length (users (store demo_srv1)) < 2 ^ 160" by (simp add: demo_srv1_def)
  have len: "length ''secret3'' \<le> 100" by simp
  show ?thesis using recovery_always_possible [OF reach demo_user_in inj few demo_reset_body_ok len] by simp
qed

section \<open>The reset mail\<close>

text \<open>
  C27.  The reset link round-trips: the first link of the mail that
  \<open>forgotPassword\<close> hands to \<open>sendEmail\<close> is exactly
  \<open>${req.protocol}://${req.get('host')}/reset-password/${resetToken}\<close>, and
  Next.js's page route \<open>reset-password/[token]\<close> reads the secret back from
  that link's path, for every non-empty hex secret, every protocol without
  \<open>:\<close> and every host without \<open>/\<close>.
\<close>

theorem reset_link_roundtrip:
  assumes proto: "CHR '':'' \<notin> set proto" and host: "CHR ''/'' \<notin> set host"
    and quote: "dq \<notin> set (proto @ host)" and tok: "mail_token m = hex_string bs" "bs \<noteq> []"
  shows "mail_link (mo_html (reset_mail_options vars proto host m)) = Some (reset_url proto host (hex_string bs)) \<and>
    next_reset_page (snd (url_split (reset_url proto host (hex_string bs)))) = Some (hex_string bs)"
  using reset_mail_link [OF quote tok(1)] hex_string_token [OF tok(2)] url_split_reset_url [OF proto host]
    next_reset_page_token by simp

theorem reset_link_roundtrip_witness:
  "mail_link (mo_html (reset_mail_options (\<lambda>_. None) ''http'' ''localhost:5000''
      \<lparr>mail_to = ''alice@x.com'', mail_token = hex_string (env_rnd demo_env)\<rparr>)) =
     Some (reset_url ''http'' ''localhost:5000'' (hex_string (env_rnd demo_env))) \<and>
   next_reset_page (snd (url_split (reset_url ''http'' ''localhost:5000'' (hex_string (env_rnd demo_env))))) =
     Some (hex_string (env_rnd demo_env))"
proof -
  have "CHR '':'' \<notin> set ''http''" "CHR ''/'' \<notin> set ''localhost:5000''"
    "dq \<notin> set (''http'' @ ''localhost:5000'')" "env_rnd demo_env \<noteq> []"
    by (simp_all add: dq_def demo_env_def)
  from reset_link_roundtrip [where m = "\<lparr>mail_to = ''alice@x.com'', mail_token = hex_string (env_rnd demo_env)\<rparr>"
      and vars = "\<lambda>_. None", OF this(1,2,3) _ this(4)]
  show ?thesis by simp
qed

text \<open>
  C28.  The reset link names the backend's own host (the \<open>Host\<close> header of
  the request that reached Express), but the backend serves no
  \<open>GET /reset-password/:token\<close>: requesting the link's path from the
  application answers Express's 404 page and changes nothing.
\<close>

theorem reset_link_backend_404:
  assumes "CHR '':'' \<notin> set proto" "CHR ''/'' \<notin> set host"
  shows "app_dispatch cfg e \<lparr>hreq_method = HGet, hreq_url = snd (url_split (reset_url proto host tok)),
           hreq_auth = h, hreq_body = JsonBody b\<rparr> srv = (TextResp 404, srv)"
proof -
  let ?p = "url_path (''/reset-password/'' @ tok)"
  have "\<not> path_is ?p ''/test''" "\<not> path_is ?p ''/''"
    by (rule path_is_long, simp add: url_path_def)+
  then show ?thesis
    using url_split_reset_url [OF assms] mount_rest_reset_page [of tok]
    by (simp add: app_dispatch_def app_fallthrough_def Let_def)
qed

theorem reset_link_backend_404_witness:
  "app_dispatch demo_cfg demo_env \<lparr>hreq_method = HGet,
      hreq_url = snd (url_split (reset_url ''http'' ''localhost:5000'' (hex_string (env_rnd demo_env)))),
      hreq_auth = None, hreq_body = JsonBody empty_body\<rparr> demo_srv1 = (TextResp 404, demo_srv1)"
proof -
  have "CHR '':'' \<notin> set ''http''" "CHR ''/'' \<notin> set ''localhost:5000''" by simp_all
  from reset_link_backend_404 [OF this] show ?thesis .
qed

section \<open>The diagnostics utility\<close>

text \<open>
  C29.  Against a reachable backend whose state satisfies the invariant,
  \<open>runFullDiagnostic\<close> with the random suffix \<open>N < 10000\<close> reports success
  exactly when no stored user has the username \<open>test_user_N\<close> or the email
  \<open>testN@example.com\<close>: the status and CORS probes pass, the test
  registration succeeds, and the login with it succeeds.
\<close>

theorem diagnostic_success_iff:
  assumes inv: "server_inv srv" and n: "n < 10000"
  shows "diag_success (fst (runFullDiagnostic cfg e1 e2 True n srv)) \<longleftrightarrow>
    \<not> list_ex (\<lambda>r. username r = test_username n \<or> email r = test_email n) (users (store srv))"
  using runFullDiagnostic_taken [OF n, of srv cfg e1 e2] runFullDiagnostic_fresh [OF inv n, of cfg e1 e2]
  by blast

theorem diagnostic_success_iff_witness:
  "diag_success (fst (runFullDiagnostic demo_cfg demo_env demo_env True 42 demo_srv1))"
proof -
  have "\<not> list_ex (\<lambda>r. username r = test_username 42 \<or> email r = test_email 42) (users (store demo_srv1))"
    by (simp add: demo_srv1_def demo_user_def beforeCreate_def new_user_def test_username_def test_email_def)
  then show ?thesis using diagnostic_success_iff [OF demo_srv1_inv, of 42] by simp
qed

text \<open>
  C30.  A successful diagnostic leaves its test account behind: afterwards
  anyone can log in as \<open>test_user_N\<close> with the fixed password
  \<open>Test123456\<close> written in the client's source.
\<close>

theorem diagnostic_leaves_account:
  assumes inv: "server_inv srv" and n: "n < 10000"
    and ok: "diag_success (fst (runFullDiagnostic cfg e1 e2 True n srv))"
  shows "fst (fst (route cfg e (PostLogin (login_body (test_username n) test_password))
                (snd (runFullDiagnostic cfg e1 e2 True n srv)))) = 200"
proof -
  have "\<not> list_ex (\<lambda>r. username r = test_username n \<or> email r = test_email n) (users (store srv))"
    using runFullDiagnostic_taken [OF n, of srv cfg e1 e2] ok by blast
  from runFullDiagnostic_fresh [OF inv n this, of cfg e1 e2] obtain u st' where
    inv1: "server_inv (srv\<lparr>store := st'\<rparr>)" and mem: "u \<in> set (users st')" and un: "username u = test_username n"
    and cmp: "bcrypt_compare test_password (password u)"
    and st: "snd (runFullDiagnostic cfg e1 e2 True n srv) = srv\<lparr>store := st'\<rparr>"
    by blast
  have "validateLogin (login_body (username u) test_password) = []"
    by (simp add: un test_login_valid)
  from route_login_success [OF inv1 _ cmp this, of cfg e] mem show ?thesis
    by (simp add: st un sendTokenResponse_def)
qed

theorem diagnostic_leaves_account_witness:
  "fst (fst (route demo_cfg demo_env2 (PostLogin (login_body (test_username 42) test_password))
      (snd (runFullDiagnostic demo_cfg demo_env demo_env True 42 demo_srv1)))) = 200"
proof -
  have "\<not> list_ex (\<lambda>r. username r = test_username 42 \<or> email r = test_email 42) (users (store demo_srv1))"
    by (simp add: demo_srv1_def demo_user_def beforeCreate_def new_user_def test_username_def test_email_def)
  with runFullDiagnostic_fresh [OF demo_srv1_inv, of 42 demo_cfg demo_env demo_env]
  have "diag_success (fst (runFullDiagnostic demo_cfg demo_env demo_env True 42 demo_srv1))" by auto
  from diagnostic_leaves_account [OF demo_srv1_inv _ this] show ?thesis by simp
qed

section \<open>The login page's views\<close>

text \<open>
  C31.  In every reachable state, what a submit of the login page sends and
  does to the client depends only on the fields the page shows: two forms in
  the same mode that agree on the visible inputs give the same client and
  backend state.
\<close>

theorem hidden_fields_ignored:
  assumes r: "form_reachable f" and modes: "lf_signup g = lf_signup f" "lf_forgot g = lf_forgot f"
    and shown: "\<forall>x\<in>set (lv_fields (login_view_of f)). field_value g x = field_value f x"
  shows "snd (login_submit cfg e up g cs) = snd (login_submit cfg e up f cs)"
proof -
  have ex: "\<not> (lf_signup f \<and> lf_forgot f)" by (rule form_modes_exclusive [OF r])
  obtain cl srv where cs: "cs = (cl, srv)" by (cases cs)
  consider (signup) "lf_signup f" | (forgot) "\<not> lf_signup f" "lf_forgot f" | (login) "\<not> lf_signup f" "\<not> lf_forgot f"
    by blast
  then show ?thesis
  proof cases
    case signup
    with ex shown have "lf_username g = lf_username f" "lf_email g = lf_email f"
      "lf_password g = lf_password f" "lf_confirm g = lf_confirm f"
      by (auto simp: login_view_of_def)
    with signup modes show ?thesis
      by (simp add: cs login_submit_def login_effects_def Let_def split_def split: option.splits)
  next
    case forgot
    with shown have "lf_email g = lf_email f" by (auto simp: login_view_of_def)
    with forgot modes show ?thesis
      by (simp add: cs login_submit_def login_effects_def Let_def split_def)
  next
    case login
    with shown have "lf_username g = lf_username f" "lf_password g = lf_password f"
      by (auto simp: login_view_of_def)
    with login modes show ?thesis
      by (simp add: cs login_submit_def login_effects_def Let_def split_def)
  qed
qed

theorem hidden_fields_ignored_witness:
  "snd (login_submit demo_cfg demo_env True (init_login_form\<lparr>lf_email := ''x@y.com''\<rparr>) (init_client, init_server)) =
   snd (login_submit demo_cfg demo_env True init_login_form (init_client, init_server))"
proof -
  have "\<forall>x\<in>set (lv_fields (login_view_of init_login_form)).
      field_value (init_login_form\<lparr>lf_email := ''x@y.com''\<rparr>) x = field_value init_login_form x"
    by (simp add: login_view_of_def init_login_form_def)
  from hidden_fields_ignored [OF form_reachable.init _ _ this] show ?thesis by simp
qed

section \<open>Progress of concurrent registrations\<close>

section \<open>What the reset page shows\<close>

text \<open>
  C32.  A reset submitted from the page with a token and matching passwords
  of six or more characters leaves the page showing the bare form: no error
  message, no success message, no spinner, as if nothing had been sent.  And
  whatever the user does on the page (typing, submitting any number of times,
  following the links) and whenever the timer would fire, the backend never
  changes, the success message never shows and the redirect to \<open>/home\<close> is
  never armed.
\<close>

theorem reset_page_no_feedback:
  assumes "rf_password f = rf_confirm f" "6 \<le> length (rf_password f)" "\<not> js_falsy tok" "\<not> rf_success f"
  shows "reset_render tok (fst (reset_submit cfg e up tok f cs)) = ResetFormView None False \<and>
    (\<forall>evs. snd (snd (reset_page_run cfg up tok evs (init_reset_page, cs))) = snd cs \<and>
       reset_render tok (rp_form (fst (reset_page_run cfg up tok evs (init_reset_page, cs)))) \<noteq> ResetDone \<and>
       \<not> rp_timer (fst (reset_page_run cfg up tok evs (init_reset_page, cs))))"
proof -
  obtain cl srv where cs: "cs = (cl, srv)" by (cases cs)
  from reset_submit_checked [OF assms(1-3), of cfg e up cl srv]
  obtain cl' where "reset_submit cfg e up tok f cs = (f\<lparr>rf_loading := False, rf_error := RfNone\<rparr>, cl', srv)"
    by (auto simp: cs)
  with assms(3,4) have view: "reset_render tok (fst (reset_submit cfg e up tok f cs)) = ResetFormView None False"
    by (simp add: reset_render_def)
  have qa: "reset_page_quiet srv (reset_page_run cfg up tok evs (init_reset_page, cl, srv))" for evs
    by (rule reset_page_run_quiet) (simp add: reset_page_quiet_def init_reset_page_def init_reset_form_def)
  have q: "snd (snd (reset_page_run cfg up tok evs (init_reset_page, cl, srv))) = srv \<and>
      \<not> rf_success (rp_form (fst (reset_page_run cfg up tok evs (init_reset_page, cl, srv)))) \<and>
      \<not> rp_timer (fst (reset_page_run cfg up tok evs (init_reset_page, cl, srv)))" for evs
    using qa [of evs] by (cases "reset_page_run cfg up tok evs (init_reset_page, cl, srv)") (simp add: reset_page_quiet_def)
  then have "reset_render tok (rp_form (fst (reset_page_run cfg up tok evs (init_reset_page, cl, srv)))) \<noteq> ResetDone"
    for evs by (simp add: reset_render_def)
  with q view show ?thesis by (simp add: cs)
qed

theorem reset_page_no_feedback_witness:
  "reset_render (Some ''abc'') (fst (reset_submit demo_cfg demo_env True (Some ''abc'') demo_reset_form
     (init_client, demo_srv1))) = ResetFormView None False"
proof -
  have "rf_password demo_reset_form = rf_confirm demo_reset_form" "6 \<le> length (rf_password demo_reset_form)"
    "\<not> js_falsy (Some ''abc'')" "\<not> rf_success demo_reset_form"
    by (simp_all add: demo_reset_form_def)
  from reset_page_no_feedback [OF this] show ?thesis by blast
qed

section \<open>Deployment\<close>

section \<open>From the mail to the reset\<close>

text \<open>
  C33.  The secret travels intact from the backend to the reset: after a
  forgot-password request for a stored user, the last mail of the outbox is
  addressed to the user, the reset page's route reads a token from the link
  \<open>sendEmail\<close> delivers, and that token, sent by the reset proxy with a valid
  password and confirmation within ten minutes, answers 200.  Only the body
  the client builds (C13) breaks the recovery flow.
\<close>

theorem mailed_secret_resets:
  assumes inv: "server_inv srv" and mem: "u \<in> set (users (store srv))" and mail: "env_mail_ok e"
    and rnd: "length (env_rnd e) = 20"
    and fresh: "list_all (\<lambda>r. resetPasswordToken r \<noteq> Some (sha256 cfg (hex_string (env_rnd e)))) (users (store srv))"
    and fp: "route cfg e (PostForgotPassword (forgot_body (email u))) srv = (resp, srv1)"
    and link: "CHR '':'' \<notin> set proto" "CHR ''/'' \<notin> set host" "dq \<notin> set (proto @ host)"
    and time: "env_now e' < env_now e + 600000"
    and vb: "validateResetPassword b = []" and pwb: "body_password b = Some pw" and len: "length pw \<le> 100"
  shows "mail_to (last (outbox srv1)) = email u \<and>
    (\<exists>tok. next_reset_page (snd (url_split (the (mail_link (mo_html (reset_mail_options vars proto host (last (outbox srv1)))))))) =
        Some tok \<and> fst (fst (proxy_reset cfg e' True HPut (Some tok) b srv1)) = 200)"
proof -
  let ?tok = "hex_string (env_rnd e)"
  from fresh mem have new: "resetPasswordToken u \<noteq> Some (sha256 cfg ?tok)" by (simp add: list_all_iff)
  have last: "last (outbox srv1) = \<lparr>mail_to = email u, mail_token = ?tok\<rparr>"
    using fp route_forgot_sent [OF inv mem mail new] by auto
  have ne: "env_rnd e \<noteq> []" using rnd by auto
  have page: "next_reset_page (snd (url_split (the (mail_link (mo_html (reset_mail_options vars proto host (last (outbox srv1)))))))) =
      Some ?tok"
    by (rule reset_mail_token [OF link _ ne]) (simp add: last)
  have tok: "?tok \<noteq> []" "CHR ''/'' \<notin> set ?tok" "CHR ''?'' \<notin> set ?tok"
    using hex_string_token [OF ne] by simp_all
  then have "routable (PutResetPassword ?tok b)" by (simp add: routable_def)
  then have "proxy_reset cfg e' True HPut (Some ?tok) b srv1 = route cfg e' (PutResetPassword ?tok b) srv1"
    using forward_up [of relay] by (simp add: proxy_reset_def js_falsy_def field_str_def tok(1))
  moreover obtain resp2 srv2 where rs: "route cfg e' (PutResetPassword ?tok b) srv1 = (resp2, srv2)"
    by (metis prod.collapse)
  moreover have "env_now e' < env_now e + reset_expire_ms" using time by (simp add: reset_expire_ms_def)
  ultimately have "fst (fst (proxy_reset cfg e' True HPut (Some ?tok) b srv1)) = 200"
    using forgot_reset_login [OF inv mem mail fresh fp _ vb pwb len rs, of e'] by simp
  with page last show ?thesis by auto
qed

theorem mailed_secret_resets_witness:
  "mail_to (last (outbox (snd (route demo_cfg demo_env20 (PostForgotPassword (forgot_body (email demo_user))) demo_srv1)))) =
     email demo_user \<and>
   (\<exists>tok. next_reset_page (snd (url_split (the (mail_link (mo_html (reset_mail_options (\<lambda>_. None) ''http'' ''localhost:5000''
        (last (outbox (snd (route demo_cfg demo_env20 (PostForgotPassword (forgot_body (email demo_user))) demo_srv1)))))))))) =
      Some tok \<and>
      fst (fst (proxy_reset demo_cfg demo_env2 True HPut (Some tok) demo_reset_body
        (snd (route demo_cfg demo_env20 (PostForgotPassword (forgot_body (email demo_user))) demo_srv1)))) = 200)"
proof -
  have facts: "env_mail_ok demo_env20" "length (env_rnd demo_env20) = 20"
    "list_all (\<lambda>r. resetPasswordToken r \<noteq> Some (sha256 demo_cfg (hex_string (env_rnd demo_env20)))) (users (store demo_srv1))"
    "CHR '':'' \<notin> set ''http''" "CHR ''/'' \<notin> set ''localhost:5000''" "dq \<notin> set (''http'' @ ''localhost:5000'')"
    "env_now demo_env2 < env_now demo_env20 + 600000" "length ''secret3'' \<le> 100"
    by (simp_all add: demo_env20_def demo_env_def demo_env2_def demo_srv1_def demo_user_def beforeCreate_def
        new_user_def dq_def)
  show ?thesis
    using mailed_secret_resets [OF demo_srv1_inv demo_user_in facts(1,2,3) prod.collapse [symmetric] facts(4,5,6,7)
        demo_reset_body_ok facts(8), of "\<lambda>_. None"]
    by simp
qed

section \<open>The 72-byte limit of bcrypt\<close>

text \<open>
  C34.  bcrypt checks only the first 72 bytes of a password: after a
  successful registration with a password of at least 72 bytes (the
  validators allow up to 100), logging in with any password that has the
  same first 72 bytes succeeds, with the same public user, even when the
  rest differs.
\<close>

theorem login_checks_72_bytes:
  assumes inv: "server_inv srv"
    and reg: "route cfg e (PostRegister b) srv = ((201, TokenResp tok pu), srv1)"
    and un: "body_username b = Some un" and pw: "body_password b = Some pw"
    and long: "bcrypt_max_bytes \<le> length pw"
    and pre: "take bcrypt_max_bytes pw0 = take bcrypt_max_bytes pw"
  shows "\<exists>tok'. route cfg e' (PostLogin (login_body un pw0)) srv1 = ((200, TokenResp tok' pu), srv1)"
proof -
  obtain u where pu: "pu = pub_of u"
    and all: "\<forall>e' pw0. route cfg e' (PostLogin (login_body un pw0)) srv1 =
      (if pw0 = [] then ((400, ErrorsResp [(FPassword, PasswordRequired)]), srv1)
       else if bcrypt_key pw0 = bcrypt_key pw then (sendTokenResponse cfg (env_now e') u 200, srv1)
       else (fail 401 MsgInvalidCredentials, srv1))"
    using route_register_login [OF inv reg un pw] by blast
  from pre have "min (length pw0) bcrypt_max_bytes = min (length pw) bcrypt_max_bytes"
    by (metis length_take)
  with long have long0: "bcrypt_max_bytes \<le> length pw0" by (simp add: min_def split: if_splits)
  then have "pw0 \<noteq> []" using bcrypt_max_bytes_pos by auto
  moreover have "bcrypt_key pw0 = bcrypt_key pw" using long long0 pre by (simp add: bcrypt_key_long)
  ultimately show ?thesis using all by (simp add: sendTokenResponse_def pu)
qed

theorem login_checks_72_bytes_witness:
  "demo_pw74 \<noteq> demo_pw80 \<and>
   (\<exists>tok'. route demo_cfg demo_env (PostLogin (login_body ''alice'' demo_pw74))
      (init_server\<lparr>store := \<lparr>users = [demo_long_user], next_id = 2\<rparr>\<rparr>) =
    ((200, TokenResp tok' (pub_of demo_long_user)), init_server\<lparr>store := \<lparr>users = [demo_long_user], next_id = 2\<rparr>\<rparr>))"
proof -
  have h: "body_username (reg_body ''alice'' ''alice@x.com'' demo_pw80 demo_pw80) = Some ''alice''"
    "body_password (reg_body ''alice'' ''alice@x.com'' demo_pw80 demo_pw80) = Some demo_pw80"
    "bcrypt_max_bytes \<le> length demo_pw80"
    "take bcrypt_max_bytes demo_pw74 = take bcrypt_max_bytes demo_pw80"
    by (simp_all add: reg_body_def demo_pw80_def demo_pw74_def bcrypt_max_bytes_def)
  have ne: "demo_pw74 \<noteq> demo_pw80" by (simp add: demo_pw80_def demo_pw74_def)
  from login_checks_72_bytes [OF init_server_inv demo_register_long h, where e' = demo_env] ne
  show ?thesis by blast
qed

end
